theory Spec2Isabelle
  imports Complex_Main
begin

section \<open>QuickBooks migrator: errors and the HTTP fetcher\<close>

text \<open>
  The Python exceptions that the modelled code can raise. Every raise of the source is a
  value of this type; a function that can raise returns \<open>error + 'a\<close>.
\<close>

datatype error =
    IndexError
  | KeyError
  | UnboundLocalError
  | StopIteration
  | ZeroDivisionError
  | DoesNotExistError
  | ValidationError
  | RecursionError
  | ConnectionError
  | TokenError

subsection \<open>\<open>_get\<close>: authorised GET with token refresh\<close>

text \<open>
  The remote service is the sequence of outcomes of the GET requests the process sends,
  in the order it sends them: a status code, or a transport failure raised by
  \<open>requests.get\<close>. \<open>refresh_ok k\<close> says whether the \<open>k\<close>-th call of
  \<open>_refresh_tokens\<close> succeeds.
\<close>

datatype outcome = Status nat | Transport_Failure

record remote =
  respond :: "nat \<Rightarrow> outcome"
  refresh_ok :: "nat \<Rightarrow> bool"

record session =
  requests_sent :: nat
  refreshes :: nat

text \<open>
  \<open>_get\<close> calls itself after a 401, with no counter. The first argument is the number of
  Python stack frames still available: when it is exhausted the interpreter raises
  RecursionError, so the model is total exactly as the program is.
\<close>

fun get_request :: "nat \<Rightarrow> remote \<Rightarrow> session \<Rightarrow> (error + nat) \<times> session" where
  "get_request 0 srv s = (Inl RecursionError, s)"
| "get_request (Suc depth) srv s =
     (case respond srv (requests_sent s) of
        Transport_Failure \<Rightarrow> (Inl ConnectionError, s\<lparr>requests_sent := requests_sent s + 1\<rparr>)
      | Status code \<Rightarrow>
          (let s1 = s\<lparr>requests_sent := requests_sent s + 1\<rparr> in
           if code = 401 then
             (if refresh_ok srv (refreshes s1)
              then get_request depth srv (s1\<lparr>refreshes := refreshes s1 + 1\<rparr>)
              else (Inl TokenError, s1))
           else (Inr code, s1)))"

text \<open>A server that answers 401 to the first \<open>k\<close> requests and 200 afterwards.\<close>

definition expired_then_ok :: "nat \<Rightarrow> remote" where
  "expired_then_ok k =
     \<lparr>respond = (\<lambda>i. if i < k then Status 401 else Status 200), refresh_ok = (\<lambda>_. True)\<rparr>"

definition fresh_session :: session where
  "fresh_session = \<lparr>requests_sent = 0, refreshes = 0\<rparr>"

subsection \<open>Party inference: \<open>re.match(r"^(.*):", party)\<close>\<close>

text \<open>
  \<open>.\<close> does not match a line feed and \<open>*\<close> is greedy, so group 1 is the longest prefix
  of the first line that is followed by a colon.
\<close>

definition first_line :: "string \<Rightarrow> string" where
  "first_line s = takeWhile (\<lambda>c. c \<noteq> CHR 0x0A) s"

fun greedy_before_colon :: "string \<Rightarrow> string option" where
  "greedy_before_colon [] = None"
| "greedy_before_colon (c # cs) =
     (case greedy_before_colon cs of
        Some p \<Rightarrow> Some (c # p)
      | None \<Rightarrow> if c = CHR '':'' then Some [] else None)"

definition re_match_group1 :: "string \<Rightarrow> string option" where
  "re_match_group1 party = greedy_before_colon (first_line party)"

text \<open>
  \<^verbatim>\<open>match = re.match(r"^(.*):", party)\<close>, \<^verbatim>\<open>if match: party = match.group(1)\<close>.
\<close>

definition strip_party :: "string \<Rightarrow> string" where
  "strip_party party = (case re_match_group1 party of Some g \<Rightarrow> g | None \<Rightarrow> party)"


section \<open>Documents and the storage collaborator\<close>

text \<open>
  Amounts are Python floats in the source; the model computes with rationals, and the
  rounding \<open>flt(x, 2)\<close> of frappe is a parameter (\<open>flt2\<close> below). A row of the child table
  \<open>accounts\<close> of a Journal Entry is a Python dict; a key that is absent or \<open>None\<close> is
  \<open>None\<close> here.
\<close>

record account_line =
  account :: "string option"
  party_type :: "string option"
  party :: "string option"
  exchange_rate :: "rat option"
  debit_in_account_currency :: "rat option"
  credit_in_account_currency :: "rat option"
  reference_type :: "string option"
  reference_name :: "string option"
  user_remark :: "string option"
  cost_center :: "string option"

definition new_line :: account_line where
  "new_line = \<lparr>account = None, party_type = None, party = None, exchange_rate = None,
     debit_in_account_currency = None, credit_in_account_currency = None,
     reference_type = None, reference_name = None, user_remark = None, cost_center = None\<rparr>"

record account_doc =
  acc_name :: string
  acc_quickbooks_id :: "string option"
  acc_company :: string
  acc_account_type :: "string option"
  acc_account_currency :: string
  acc_tax_rate :: rat

record customer_doc =
  cust_name :: string
  cust_quickbooks_id :: string
  cust_company :: string

record item_doc =
  item_quickbooks_id :: string
  item_company :: string
  item_defaults :: "string option list"

record journal_entry_doc =
  je_name :: string
  je_quickbooks_id :: string
  je_company :: string
  je_posting_date :: string
  je_accounts :: "account_line list"
  je_docstatus :: nat

record sales_invoice_doc =
  si_name :: string
  si_quickbooks_id :: string
  si_company :: string
  si_customer :: string
  si_debit_to :: string
  si_outstanding_amount :: rat
  si_conversion_rate :: rat
  si_docstatus :: nat

record purchase_invoice_doc =
  pi_name :: string
  pi_quickbooks_id :: string
  pi_company :: string
  pi_supplier :: string
  pi_credit_to :: string
  pi_outstanding_amount :: rat
  pi_conversion_rate :: "rat option"

record db =
  tabAccount :: "account_doc list"
  tabCustomer :: "customer_doc list"
  tabItem :: "item_doc list"
  tabJournal_Entry :: "journal_entry_doc list"
  tabSales_Invoice :: "sales_invoice_doc list"
  tabPurchase_Invoice :: "purchase_invoice_doc list"
  tabError_Log :: "error list"

text \<open>One row of the parsed General Ledger report (\<open>_get_gl_entries_from_section\<close>).\<close>

record gl_line =
  gl_account :: string
  gl_credit :: rat
  gl_debit :: rat
  gl_customer :: string
  gl_vendor :: string
  gl_memo :: string
  gl_currency :: string
  gl_debt_home_amt :: rat
  gl_credit_home_amt :: rat

record ledger_entry =
  le_id :: string
  le_date :: string
  le_lines :: "gl_line list"

text \<open>
  The fields of \<open>self\<close> that the transformers read, and the currency of the company
  (\<open>get_company_currency(self.company)\<close>).
\<close>

record migrator =
  company :: string
  company_currency :: string
  default_cost_center :: "string option"
  undeposited_funds_account :: "string option"
  general_ledger :: "(string \<times> (string \<times> ledger_entry) list) list"

text \<open>
  What frappe does on \<open>insert()\<close> and \<open>submit()\<close> of a Journal Entry, and its rounding
  \<open>flt(x, 2)\<close>: none of it is code of this repository, so it is a parameter.
\<close>

record frappe =
  flt2 :: "rat \<Rightarrow> rat"
  je_autoname :: "nat \<Rightarrow> string"
  je_insert_ok :: "journal_entry_doc \<Rightarrow> bool"
  je_submit_ok :: "journal_entry_doc \<Rightarrow> bool"

subsection \<open>Reads\<close>

text \<open>\<open>xs[0]\<close>\<close>

fun first :: "'a list \<Rightarrow> error + 'a" where
  "first [] = Inl IndexError"
| "first (x # xs) = Inr x"

definition log_error :: "error \<Rightarrow> db \<Rightarrow> db" where
  "log_error e d = d\<lparr>tabError_Log := tabError_Log d @ [e]\<rparr>"

definition get_account_name_by_id :: "db \<Rightarrow> migrator \<Rightarrow> string option \<Rightarrow> error + string" where
  "get_account_name_by_id d m quickbooks_id =
     first (map acc_name
       (filter (\<lambda>a. acc_quickbooks_id a = quickbooks_id \<and> acc_company a = company m)
          (tabAccount d)))"

text \<open>\<open>frappe.db.get_value("Account", name, "account_currency")\<close>: \<open>None\<close> when there is no such account.\<close>

definition account_currency_of :: "db \<Rightarrow> string option \<Rightarrow> string option" where
  "account_currency_of d name =
     (case filter (\<lambda>a. Some (acc_name a) = name) (tabAccount d) of
        [] \<Rightarrow> None
      | a # _ \<Rightarrow> Some (acc_account_currency a))"

text \<open>\<open>name in frappe.get_all("Account", filters=[["account_type", "in", types]], pluck="name")\<close>\<close>

definition account_of_type :: "db \<Rightarrow> string list \<Rightarrow> string \<Rightarrow> bool" where
  "account_of_type d types name =
     list_ex (\<lambda>a. acc_name a = name \<and>
        (case acc_account_type a of None \<Rightarrow> False | Some t \<Rightarrow> t \<in> set types)) (tabAccount d)"

definition tax_account :: "db \<Rightarrow> migrator \<Rightarrow> rat \<Rightarrow> error + string" where
  "tax_account d m percent =
     first (map acc_name
       (filter (\<lambda>a. acc_account_type a = Some ''Tax'' \<and> acc_tax_rate a = percent \<and>
                     acc_company a = company m) (tabAccount d)))"

definition je_exists :: "db \<Rightarrow> string \<Rightarrow> string \<Rightarrow> bool" where
  "je_exists d quickbooks_id co =
     list_ex (\<lambda>j. je_quickbooks_id j = quickbooks_id \<and> je_company j = co) (tabJournal_Entry d)"

definition si_exists :: "db \<Rightarrow> string \<Rightarrow> string \<Rightarrow> bool" where
  "si_exists d quickbooks_id co =
     list_ex (\<lambda>i. si_quickbooks_id i = quickbooks_id \<and> si_company i = co) (tabSales_Invoice d)"

definition pi_exists :: "db \<Rightarrow> string \<Rightarrow> string \<Rightarrow> bool" where
  "pi_exists d quickbooks_id co =
     list_ex (\<lambda>i. pi_quickbooks_id i = quickbooks_id \<and> pi_company i = co) (tabPurchase_Invoice d)"

subsection \<open>\<open>__save_journal_entry\<close>: the builder\<close>

text \<open>
  The existence check, then \<open>frappe.get_doc\<close>, \<open>insert()\<close> and \<open>submit()\<close>; whatever either
  raises is caught and logged. The block that would append a balancing line is commented
  out in the source, so the builder passes \<open>accounts\<close> on as it receives it. An
  \<open>insert()\<close> that succeeded is not undone when \<open>submit()\<close> raises: the source has no
  rollback, and the draft stays.
\<close>

definition je_doc_of ::
  "frappe \<Rightarrow> migrator \<Rightarrow> db \<Rightarrow> string \<Rightarrow> account_line list \<Rightarrow> string \<Rightarrow> journal_entry_doc" where
  "je_doc_of F m d quickbooks_id accounts posting_date =
     \<lparr>je_name = je_autoname F (length (tabJournal_Entry d)),
      je_quickbooks_id = quickbooks_id, je_company = company m,
      je_posting_date = posting_date, je_accounts = accounts, je_docstatus = 0\<rparr>"

definition priv_save_journal_entry ::
  "frappe \<Rightarrow> migrator \<Rightarrow> string \<Rightarrow> account_line list \<Rightarrow> string \<Rightarrow> db \<Rightarrow> db" where
  "priv_save_journal_entry F m quickbooks_id accounts posting_date d =
     (if je_exists d quickbooks_id (company m) then d
      else
        (let je = je_doc_of F m d quickbooks_id accounts posting_date
         in if \<not> je_insert_ok F je then log_error ValidationError d
            else if \<not> je_submit_ok F je
              then log_error ValidationError (d\<lparr>tabJournal_Entry := tabJournal_Entry d @ [je]\<rparr>)
              else d\<lparr>tabJournal_Entry := tabJournal_Entry d @ [je\<lparr>je_docstatus := 1\<rparr>]\<rparr>))"

subsection \<open>\<open>_save_sales_invoice\<close>\<close>

text \<open>
  The source record of a sales-side transaction, as far as \<open>_save_sales_invoice\<close> reads
  it itself. The child rows (\<open>_get_si_items\<close>, \<open>_get_taxes\<close>, \<open>_get_invoice_payments\<close>,
  \<open>_get_discount\<close>) only read the database and the tax tables; they are the parameter
  \<open>children\<close>, which returns the rows or the exception raised while building them.
\<close>

record sales_txn =
  st_currency :: string
  st_exchange_rate :: "rat option"
  st_txn_date :: string
  st_due_date :: "string option"
  st_customer_ref :: string

record 'c sales_invoice_dict =
  sid_quickbooks_id :: string
  sid_currency :: string
  sid_conversion_rate :: rat
  sid_posting_date :: string
  sid_due_date :: string
  sid_customer :: string
  sid_children :: 'c
  sid_is_return :: bool
  sid_is_pos :: bool
  sid_company :: string

text \<open>
  frappe's side of a Sales Invoice: naming, validation on insert and submit, and the
  fields ERPNext computes (\<open>debit_to\<close>, \<open>outstanding_amount\<close>).
\<close>

record 'c frappe_si =
  si_autoname :: "nat \<Rightarrow> string"
  si_insert_ok :: "'c sales_invoice_dict \<Rightarrow> bool"
  si_submit_ok :: "'c sales_invoice_dict \<Rightarrow> bool"
  si_set_debit_to :: "'c sales_invoice_dict \<Rightarrow> string"
  si_set_outstanding :: "'c sales_invoice_dict \<Rightarrow> rat"

definition si_doc_of :: "'c frappe_si \<Rightarrow> nat \<Rightarrow> 'c sales_invoice_dict \<Rightarrow> nat \<Rightarrow> sales_invoice_doc" where
  "si_doc_of G n dict status =
     \<lparr>si_name = si_autoname G n, si_quickbooks_id = sid_quickbooks_id dict,
      si_company = sid_company dict, si_customer = sid_customer dict,
      si_debit_to = si_set_debit_to G dict, si_outstanding_amount = si_set_outstanding G dict,
      si_conversion_rate = sid_conversion_rate dict, si_docstatus = status\<rparr>"

text \<open>
  An exception raised before \<open>invoice_doc\<close> is assigned reaches the handler, whose
  argument \<open>invoice_doc.as_json()\<close> then raises UnboundLocalError: that one leaves the
  function. After \<open>get_doc\<close> the handler logs.
\<close>

definition save_sales_invoice ::
  "'c frappe_si \<Rightarrow> migrator \<Rightarrow> (db \<Rightarrow> sales_txn \<Rightarrow> bool \<Rightarrow> bool \<Rightarrow> error + 'c) \<Rightarrow>
   sales_txn \<Rightarrow> string \<Rightarrow> bool \<Rightarrow> bool \<Rightarrow> db \<Rightarrow> error + db" where
  "save_sales_invoice G m children invoice quickbooks_id is_return is_pos d =
     (if si_exists d quickbooks_id (company m) then Inr d
      else
        (case first (filter (\<lambda>c. cust_quickbooks_id c = st_customer_ref invoice \<and>
                                  cust_company c = company m) (tabCustomer d)) of
           Inl e \<Rightarrow> Inl UnboundLocalError
         | Inr cust \<Rightarrow>
             (case children d invoice is_return is_pos of
                Inl e \<Rightarrow> Inl UnboundLocalError
              | Inr rows \<Rightarrow>
                  (let dict = \<lparr>sid_quickbooks_id = quickbooks_id,
                               sid_currency = st_currency invoice,
                               sid_conversion_rate =
                                 (case st_exchange_rate invoice of None \<Rightarrow> 1 | Some r \<Rightarrow> r),
                               sid_posting_date = st_txn_date invoice,
                               sid_due_date =
                                 (case st_due_date invoice of
                                    None \<Rightarrow> st_txn_date invoice | Some t \<Rightarrow> t),
                               sid_customer = cust_name cust,
                               sid_children = rows,
                               sid_is_return = is_return, sid_is_pos = is_pos,
                               sid_company = company m\<rparr>;
                       n = length (tabSales_Invoice d)
                   in if \<not> si_insert_ok G dict then Inr (log_error ValidationError d)
                      else if \<not> si_submit_ok G dict
                        then Inr (log_error ValidationError
                               (d\<lparr>tabSales_Invoice := tabSales_Invoice d @ [si_doc_of G n dict 0]\<rparr>))
                        else Inr (d\<lparr>tabSales_Invoice :=
                                      tabSales_Invoice d @ [si_doc_of G n dict 1]\<rparr>)))))"

section \<open>Entity transformers\<close>

subsection \<open>\<open>_save_journal_entry\<close>\<close>

record entity_ref =
  ent_type :: string
  ent_name :: string

record journal_entry_line =
  jl_detail_type :: string
  jl_amount :: rat
  jl_description :: "string option"
  jl_account_ref :: string
  jl_posting_type :: string
  jl_entity :: "entity_ref option"

record tax_line =
  tl_amount :: rat
  tl_tax_percent :: rat

record journal_entry =
  qje_id :: string
  qje_lines :: "journal_entry_line list"
  qje_currency :: string
  qje_exchange_rate :: "rat option"
  qje_tax_lines :: "tax_line list option"
  qje_txn_date :: string

text \<open>\<open>x or None\<close> on a string: the empty string becomes \<open>None\<close>.\<close>

definition or_none :: "string option \<Rightarrow> string option" where
  "or_none x = (if x = Some [] then None else x)"

text \<open>Party type and party of a JournalEntry line, before \<open>or None\<close> is applied.\<close>

definition je_line_party :: "db \<Rightarrow> string \<Rightarrow> entity_ref option \<Rightarrow> string option \<times> string option" where
  "je_line_party d account_name entity =
     (if account_of_type d [''Payable'', ''Receivable''] account_name then
        (case entity of
           None \<Rightarrow> (None, None)
         | Some e \<Rightarrow>
             (if ent_type e = ''Vendor'' then Some ''Supplier''
              else if ent_type e = ''Customer'' then Some ''Customer'' else None,
              Some (strip_party (ent_name e))))
      else (None, None))"

text \<open>Exchange rate and amount of a JournalEntry line (the \<open>if account_currency == trans_currency\<close>).\<close>

definition je_line_rate_amount :: "string option \<Rightarrow> string \<Rightarrow> rat \<Rightarrow> rat \<Rightarrow> rat \<times> rat" where
  "je_line_rate_amount account_currency trans_currency txn_rate amount =
     (if account_currency = Some trans_currency then (txn_rate, amount)
      else (1, amount * txn_rate))"

definition je_account_line ::
  "db \<Rightarrow> migrator \<Rightarrow> string \<Rightarrow> rat \<Rightarrow> journal_entry_line \<Rightarrow> error + account_line" where
  "je_account_line d m trans_currency txn_rate line =
     (case get_account_name_by_id d m (Some (jl_account_ref line)) of
        Inl e \<Rightarrow> Inl e
      | Inr account_name \<Rightarrow>
          (let account_currency = account_currency_of d (Some account_name);
               ra = je_line_rate_amount account_currency trans_currency txn_rate (jl_amount line);
               pp = je_line_party d account_name (jl_entity line);
               row = new_line\<lparr>account := Some account_name,
                       party_type := or_none (fst pp), party := or_none (snd pp),
                       exchange_rate := Some (fst ra),
                       user_remark := Some (case jl_description line of None \<Rightarrow> [] | Some t \<Rightarrow> t),
                       cost_center := default_cost_center m\<rparr>
           in if jl_posting_type line = ''Credit''
                then Inr (row\<lparr>credit_in_account_currency := Some (snd ra)\<rparr>)
              else if jl_posting_type line = ''Debit''
                then Inr (row\<lparr>debit_in_account_currency := Some (snd ra)\<rparr>)
              else Inl KeyError))"

fun get_je_accounts ::
  "db \<Rightarrow> migrator \<Rightarrow> journal_entry_line list \<Rightarrow> string \<Rightarrow> rat \<Rightarrow> error + account_line list" where
  "get_je_accounts d m [] trans_currency txn_rate = Inr []"
| "get_je_accounts d m (line # lines) trans_currency txn_rate =
     (if jl_detail_type line = ''JournalEntryLineDetail'' then
        (case je_account_line d m trans_currency txn_rate line of
           Inl e \<Rightarrow> Inl e
         | Inr row \<Rightarrow>
             (case get_je_accounts d m lines trans_currency txn_rate of
                Inl e \<Rightarrow> Inl e
              | Inr rows \<Rightarrow> Inr (row # rows)))
      else get_je_accounts d m lines trans_currency txn_rate)"

fun je_tax_accounts :: "db \<Rightarrow> migrator \<Rightarrow> tax_line list \<Rightarrow> error + account_line list" where
  "je_tax_accounts d m [] = Inr []"
| "je_tax_accounts d m (line # lines) =
     (if tl_amount line \<noteq> 0 then
        (case tax_account d m (tl_tax_percent line) of
           Inl e \<Rightarrow> Inl e
         | Inr name \<Rightarrow>
             (case je_tax_accounts d m lines of
                Inl e \<Rightarrow> Inl e
              | Inr rows \<Rightarrow>
                  Inr (new_line\<lparr>account := Some name,
                         debit_in_account_currency := Some (tl_amount line),
                         cost_center := default_cost_center m\<rparr> # rows)))
      else je_tax_accounts d m lines)"

text \<open>
  \<open>_save_journal_entry\<close> has no \<open>try\<close> of its own: what the account and tax lookups raise
  leaves the function. Only the builder it calls last catches. \<open>ExchangeRate\<close> is read
  with \<open>journal_entry["ExchangeRate"]\<close>, before any lookup; QuickBooks leaves it out of a
  record in home currency, so it is optional here.
\<close>

definition save_journal_entry :: "frappe \<Rightarrow> migrator \<Rightarrow> journal_entry \<Rightarrow> db \<Rightarrow> error + db" where
  "save_journal_entry F m journal_entry d =
     (let quickbooks_id = ''Journal Entry - '' @ qje_id journal_entry in
      case qje_exchange_rate journal_entry of
        None \<Rightarrow> Inl KeyError
      | Some txn_rate \<Rightarrow>
          (case get_je_accounts d m (qje_lines journal_entry) (qje_currency journal_entry)
                  txn_rate of
             Inl e \<Rightarrow> Inl e
           | Inr accounts \<Rightarrow>
               (case (case qje_tax_lines journal_entry of
                        None \<Rightarrow> Inr []
                      | Some lines \<Rightarrow> je_tax_accounts d m lines) of
                  Inl e \<Rightarrow> Inl e
                | Inr taxes \<Rightarrow>
                    Inr (priv_save_journal_entry F m quickbooks_id (accounts @ taxes)
                           (qje_txn_date journal_entry) d))))"

subsection \<open>\<open>_save_payment\<close>\<close>

record linked_txn =
  lt_txn_type :: string
  lt_txn_id :: string

record payment_line =
  pl_amount :: rat
  pl_linked_txn :: "linked_txn list"

record payment =
  pay_id :: string
  pay_deposit_to_account_ref :: "string option"
  pay_lines :: "payment_line list"
  pay_currency :: string
  pay_exchange_rate :: "rat option"
  pay_total_amt :: rat
  pay_txn_date :: string

text \<open>
  The locals \<open>reference_type\<close>, \<open>reference_name\<close>, \<open>party\<close> and \<open>party_account\<close> are assigned
  together, inside the loop, and only when the linked document is found; they keep their
  value from one line to the next. \<open>None\<close> is "not yet assigned".
\<close>

record party_ref =
  ref_type :: string
  ref_name :: string
  ref_party :: "string option"
  ref_account :: "string option"

record payment_locals =
  loc_ref :: "party_ref option"
  loc_payment_currency :: "string option"
  loc_accounts :: "account_line list"
  loc_amt :: rat

definition no_locals :: payment_locals where
  "no_locals = \<lparr>loc_ref = None, loc_payment_currency = None, loc_accounts = [], loc_amt = 0\<rparr>"

text \<open>\<^verbatim>\<open>if line_amount > outstanding_amount: line_amount = outstanding_amount\<close>\<close>

definition cap_line_amount :: "rat \<Rightarrow> rat \<Rightarrow> rat" where
  "cap_line_amount line_amount outstanding_amount =
     (if line_amount > outstanding_amount then outstanding_amount else line_amount)"

text \<open>
  The row appended for a payment line linked to an invoice; \<open>txn_rate\<close> is
  \<open>payment["ExchangeRate"]\<close>, which one of the two conditional expressions reads whatever
  the currencies are.
\<close>

definition payment_invoice_row ::
  "frappe \<Rightarrow> migrator \<Rightarrow> payment \<Rightarrow> rat \<Rightarrow> party_ref \<Rightarrow> string option \<Rightarrow> rat \<Rightarrow> account_line" where
  "payment_invoice_row F m payment txn_rate r account_currency line_amount =
     (let payment_currency = pay_currency payment;
          credit_exchange_rate =
            (if account_currency \<noteq> Some payment_currency then txn_rate else 1)
      in new_line\<lparr>party_type := Some ''Customer'', party := ref_party r,
           reference_type := Some (ref_type r), reference_name := Some (ref_name r),
           account := ref_account r,
           exchange_rate :=
             Some (if account_currency = Some payment_currency then txn_rate else 1),
           credit_in_account_currency := Some (flt2 F (line_amount * credit_exchange_rate)),
           cost_center := default_cost_center m\<rparr>)"

definition payment_find_invoice :: "db \<Rightarrow> migrator \<Rightarrow> string \<Rightarrow> payment_locals \<Rightarrow> error + payment_locals" where
  "payment_find_invoice d m si_qid loc =
     (case (if si_exists d si_qid (company m) then
              (case first (filter (\<lambda>i. si_quickbooks_id i = si_qid \<and>
                                         si_company i = company m) (tabSales_Invoice d)) of
                 Inl e \<Rightarrow> Inl e
               | Inr sales_invoice \<Rightarrow>
                   Inr (loc\<lparr>loc_ref := Some \<lparr>ref_type = ''Sales Invoice'',
                          ref_name = si_name sales_invoice,
                          ref_party = Some (si_customer sales_invoice),
                          ref_account = Some (si_debit_to sales_invoice)\<rparr>\<rparr>))
            else Inr loc) of
        Inl e \<Rightarrow> Inl e
      | Inr loc1 \<Rightarrow>
          (if je_exists d si_qid (company m) then
             (case first (filter (\<lambda>j. je_quickbooks_id j = si_qid \<and>
                                        je_company j = company m) (tabJournal_Entry d)) of
                Inl e \<Rightarrow> Inl DoesNotExistError
              | Inr journal_entry \<Rightarrow>
                  (case first (filter (\<lambda>a. party_type a = Some ''Customer'')
                                 (je_accounts journal_entry)) of
                     Inl e \<Rightarrow> Inl StopIteration
                   | Inr customer_account_line \<Rightarrow>
                       Inr (loc1\<lparr>loc_ref := Some \<lparr>ref_type = ''Journal Entry'',
                              ref_name = je_name journal_entry,
                              ref_party = party customer_account_line,
                              ref_account = account customer_account_line\<rparr>\<rparr>)))
           else Inr loc1))"

definition payment_line_step ::
  "frappe \<Rightarrow> db \<Rightarrow> migrator \<Rightarrow> payment \<Rightarrow> payment_locals \<Rightarrow> payment_line \<Rightarrow> error + payment_locals" where
  "payment_line_step F d m payment loc line =
     (case first (pl_linked_txn line) of
        Inl e \<Rightarrow> Inl e
      | Inr linked_transaction \<Rightarrow>
          (if lt_txn_type linked_transaction = ''Invoice'' then
             (let si_qid = ''Invoice - '' @ lt_txn_id linked_transaction in
              case payment_find_invoice d m si_qid loc of
                Inl e \<Rightarrow> Inl e
              | Inr loc2 \<Rightarrow>
                  (case first (filter (\<lambda>i. si_quickbooks_id i = si_qid)
                                 (tabSales_Invoice d)) of
                     Inl e \<Rightarrow> Inl e
                   | Inr found \<Rightarrow>
                       (let outstanding_amount = si_outstanding_amount found;
                            conversion_rate = si_conversion_rate found;
                            line_amount = cap_line_amount (pl_amount line) outstanding_amount
                        in case loc_ref loc2 of
                             None \<Rightarrow> Inl UnboundLocalError
                           | Some r \<Rightarrow>
                               (case pay_exchange_rate payment of
                                  None \<Rightarrow> Inl KeyError
                                | Some txn_rate \<Rightarrow>
                                    Inr (loc2\<lparr>loc_payment_currency := Some (pay_currency payment),
                                           loc_amt := loc_amt loc2 +
                                             flt2 F (line_amount * conversion_rate),
                                           loc_accounts := loc_accounts loc2 @
                                             [payment_invoice_row F m payment txn_rate r
                                                (account_currency_of d (ref_account r))
                                                line_amount]\<rparr>)))))
           else Inr loc))"

fun payment_lines ::
  "frappe \<Rightarrow> db \<Rightarrow> migrator \<Rightarrow> payment \<Rightarrow> payment_locals \<Rightarrow> payment_line list \<Rightarrow> error + payment_locals" where
  "payment_lines F d m payment loc [] = Inr loc"
| "payment_lines F d m payment loc (line # lines) =
     (case payment_line_step F d m payment loc line of
        Inl e \<Rightarrow> Inl e
      | Inr loc' \<Rightarrow> payment_lines F d m payment loc' lines)"

text \<open>The deposit-to row, sized to the payment total.\<close>

definition payment_deposit_row ::
  "frappe \<Rightarrow> migrator \<Rightarrow> payment \<Rightarrow> rat \<Rightarrow> string \<Rightarrow> string option \<Rightarrow> string \<Rightarrow> account_line" where
  "payment_deposit_row F m payment txn_rate deposit_account account_currency payment_currency =
     (let debit_exchange_rate =
            (if account_currency \<noteq> Some payment_currency then txn_rate else 1)
      in new_line\<lparr>account := Some deposit_account,
           debit_in_account_currency := Some (flt2 F (pay_total_amt payment * debit_exchange_rate)),
           exchange_rate :=
             Some (if account_currency = Some payment_currency then txn_rate else 1),
           cost_center := default_cost_center m\<rparr>)"

text \<open>
  The rows for the General Ledger lines on the exchange gain or loss account; \<open>rnd\<close> is
  \<open>flt(x, 2)\<close> in \<open>_save_payment\<close> and \<open>flt(x)\<close> in \<open>_save_bill_payment\<close>. The source
  passes the number 95 to \<open>_get_account_name_by_id\<close>; identifiers are strings here.
\<close>

fun exchange_gain_rows :: "(rat \<Rightarrow> rat) \<Rightarrow> db \<Rightarrow> migrator \<Rightarrow> gl_line list \<Rightarrow> error + account_line list" where
  "exchange_gain_rows rnd d m [] = Inr []"
| "exchange_gain_rows rnd d m (line # lines) =
     (if ''Exchange Gain or Loss - QB - NX'' = gl_account line then
        (case get_account_name_by_id d m (Some ''95'') of
           Inl e \<Rightarrow> Inl e
         | Inr name \<Rightarrow>
             (case exchange_gain_rows rnd d m lines of
                Inl e \<Rightarrow> Inl e
              | Inr rows \<Rightarrow>
                  Inr (new_line\<lparr>account := Some name,
                         debit_in_account_currency := Some (rnd (gl_debt_home_amt line)),
                         credit_in_account_currency := Some (rnd (gl_credit_home_amt line)),
                         cost_center := default_cost_center m,
                         user_remark := Some ''Rounding adjustment to balance debit/credit''\<rparr> # rows)))
      else exchange_gain_rows rnd d m lines)"

text \<open>\<open>self.general_ledger[kind][id]["lines"]\<close>\<close>

definition gl_lines_of :: "migrator \<Rightarrow> string \<Rightarrow> string \<Rightarrow> error + gl_line list" where
  "gl_lines_of m kind ident =
     (case map_of (general_ledger m) kind of
        None \<Rightarrow> Inl KeyError
      | Some entries \<Rightarrow>
          (case map_of entries ident of
             None \<Rightarrow> Inl KeyError
           | Some entry \<Rightarrow> Inr (le_lines entry)))"

text \<open>The body of the \<open>try\<close> after the early return; the list of rows handed to the builder.\<close>

definition payment_accounts :: "frappe \<Rightarrow> migrator \<Rightarrow> payment \<Rightarrow> string \<Rightarrow> db \<Rightarrow> error + account_line list" where
  "payment_accounts F m payment deposit_ref d =
     (case payment_lines F d m payment no_locals (pay_lines payment) of
        Inl e \<Rightarrow> Inl e
      | Inr loc \<Rightarrow>
          (case get_account_name_by_id d m (Some deposit_ref) of
             Inl e \<Rightarrow> Inl e
           | Inr deposit_account \<Rightarrow>
               (case loc_payment_currency loc of
                  None \<Rightarrow> Inl UnboundLocalError
                | Some payment_currency \<Rightarrow>
                    (case pay_exchange_rate payment of
                       None \<Rightarrow> Inl KeyError
                     | Some txn_rate \<Rightarrow>
                         (case gl_lines_of m ''Payment'' (pay_id payment) of
                            Inl e \<Rightarrow> Inl e
                          | Inr lines \<Rightarrow>
                              (case exchange_gain_rows (flt2 F) d m lines of
                                 Inl e \<Rightarrow> Inl e
                               | Inr rows \<Rightarrow>
                                   Inr (loc_accounts loc @
                                        [payment_deposit_row F m payment txn_rate deposit_account
                                           (account_currency_of d (Some deposit_account))
                                           payment_currency] @
                                        rows)))))))"

definition save_payment :: "frappe \<Rightarrow> migrator \<Rightarrow> payment \<Rightarrow> db \<Rightarrow> db" where
  "save_payment F m payment d =
     (let quickbooks_id = ''Payment - '' @ pay_id payment in
      case pay_deposit_to_account_ref payment of
        None \<Rightarrow> d
      | Some deposit_ref \<Rightarrow>
          (case payment_accounts F m payment deposit_ref d of
             Inl e \<Rightarrow> log_error e d
           | Inr accounts \<Rightarrow>
               priv_save_journal_entry F m quickbooks_id accounts (pay_txn_date payment) d))"

subsection \<open>\<open>_save_bill_payment\<close>\<close>

record bill_payment =
  bp_id :: string
  bp_lines :: "payment_line list"
  bp_pay_type :: string
  bp_check_payment :: "string option option"
  bp_credit_card_payment :: "string option"
  bp_currency :: string
  bp_exchange_rate :: "rat option"
  bp_total_amt :: rat
  bp_txn_date :: string

text \<open>
  \<open>bp_check_payment\<close> is \<open>None\<close> when the record has no \<open>CheckPayment\<close>, \<open>Some None\<close> when
  that has no \<open>BankAccountRef\<close>; \<open>bp_credit_card_payment\<close> is the \<open>CCAccountRef\<close> value.
  \<open>bill_payment["ExchangeRate"]\<close> is read only when the bank account is in another
  currency than the bill payment.
\<close>

text \<open>\<open>frappe.get_value("Purchase Invoice", {"quickbooks_id": pi_quickbooks_id}, "conversion_rate") or 1\<close>\<close>

definition pi_conversion_rate_or_1 :: "db \<Rightarrow> string \<Rightarrow> rat" where
  "pi_conversion_rate_or_1 d pi_qid =
     (case filter (\<lambda>i. pi_quickbooks_id i = pi_qid) (tabPurchase_Invoice d) of
        [] \<Rightarrow> 1
      | i # _ \<Rightarrow> (case pi_conversion_rate i of None \<Rightarrow> 1 | Some r \<Rightarrow> if r = 0 then 1 else r))"

text \<open>The row appended for a bill-payment line linked to a Bill.\<close>

definition bill_payment_bill_row ::
  "frappe \<Rightarrow> migrator \<Rightarrow> bill_payment \<Rightarrow> party_ref \<Rightarrow> string option \<Rightarrow> rat \<Rightarrow> rat \<Rightarrow> account_line" where
  "bill_payment_bill_row F m bill_payment r account_currency conversion_rate line_amount =
     (let line_exchange_rate =
            (if account_currency \<noteq> Some (bp_currency bill_payment) then conversion_rate else 1)
      in new_line\<lparr>party_type := Some ''Supplier'', party := ref_party r,
           reference_type := Some (ref_type r), reference_name := Some (ref_name r),
           account := ref_account r,
           debit_in_account_currency := Some (flt2 F (line_amount * line_exchange_rate)),
           cost_center := default_cost_center m\<rparr>)"

definition bill_payment_bill_step ::
  "frappe \<Rightarrow> db \<Rightarrow> migrator \<Rightarrow> bill_payment \<Rightarrow> payment_locals \<Rightarrow> payment_line \<Rightarrow> string \<Rightarrow>
   error + payment_locals" where
  "bill_payment_bill_step F d m bill_payment loc line pi_qid =
     (case (if pi_exists d pi_qid (company m) then
              (case first (filter (\<lambda>i. pi_quickbooks_id i = pi_qid \<and> pi_company i = company m)
                             (tabPurchase_Invoice d)) of
                 Inl e \<Rightarrow> Inl e
               | Inr purchase_invoice \<Rightarrow>
                   Inr (loc\<lparr>loc_ref := Some \<lparr>ref_type = ''Purchase Invoice'',
                          ref_name = pi_name purchase_invoice,
                          ref_party = Some (pi_supplier purchase_invoice),
                          ref_account = Some (pi_credit_to purchase_invoice)\<rparr>\<rparr>))
            else Inr loc) of
        Inl e \<Rightarrow> Inl e
      | Inr loc1 \<Rightarrow>
          (case loc_ref loc1 of
             None \<Rightarrow> Inl UnboundLocalError
           | Some r \<Rightarrow>
               (case first (filter (\<lambda>i. pi_quickbooks_id i = pi_qid) (tabPurchase_Invoice d)) of
                  Inl e \<Rightarrow> Inl e
                | Inr found \<Rightarrow>
                    (let outstanding_amount = pi_outstanding_amount found;
                         conversion_rate = pi_conversion_rate_or_1 d pi_qid;
                         line_amount = cap_line_amount (pl_amount line) outstanding_amount
                     in Inr (loc1\<lparr>loc_amt := loc_amt loc1 + flt2 F (line_amount * conversion_rate),
                               loc_accounts := loc_accounts loc1 @
                                 [bill_payment_bill_row F m bill_payment r
                                    (account_currency_of d (ref_account r)) conversion_rate
                                    line_amount]\<rparr>)))))"

definition bill_payment_other_step ::
  "db \<Rightarrow> migrator \<Rightarrow> payment_locals \<Rightarrow> payment_line \<Rightarrow> string \<Rightarrow> error + payment_locals" where
  "bill_payment_other_step d m loc line je_qid =
     (case (if je_exists d je_qid (company m) then
              (case first (filter (\<lambda>j. je_quickbooks_id j = je_qid \<and> je_company j = company m)
                             (tabJournal_Entry d)) of
                 Inl e \<Rightarrow> Inl DoesNotExistError
               | Inr journal_entry \<Rightarrow>
                   (case first (filter (\<lambda>a. party_type a = Some ''Supplier'')
                                  (je_accounts journal_entry)) of
                      Inl e \<Rightarrow> Inl StopIteration
                    | Inr supplier_account_line \<Rightarrow>
                        Inr (loc\<lparr>loc_ref := Some \<lparr>ref_type = ''Journal Entry'',
                               ref_name = je_name journal_entry,
                               ref_party = party supplier_account_line,
                               ref_account = account supplier_account_line\<rparr>\<rparr>)))
            else Inr loc) of
        Inl e \<Rightarrow> Inl e
      | Inr loc1 \<Rightarrow>
          (case loc_ref loc1 of
             None \<Rightarrow> Inl UnboundLocalError
           | Some r \<Rightarrow>
               Inr (loc1\<lparr>loc_amt := loc_amt loc1 + pl_amount line,
                      loc_accounts := loc_accounts loc1 @
                        [new_line\<lparr>party_type := Some ''Supplier'', party := ref_party r,
                           reference_type := Some (ref_type r), reference_name := Some (ref_name r),
                           account := ref_account r,
                           debit_in_account_currency := Some (pl_amount line),
                           cost_center := default_cost_center m\<rparr>]\<rparr>)))"

definition bill_payment_line_step ::
  "frappe \<Rightarrow> db \<Rightarrow> migrator \<Rightarrow> bill_payment \<Rightarrow> payment_locals \<Rightarrow> payment_line \<Rightarrow>
   error + payment_locals" where
  "bill_payment_line_step F d m bill_payment loc line =
     (case first (pl_linked_txn line) of
        Inl e \<Rightarrow> Inl e
      | Inr linked_transaction \<Rightarrow>
          (if lt_txn_type linked_transaction = ''Bill''
           then bill_payment_bill_step F d m bill_payment loc line
                  (''Bill - '' @ lt_txn_id linked_transaction)
           else bill_payment_other_step d m loc line
                  (lt_txn_type linked_transaction @ '' - '' @ lt_txn_id linked_transaction)))"

fun bill_payment_lines ::
  "frappe \<Rightarrow> db \<Rightarrow> migrator \<Rightarrow> bill_payment \<Rightarrow> payment_locals \<Rightarrow> payment_line list \<Rightarrow>
   error + payment_locals" where
  "bill_payment_lines F d m bill_payment loc [] = Inr loc"
| "bill_payment_lines F d m bill_payment loc (line # lines) =
     (case bill_payment_line_step F d m bill_payment loc line of
        Inl e \<Rightarrow> Inl e
      | Inr loc' \<Rightarrow> bill_payment_lines F d m bill_payment loc' lines)"

text \<open>
  \<open>bank_account_id\<close> is assigned under \<open>if PayType == "Check"\<close> and
  \<open>elif PayType == "CreditCard"\<close> only; with any other pay type the next statement reads
  an unassigned local.
\<close>

definition bill_payment_bank_account_id :: "bill_payment \<Rightarrow> error + string option" where
  "bill_payment_bank_account_id bill_payment =
     (if bp_pay_type bill_payment = ''Check'' then
        (case bp_check_payment bill_payment of None \<Rightarrow> Inl KeyError | Some ref \<Rightarrow> Inr ref)
      else if bp_pay_type bill_payment = ''CreditCard'' then
        (case bp_credit_card_payment bill_payment of None \<Rightarrow> Inl KeyError | Some v \<Rightarrow> Inr (Some v))
      else Inl UnboundLocalError)"

definition bill_payment_accounts ::
  "frappe \<Rightarrow> migrator \<Rightarrow> bill_payment \<Rightarrow> db \<Rightarrow> error + account_line list" where
  "bill_payment_accounts F m bill_payment d =
     (case bill_payment_lines F d m bill_payment no_locals (bp_lines bill_payment) of
        Inl e \<Rightarrow> Inl e
      | Inr loc \<Rightarrow>
          (case bill_payment_bank_account_id bill_payment of
             Inl e \<Rightarrow> Inl e
           | Inr bank_account_id \<Rightarrow>
               (case get_account_name_by_id d m bank_account_id of
                  Inl e \<Rightarrow> Inl e
                | Inr bank_account \<Rightarrow>
                    (case (if account_currency_of d (Some bank_account)
                                 \<noteq> Some (bp_currency bill_payment)
                           then (case bp_exchange_rate bill_payment of
                                   None \<Rightarrow> Inl KeyError
                                 | Some txn_rate \<Rightarrow> Inr txn_rate)
                           else Inr 1) of
                       Inl e \<Rightarrow> Inl e
                     | Inr rate \<Rightarrow>
                         (let bank_row = new_line\<lparr>account := Some bank_account,
                                credit_in_account_currency :=
                                  Some (flt2 F (bp_total_amt bill_payment * rate)),
                                cost_center := default_cost_center m\<rparr>
                          in case gl_lines_of m ''Bill Payment (Cheque)'' (bp_id bill_payment) of
                               Inl e \<Rightarrow> Inl e
                             | Inr lines \<Rightarrow>
                                 (case exchange_gain_rows (\<lambda>x. x) d m lines of
                                    Inl e \<Rightarrow> Inl e
                                  | Inr rows \<Rightarrow> Inr (loc_accounts loc @ [bank_row] @ rows)))))))"

definition save_bill_payment :: "frappe \<Rightarrow> migrator \<Rightarrow> bill_payment \<Rightarrow> db \<Rightarrow> db" where
  "save_bill_payment F m bill_payment d =
     (let quickbooks_id = ''BillPayment - '' @ bp_id bill_payment in
      case bill_payment_accounts F m bill_payment d of
        Inl e \<Rightarrow> log_error e d
      | Inr accounts \<Rightarrow>
          priv_save_journal_entry F m quickbooks_id accounts (bp_txn_date bill_payment) d)"

subsection \<open>\<open>_save_purchase\<close>\<close>

text \<open>
  QuickBooks leaves \<open>ExchangeRate\<close> out of a record in home currency, so it is optional
  here; \<open>_save_purchase\<close> reads it with \<open>purchase["ExchangeRate"]\<close> whatever the
  currencies are.
\<close>

record purchase_line =
  pul_detail_type :: string
  pul_amount :: rat
  pul_description :: "string option"
  pul_account_ref :: string
  pul_item_ref :: string

record purchase =
  pur_id :: string
  pur_account_ref :: string
  pur_currency :: string
  pur_exchange_rate :: "rat option"
  pur_total_amt :: rat
  pur_private_note :: "string option"
  pur_lines :: "purchase_line list"
  pur_tax_detail :: "tax_line list option option"
  pur_credit :: bool
  pur_txn_date :: string

text \<open>The row that credits the paying account; \<open>txn_rate\<close> is \<open>purchase["ExchangeRate"]\<close>.\<close>

definition purchase_bank_row ::
  "migrator \<Rightarrow> purchase \<Rightarrow> rat \<Rightarrow> string \<Rightarrow> string option \<Rightarrow> account_line" where
  "purchase_bank_row m purchase txn_rate account_name account_currency =
     (let purchase_currency = pur_currency purchase;
          rate = (if account_currency \<noteq> Some purchase_currency then txn_rate else 1)
      in new_line\<lparr>account := Some account_name,
           exchange_rate :=
             Some (if account_currency = Some purchase_currency then txn_rate else 1),
           credit_in_account_currency := Some (pur_total_amt purchase * rate),
           cost_center := default_cost_center m,
           user_remark := Some (case pur_private_note purchase of None \<Rightarrow> [] | Some t \<Rightarrow> t)\<rparr>)"

text \<open>
  Lines 1411 to 1425, up to the assignment of \<open>accounts\<close>: the lookup of the paying
  account raises IndexError when the account was never migrated, and one of the two reads
  of \<open>purchase["ExchangeRate"]\<close> raises KeyError when the record has none (the first when
  the currencies differ, the second when they agree). The result is the exchange rate and
  the initial value of \<open>accounts\<close>.
\<close>

definition purchase_first_rows :: "db \<Rightarrow> migrator \<Rightarrow> purchase \<Rightarrow> error + rat \<times> account_line list" where
  "purchase_first_rows d m purchase =
     (case get_account_name_by_id d m (Some (pur_account_ref purchase)) of
        Inl e \<Rightarrow> Inl e
      | Inr account_name \<Rightarrow>
          (case pur_exchange_rate purchase of
             None \<Rightarrow> Inl KeyError
           | Some txn_rate \<Rightarrow>
               Inr (txn_rate,
                    [purchase_bank_row m purchase txn_rate account_name
                       (account_currency_of d (Some account_name))])))"

text \<open>The row that debits the account of a detail line.\<close>

definition purchase_line_row ::
  "migrator \<Rightarrow> purchase \<Rightarrow> rat \<Rightarrow> purchase_line \<Rightarrow> string option \<Rightarrow> string option \<Rightarrow> account_line" where
  "purchase_line_row m purchase txn_rate line acct account_currency =
     (let purchase_currency = pur_currency purchase;
          rate = (if account_currency \<noteq> Some purchase_currency then txn_rate else 1)
      in new_line\<lparr>account := acct,
           exchange_rate :=
             Some (if account_currency = Some purchase_currency then txn_rate else 1),
           debit_in_account_currency := Some (pul_amount line * rate),
           cost_center := default_cost_center m,
           user_remark := Some (case pul_description line of None \<Rightarrow> [] | Some t \<Rightarrow> t)\<rparr>)"

text \<open>
  The local \<open>account\<close> is assigned under the two known detail types only and keeps its
  value otherwise: \<open>None\<close> is "not yet assigned", \<open>Some None\<close> an item without expense
  account.
\<close>

definition purchase_line_account ::
  "db \<Rightarrow> migrator \<Rightarrow> string option option \<Rightarrow> purchase_line \<Rightarrow> error + string option" where
  "purchase_line_account d m previous line =
     (if pul_detail_type line = ''AccountBasedExpenseLineDetail'' then
        (case get_account_name_by_id d m (Some (pul_account_ref line)) of
           Inl e \<Rightarrow> Inl e
         | Inr name \<Rightarrow> Inr (Some name))
      else if pul_detail_type line = ''ItemBasedExpenseLineDetail'' then
        (case first (filter (\<lambda>i. item_quickbooks_id i = pul_item_ref line \<and>
                                 item_company i = company m) (tabItem d)) of
           Inl e \<Rightarrow> Inl DoesNotExistError
         | Inr item \<Rightarrow> first (item_defaults item))
      else (case previous of None \<Rightarrow> Inl UnboundLocalError | Some a \<Rightarrow> Inr a))"

fun purchase_lines ::
  "db \<Rightarrow> migrator \<Rightarrow> purchase \<Rightarrow> rat \<Rightarrow> string option option \<Rightarrow> purchase_line list \<Rightarrow>
   error + account_line list" where
  "purchase_lines d m purchase txn_rate previous [] = Inr []"
| "purchase_lines d m purchase txn_rate previous (line # lines) =
     (case purchase_line_account d m previous line of
        Inl e \<Rightarrow> Inl e
      | Inr acct \<Rightarrow>
          (case purchase_lines d m purchase txn_rate (Some acct) lines of
             Inl e \<Rightarrow> Inl e
           | Inr rows \<Rightarrow>
               Inr ((if pul_amount line \<noteq> 0
                     then [purchase_line_row m purchase txn_rate line acct (account_currency_of d acct)]
                     else []) @ rows)))"

fun purchase_tax_rows :: "db \<Rightarrow> migrator \<Rightarrow> rat \<Rightarrow> tax_line list \<Rightarrow> error + account_line list" where
  "purchase_tax_rows d m txn_rate [] = Inr []"
| "purchase_tax_rows d m txn_rate (line # lines) =
     (if tl_amount line \<noteq> 0 then
        (case tax_account d m (tl_tax_percent line) of
           Inl e \<Rightarrow> Inl e
         | Inr name \<Rightarrow>
             (case purchase_tax_rows d m txn_rate lines of
                Inl e \<Rightarrow> Inl e
              | Inr rows \<Rightarrow>
                  Inr (new_line\<lparr>account := Some name,
                         debit_in_account_currency := Some (tl_amount line * txn_rate),
                         cost_center := default_cost_center m\<rparr> # rows)))
      else purchase_tax_rows d m txn_rate lines)"

text \<open>The refund flip of one row; a row with neither key would raise KeyError.\<close>

definition flip_row :: "account_line \<Rightarrow> error + account_line" where
  "flip_row row =
     (case debit_in_account_currency row of
        Some x \<Rightarrow> Inr (row\<lparr>credit_in_account_currency := Some x, debit_in_account_currency := None\<rparr>)
      | None \<Rightarrow>
          (case credit_in_account_currency row of
             None \<Rightarrow> Inl KeyError
           | Some y \<Rightarrow>
               Inr (row\<lparr>debit_in_account_currency := Some y, credit_in_account_currency := None\<rparr>)))"

fun flip_rows :: "account_line list \<Rightarrow> error + account_line list" where
  "flip_rows [] = Inr []"
| "flip_rows (row # rows) =
     (case flip_row row of
        Inl e \<Rightarrow> Inl e
      | Inr row' \<Rightarrow> (case flip_rows rows of Inl e \<Rightarrow> Inl e | Inr rows' \<Rightarrow> Inr (row' # rows')))"

text \<open>
  The rest of the \<open>try\<close>, from the loop over the detail lines on; \<open>accounts0\<close> is the
  list \<open>accounts\<close> as line 1417 assigned it.
\<close>

definition purchase_accounts ::
  "migrator \<Rightarrow> purchase \<Rightarrow> rat \<Rightarrow> account_line list \<Rightarrow> db \<Rightarrow> error + account_line list" where
  "purchase_accounts m purchase txn_rate accounts0 d =
     (case purchase_lines d m purchase txn_rate None (pur_lines purchase) of
        Inl e \<Rightarrow> Inl e
      | Inr rows \<Rightarrow>
          (case (case pur_tax_detail purchase of
                   None \<Rightarrow> Inr []
                 | Some None \<Rightarrow> Inl KeyError
                 | Some (Some lines) \<Rightarrow> purchase_tax_rows d m txn_rate lines) of
             Inl e \<Rightarrow> Inl e
           | Inr taxes \<Rightarrow>
               (let accounts = accounts0 @ rows @ taxes
                in if pur_credit purchase then flip_rows accounts else Inr accounts)))"

text \<open>
  The handler is \<open>self._log_error(e, [purchase, accounts])\<close>. An exception raised before
  \<open>accounts\<close> is assigned makes the handler itself raise UnboundLocalError, which leaves
  \<open>_save_purchase\<close> with nothing logged; an exception raised later is logged.
\<close>

definition save_purchase :: "frappe \<Rightarrow> migrator \<Rightarrow> purchase \<Rightarrow> db \<Rightarrow> error + db" where
  "save_purchase F m purchase d =
     (let quickbooks_id = ''Purchase - '' @ pur_id purchase in
      case purchase_first_rows d m purchase of
        Inl e \<Rightarrow> Inl UnboundLocalError
      | Inr first_rows \<Rightarrow>
          (case purchase_accounts m purchase (fst first_rows) (snd first_rows) d of
             Inl e \<Rightarrow> Inr (log_error e d)
           | Inr accounts \<Rightarrow>
               Inr (priv_save_journal_entry F m quickbooks_id accounts (pur_txn_date purchase) d)))"

subsection \<open>\<open>_save_deposit\<close>\<close>

text \<open>
  The entity of a deposit line is read under the key \<open>type\<close> first and, when that is not
  a vendor, under the key \<open>Type\<close>; \<open>upper()\<close> is modelled on ASCII letters.
\<close>

record deposit_entity =
  de_type_lower_key :: "string option"
  de_type_upper_key :: "string option"
  de_name :: string

definition ascii_upper :: "string \<Rightarrow> string" where
  "ascii_upper s =
     map (\<lambda>c. if 97 \<le> (of_char c :: nat) \<and> (of_char c :: nat) \<le> 122
               then char_of ((of_char c :: nat) - 32) else c) s"

definition deposit_line_party ::
  "db \<Rightarrow> string \<Rightarrow> deposit_entity option \<Rightarrow> error + string option \<times> string option" where
  "deposit_line_party d account_name entity =
     (if account_of_type d [''Payable'', ''Receivable''] account_name then
        (case entity of
           None \<Rightarrow> Inr (None, None)
         | Some e \<Rightarrow>
             (case de_type_lower_key e of
                None \<Rightarrow> Inl KeyError
              | Some t \<Rightarrow>
                  (if ascii_upper t = ''VENDOR''
                   then Inr (Some ''Supplier'', Some (strip_party (de_name e)))
                   else
                     (case de_type_upper_key e of
                        None \<Rightarrow> Inl KeyError
                      | Some u \<Rightarrow>
                          Inr (if ascii_upper u = ''CUSTOMER'' then Some ''Customer'' else None,
                               Some (strip_party (de_name e)))))))
      else Inr (None, None))"

text \<open>
  A line of a deposit either has \<open>LinkedTxn\<close> (\<open>dl_linked_txn\<close>) or names an account in its
  \<open>DepositLineDetail\<close>. \<open>ExchangeRate\<close> is optional, as in a purchase.
\<close>

record deposit_line =
  dl_amount :: rat
  dl_linked_txn :: bool
  dl_account_ref :: string
  dl_entity :: "deposit_entity option"
  dl_description :: "string option"

record cash_back =
  cb_account_ref :: string
  cb_amount :: rat

record deposit =
  dep_id :: string
  dep_deposit_to_account_ref :: string
  dep_currency :: string
  dep_exchange_rate :: "rat option"
  dep_total_amt :: rat
  dep_private_note :: "string option"
  dep_lines :: "deposit_line list"
  dep_cash_back :: "cash_back option"
  dep_txn_date :: string

text \<open>The row that debits the account deposited to.\<close>

definition deposit_bank_row ::
  "migrator \<Rightarrow> deposit \<Rightarrow> rat \<Rightarrow> string \<Rightarrow> string option \<Rightarrow> account_line" where
  "deposit_bank_row m deposit txn_rate account_name account_currency =
     (let deposit_currency = dep_currency deposit;
          rate = (if account_currency \<noteq> Some deposit_currency then txn_rate else 1)
      in new_line\<lparr>account := Some account_name,
           exchange_rate :=
             Some (if account_currency = Some deposit_currency then txn_rate else 1),
           debit_in_account_currency := Some (dep_total_amt deposit * rate),
           cost_center := default_cost_center m,
           user_remark := Some (case dep_private_note deposit of None \<Rightarrow> [] | Some t \<Rightarrow> t)\<rparr>)"

text \<open>Lines 1494 to 1508, up to the assignment of \<open>accounts\<close>; as in \<open>_save_purchase\<close>.\<close>

definition deposit_first_rows :: "db \<Rightarrow> migrator \<Rightarrow> deposit \<Rightarrow> error + rat \<times> account_line list" where
  "deposit_first_rows d m deposit =
     (case get_account_name_by_id d m (Some (dep_deposit_to_account_ref deposit)) of
        Inl e \<Rightarrow> Inl e
      | Inr account_name \<Rightarrow>
          (case dep_exchange_rate deposit of
             None \<Rightarrow> Inl KeyError
           | Some txn_rate \<Rightarrow>
               Inr (txn_rate,
                    [deposit_bank_row m deposit txn_rate account_name
                       (account_currency_of d (Some account_name))])))"

text \<open>
  The row of one line: on the undeposited funds account with the amount as it is when
  the line has \<open>LinkedTxn\<close>, on the account of the line otherwise.
\<close>

definition deposit_line_row ::
  "db \<Rightarrow> migrator \<Rightarrow> deposit \<Rightarrow> rat \<Rightarrow> deposit_line \<Rightarrow> error + account_line" where
  "deposit_line_row d m deposit txn_rate line =
     (if dl_linked_txn line then
        Inr (new_line\<lparr>account := undeposited_funds_account m,
               credit_in_account_currency := Some (dl_amount line),
               cost_center := default_cost_center m\<rparr>)
      else
        (case get_account_name_by_id d m (Some (dl_account_ref line)) of
           Inl e \<Rightarrow> Inl e
         | Inr account_name \<Rightarrow>
             (let deposit_currency = dep_currency deposit;
                  account_currency = account_currency_of d (Some account_name);
                  rate = (if account_currency \<noteq> Some deposit_currency then txn_rate else 1)
              in case deposit_line_party d account_name (dl_entity line) of
                   Inl e \<Rightarrow> Inl e
                 | Inr pp \<Rightarrow>
                     Inr (new_line\<lparr>account := Some account_name,
                            exchange_rate :=
                              Some (if account_currency = Some deposit_currency then txn_rate else 1),
                            credit_in_account_currency := Some (dl_amount line * rate),
                            party_type := fst pp, party := snd pp,
                            cost_center := default_cost_center m,
                            user_remark :=
                              Some (case dl_description line of None \<Rightarrow> [] | Some t \<Rightarrow> t)\<rparr>))))"

fun deposit_lines ::
  "db \<Rightarrow> migrator \<Rightarrow> deposit \<Rightarrow> rat \<Rightarrow> deposit_line list \<Rightarrow> error + account_line list" where
  "deposit_lines d m deposit txn_rate [] = Inr []"
| "deposit_lines d m deposit txn_rate (line # lines) =
     (case deposit_line_row d m deposit txn_rate line of
        Inl e \<Rightarrow> Inl e
      | Inr row \<Rightarrow>
          (case deposit_lines d m deposit txn_rate lines of
             Inl e \<Rightarrow> Inl e
           | Inr rows \<Rightarrow> Inr (row # rows)))"

text \<open>The rest of the \<open>try\<close>: the rows of the lines, then the cash-back row.\<close>

definition deposit_accounts ::
  "migrator \<Rightarrow> deposit \<Rightarrow> rat \<Rightarrow> account_line list \<Rightarrow> db \<Rightarrow> error + account_line list" where
  "deposit_accounts m deposit txn_rate accounts0 d =
     (case deposit_lines d m deposit txn_rate (dep_lines deposit) of
        Inl e \<Rightarrow> Inl e
      | Inr rows \<Rightarrow>
          (case dep_cash_back deposit of
             None \<Rightarrow> Inr (accounts0 @ rows)
           | Some cb \<Rightarrow>
               (case get_account_name_by_id d m (Some (cb_account_ref cb)) of
                  Inl e \<Rightarrow> Inl e
                | Inr name \<Rightarrow>
                    Inr (accounts0 @ rows @
                         [new_line\<lparr>account := Some name,
                            debit_in_account_currency := Some (cb_amount cb),
                            cost_center := default_cost_center m\<rparr>]))))"

text \<open>
  The handler is \<open>self._log_error(e, [deposit, accounts])\<close>, with the same consequence as
  in \<open>_save_purchase\<close> for an exception raised before \<open>accounts\<close> is assigned.
\<close>

definition save_deposit :: "frappe \<Rightarrow> migrator \<Rightarrow> deposit \<Rightarrow> db \<Rightarrow> error + db" where
  "save_deposit F m deposit d =
     (let quickbooks_id = ''Deposit - '' @ dep_id deposit in
      case deposit_first_rows d m deposit of
        Inl e \<Rightarrow> Inl UnboundLocalError
      | Inr first_rows \<Rightarrow>
          (case deposit_accounts m deposit (fst first_rows) (snd first_rows) d of
             Inl e \<Rightarrow> Inr (log_error e d)
           | Inr accounts \<Rightarrow>
               Inr (priv_save_journal_entry F m quickbooks_id accounts (dep_txn_date deposit) d)))"

subsection \<open>\<open>__save_ledger_entry_as_je\<close>: entries built from the General Ledger\<close>

text \<open>The account-name rewrite table of the source, in its order.\<close>

definition accounts_map :: "(string \<times> string) list" where
  "accounts_map =
    [
     (''A. Majid Rumani Loan Account - QB - NX'',
      ''Short Term Investment:A. Majid Rumani Loan Account - NX''),
     (''Majeed Bhai Loan Account - QB - NX'',
      ''Short Term Investment:Majeed Bhai Loan Account - NX''),
     (''Nasir Rais - Short Term Borrowings - QB - NX'',
      ''Nasir Rais - Short Term Borrowings - NX''),
     (''Ankit Sinha - Short Term Borrowings - QB - NX'',
      ''Ankit Sinha - Short Term Borrowings - NX''),
     (''Brijesh Loan Account - QB - NX'',
      ''Short Term Investment:Brijesh Loan Account - NX''),
     (''ADCB 12033795820001 AED02 - QB - NX'',
      ''ADCB 12033795820001 AED02 - NX''),
     (''ADCB 12033795920001 AED01 - QB - NX'',
      ''ADCB 12033795920001 AED01 - NX''),
     (''ADCB Loan - QB - NX'',
      ''ADCB Loan - NX''),
     (''ADCB USD (IN AED) 23033795830001 - QB - NX'',
      ''ADCB USD (IN AED) 23033795830001 - NX''),
     (''Accounts Payable (A/P) - QB - NX'',
      ''Creditors - NX''),
     (''Accounts Payable (A/P) - USD - QB - NX'',
      ''Creditors USD - NX''),
     (''Accounts Payable (A/P) - INR - QB - NX'',
      ''Creditors INR - NX''),
     (''Accounts Payable (A/P) - OMR - QB - NX'',
      ''Creditors OMR - NX''),
     (''Accounts Payable (A/P) - EUR - QB - NX'',
      ''Creditors EUR - NX''),
     (''Accounts Payable (A/P) - GBP - QB - NX'',
      ''Creditors GBP - NX''),
     (''Accounts Payable (A/P) - KWD - QB - NX'',
      ''Creditors KWD - NX''),
     (''Accounts Payable (A/P) - QAR - QB - NX'',
      ''Creditors QAR - NX''),
     (''Office Expense - QATAR - QB - NX'',
      ''Office Expense - QATAR - NX''),
     (''Accounts Receivable (A/R) - QB - NX'',
      ''Debtors - NX''),
     (''Accounts Receivable (A/R) - USD - QB - NX'',
      ''Debtors USD - NX''),
     (''Akbar Loan Account - QB - NX'',
      ''Short Term Investment:Akbar Loan Account - NX''),
     (''Appliances And Devices - Accumulated Depreciation - QB - NX'',
      ''Accumulated Depreciation - NX''),
     (''Arif Kandathil - QB - NX'',
      ''Payroll Expenses - NX''),
     (''BONUS PAID - QB - NX'',
      ''Bonus Paid - NX''),
     (''Bank charges - QB - NX'',
      ''Bank charges - NX''),
     (''CCTV Camera - Accumulated Depreciation - QB - NX'',
      ''Accumulated Depreciation - NX''),
     (''CONSUMABLES & TOOLS - QB - NX'',
      ''Consumables & Tools - NX''),
     (''Cash on hand - QB - NX'',
      ''Cash - NX''),
     (''Computer And Accessories - Accumulated Depreciation - QB - NX'',
      ''Accumulated Depreciation - NX''),
     (''Customs Charge - QB - NX'',
      ''Customs Charge - NX''),
     (''DISCOUNT RECEIVED - QB - NX'',
      ''Discount Received - NX''),
     (''Depreciation - Appliances And Devices - QB - NX'',
      ''Depreciation - Appliances And Devices - NX''),
     (''Depreciation - CCTV Camera - QB - NX'',
      ''Depreciation - CCTV Camera - NX''),
     (''Depreciation - Computer & Accessories - QB - NX'',
      ''Depreciation - Computer & Accessories - NX''),
     (''Depreciation - Furniture and Fixtures - QB - NX'',
      ''Depreciation - Furniture and Fixtures - NX''),
     (''Depreciation - Machinery and Equipment - QB - NX'',
      ''Depreciation - Machinery and Equipment - NX''),
     (''Depreciation - Motor Vehicle - QB - NX'',
      ''Depreciation - Motor Vehicle - NX''),
     (''Depreciation - Software - QB - NX'',
      ''Depreciation - Software - NX''),
     (''Dividend disbursed - QB - NX'',
      ''Dividend Disbursed - NX''),
     (''Dues and subscriptions - QB - NX'',
      ''Dues and subscriptions - NX''),
     (''Electricity & Water Expense - QB - NX'',
      ''Electricity & Water Expense - NX''),
     (''Exchange Gain or Loss - QB - NX'',
      ''Exchange Gain/Loss - NX''),
     (''FUEL EXPENSE - QB - NX'',
      ''Fuel Expense - NX''),
     (''Faisal Loan Account - QB - NX'',
      ''Short Term Investment:Faisal Loan Account - NX''),
     (''Furniture and Fixtures - Accumulated Depreciation - QB - NX'',
      ''Accumulated Depreciation - NX''),
     (''Furniture and Fixtures - QB - NX'',
      ''Furnitures and Fixtures - NX''),
     (''Gratuity Expense - QB - NX'',
      ''Gratuity Expense - NX''),
     (''Insurance - General - QB - NX'',
      ''Insurance - NX''),
     (''Interest expense - QB - NX'',
      ''Interest Expense - NX''),
     (''Interest income - QB - NX'',
      ''Interest income - NX''),
     (''Inventory - QB - NX'',
      ''Inventory - NX''),
     (''Junaid Bhai Loan Account - QB - NX'',
      ''Short Term Investment:Junaid Bhai Loan Account - NX''),
     (''Khaan Saab Loan Account - QB - NX'',
      ''Short Term Investment:Khaan Saab Loan Account - NX''),
     (''LOAN TO STAFF - QB - NX'',
      ''LOAN TO STAFF - NX''),
     (''Legal and professional fees - QB - NX'',
      ''Legal Expenses - NX''),
     (''Commissions and fees - QB - NX'',
      ''Commissions and fees - NX''),
     (''Machinery and equipment - Accumulated Depreciation - QB - NX'',
      ''Accumulated Depreciation - NX''),
     (''Machinery and equipment - QB - NX'',
      ''Machinery and equipment - NX''),
     (''PRELIMINARY EXPENSE - QB - NX'',
      ''Preliminary Expense - NX''),
     (''Computer And Accessories - QB - NX'',
      ''Computer And Accessories - NX''),
     (''Insurance - Disability - QB - NX'',
      ''Insurance - NX''),
     (''Utilities - QB - NX'',
      ''Utilities - NX''),
     (''Other Expense - QB - NX'',
      ''Other Expense - NX''),
     (''Other operating income (expenses) - QB - NX'',
      ''Other operating income (expenses) - NX''),
     (''Bad debts - QB - NX'',
      ''Bad debts - NX''),
     (''Other selling expenses - QB - NX'',
      ''Other selling expenses - NX''),
     (''Meals and entertainment - QB - NX'',
      ''Meals and entertainment - NX''),
     (''Motor Vehicle - Accumulated Depreciation - QB - NX'',
      ''Accumulated Depreciation - NX''),
     (''Motor Vehicle - QB - NX'',
      ''Motor Vehicle - NX''),
     (''Uncategorised Expense - QB - NX'',
      ''Uncategorised Expense - NX''),
     (''Uncategorised Income - QB - NX'',
      ''Uncategorised Income - NX''),
     (''OFFICE REFRESHMENTS - QB - NX'',
      ''Office Refreshments - NX''),
     (''Office expenses - QB - NX'',
      ''Office expenses - NX''),
     (''Other general and administrative expenses - QB - NX'',
      ''Other general and administrative expenses - NX''),
     (''Overhead - COS - QB - NX'',
      ''Overhead - COS - NX''),
     (''Payroll Expenses - 1 - QB - NX'',
      ''Payroll Expenses - NX''),
     (''Petty Cash - QB - NX'',
      ''Petty Cash - NX''),
     (''Prepaid Visa Expense - QB - NX'',
      ''Prepaid Visa Expense - NX''),
     (''Prepaid expenses - QB - NX'',
      ''Prepaid expenses - NX''),
     (''Provision for Gratuity - QB - NX'',
      ''Provision for Gratuity - NX''),
     (''Purchases - QB - NX'',
      ''Purchases - NX''),
     (''ROUNDOFF - QB - NX'',
      ''Round Off - NX''),
     (''Rent or lease payments - QB - NX'',
      ''Rent or lease payments - NX''),
     (''Repairs and Maintenance - QB - NX'',
      ''Repairs and Maintenance - NX''),
     (''Retained Earnings - QB - NX'',
      ''Retained Earnings - NX''),
     (''Salim Lakdawala Loan Account - QB - NX'',
      ''Short Term Investment:Salim Lakdawala Loan Account - NX''),
     (''Samiuddin Siddqi Loan Account - QB - NX'',
      ''Short Term Investment:Samiuddin Siddqi Loan Account - NX''),
     (''Security Deposits - QB - NX'',
      ''Security Deposits - NX''),
     (''Shipping and delivery expense - QB - NX'',
      ''Shipping and delivery - NX''),
     (''Short Term Investment - 1 - QB - NX'',
      ''Short Term Investment - NX''),
     (''Software - Accumulated Depreciation - QB - NX'',
      ''Accumulated Depreciation - NX''),
     (''Software - QB - NX'',
      ''Software - NX''),
     (''CCTV Camera - 1 - QB - NX'',
      ''CCTV Camera - NX''),
     (''Appliances And Devices - QB - NX'',
      ''Appliances And Devices - NX''),
     (''Staff Visa Expense - U.A.E - QB - NX'',
      ''Staff Visa Expense - U.A.E - NX''),
     (''Staff Welfare Expense - QB - NX'',
      ''Staff Welfare Expense - NX''),
     (''Stationery and printing - QB - NX'',
      ''Print and Stationery - NX''),
     (''Supplies - QB - NX'',
      ''Supplies - NX''),
     (''Suspense Account - QB - NX'',
      ''Suspense Account - NX''),
     (''Telephone expense - QB - NX'',
      ''Telephone Expenses - NX''),
     (''Travel expenses - general and admin expenses - QB - NX'',
      ''Travel expenses - general and admin expenses - NX''),
     (''VAT Control - QB - NX'',
      ''VAT Control - NX''),
     (''VAT Payable / Receivable - QB - NX'',
      ''VAT Payable / Receivable - NX''),
     (''VAT Suspense - QB - NX'',
      ''VAT Suspense - NX''),
     (''VISA CANCELLATION EXPENSE - QB - NX'',
      ''VISA CANCELLATION EXPENSE - NX''),
     (''VISIT VISA EXPENSE - QB - NX'',
      ''VISIT VISA EXPENSE - NX''),
     (''Waste Management Expense - QB - NX'',
      ''Waste Management Expense - NX''),
     (''Sales - QB - NX'',
      ''Sales - NX''),
     (''Discounts given - QB - NX'',
      ''Discounts given - NX''),
     (''DESKTOP / LAPTOP - 1 - QB - NX'',
      ''DESKTOP / LAPTOP - NX''),
     (''AMC EXPENSES - QB - NX'',
      ''AMC EXPENSES - NX''),
     (''Website Development and Maintenance Charges - QB - NX'',
      ''Website Development and Maintenance Charges - NX''),
     (''AUDIT EXPENSE - QB - NX'',
      ''AUDIT EXPENSE - NX'')
    ]"

text \<open>The lines dropped before anything else is done with them.\<close>

definition zero_line :: "gl_line \<Rightarrow> bool" where
  "zero_line line \<longleftrightarrow>
     gl_credit line = 0 \<and> gl_debit line = 0 \<and>
     gl_credit_home_amt line = 0 \<and> gl_debt_home_amt line = 0"

definition ledger_line_party :: "db \<Rightarrow> gl_line \<Rightarrow> string option \<times> string option" where
  "ledger_line_party d line =
     (if gl_vendor line \<noteq> [] \<and> account_of_type d [''Payable''] (gl_account line)
        then (Some ''Supplier'', Some (strip_party (gl_vendor line)))
      else if gl_customer line \<noteq> [] \<and> account_of_type d [''Receivable''] (gl_account line)
        then (Some ''Customer'', Some (strip_party (gl_customer line)))
      else (None, None))"

text \<open>\<open>amount_type\<close>: \<open>True\<close> is "credit".\<close>

definition ledger_amount_is_credit :: "gl_line \<Rightarrow> bool" where
  "ledger_amount_is_credit line =
     (if gl_credit line \<noteq> 0 \<or> gl_debit line \<noteq> 0 then gl_credit line \<noteq> 0
      else gl_credit_home_amt line \<noteq> 0)"

definition ledger_amount :: "gl_line \<Rightarrow> string option \<Rightarrow> rat" where
  "ledger_amount line account_currency =
     (let is_credit = ledger_amount_is_credit line;
          own = (if is_credit then gl_credit line else gl_debit line);
          home = (if is_credit then gl_credit_home_amt line else gl_debt_home_amt line)
      in if Some (gl_currency line) = account_currency
           then (if own \<noteq> 0 then own else home)
         else home)"

record ledger_locals =
  ll_accounts :: "account_line list"
  ll_total_debit :: rat
  ll_total_credit :: rat

definition ledger_line_step ::
  "db \<Rightarrow> migrator \<Rightarrow> ledger_locals \<Rightarrow> gl_line \<Rightarrow> error + ledger_locals" where
  "ledger_line_step d m loc line =
     (if zero_line line then Inr loc
      else
        (case map_of accounts_map (gl_account line) of
           None \<Rightarrow> Inl KeyError
         | Some mapped \<Rightarrow>
             (let pp = ledger_line_party d line;
                  account_currency = account_currency_of d (Some (gl_account line));
                  is_credit = ledger_amount_is_credit line;
                  amount = ledger_amount line account_currency;
                  row0 = new_line\<lparr>account := Some mapped, cost_center := default_cost_center m,
                           user_remark := Some (gl_memo line),
                           party_type := fst pp, party := snd pp\<rparr>;
                  row = (if is_credit then row0\<lparr>credit_in_account_currency := Some amount\<rparr>
                         else row0\<lparr>debit_in_account_currency := Some amount\<rparr>);
                  in_company_currency = (Some (company_currency m) = account_currency)
              in Inr \<lparr>ll_accounts = ll_accounts loc @ [row],
                      ll_total_debit =
                        (if in_company_currency \<and> \<not> is_credit
                         then ll_total_debit loc + amount else ll_total_debit loc),
                      ll_total_credit =
                        (if in_company_currency \<and> is_credit
                         then ll_total_credit loc + amount else ll_total_credit loc)\<rparr>)))"

fun ledger_lines :: "db \<Rightarrow> migrator \<Rightarrow> ledger_locals \<Rightarrow> gl_line list \<Rightarrow> error + ledger_locals" where
  "ledger_lines d m loc [] = Inr loc"
| "ledger_lines d m loc (line # lines) =
     (case ledger_line_step d m loc line of
        Inl e \<Rightarrow> Inl e
      | Inr loc' \<Rightarrow> ledger_lines d m loc' lines)"

text \<open>
  The second loop: a row on an account that is not in company currency gets
  \<open>abs(total_debit - total_credit) / amount\<close> as its exchange rate.
\<close>

definition ledger_set_rate :: "db \<Rightarrow> migrator \<Rightarrow> rat \<Rightarrow> account_line \<Rightarrow> error + account_line" where
  "ledger_set_rate d m difference row =
     (if Some (company_currency m) \<noteq> account_currency_of d (account row) then
        (case (case credit_in_account_currency row of
                 Some c \<Rightarrow> Inr c
               | None \<Rightarrow>
                   (case debit_in_account_currency row of
                      None \<Rightarrow> Inl KeyError
                    | Some b \<Rightarrow> Inr b)) of
           Inl e \<Rightarrow> Inl e
         | Inr amount \<Rightarrow>
             (if amount = 0 then Inl ZeroDivisionError
              else Inr (row\<lparr>exchange_rate := Some (\<bar>difference\<bar> / amount)\<rparr>)))
      else Inr row)"

fun ledger_set_rates :: "db \<Rightarrow> migrator \<Rightarrow> rat \<Rightarrow> account_line list \<Rightarrow> error + account_line list" where
  "ledger_set_rates d m difference [] = Inr []"
| "ledger_set_rates d m difference (row # rows) =
     (case ledger_set_rate d m difference row of
        Inl e \<Rightarrow> Inl e
      | Inr row' \<Rightarrow>
          (case ledger_set_rates d m difference rows of
             Inl e \<Rightarrow> Inl e
           | Inr rows' \<Rightarrow> Inr (row' # rows')))"

definition ledger_accounts :: "migrator \<Rightarrow> ledger_entry \<Rightarrow> db \<Rightarrow> error + account_line list" where
  "ledger_accounts m ledger_entry d =
     (case ledger_lines d m \<lparr>ll_accounts = [], ll_total_debit = 0, ll_total_credit = 0\<rparr>
             (le_lines ledger_entry) of
        Inl e \<Rightarrow> Inl e
      | Inr loc \<Rightarrow>
          ledger_set_rates d m (ll_total_debit loc - ll_total_credit loc) (ll_accounts loc))"

definition priv_save_ledger_entry_as_je ::
  "frappe \<Rightarrow> migrator \<Rightarrow> ledger_entry \<Rightarrow> string \<Rightarrow> db \<Rightarrow> db" where
  "priv_save_ledger_entry_as_je F m ledger_entry quickbooks_id d =
     (case ledger_accounts m ledger_entry d of
        Inl e \<Rightarrow> log_error e d
      | Inr accounts \<Rightarrow>
          (if accounts \<noteq> []
           then priv_save_journal_entry F m quickbooks_id accounts (le_date ledger_entry) d
           else d))"

text \<open>\<open>_save_entity_as_je\<close>, the entry point of the General Ledger phase.\<close>

definition save_entity_as_je :: "frappe \<Rightarrow> migrator \<Rightarrow> string \<Rightarrow> ledger_entry \<Rightarrow> db \<Rightarrow> db" where
  "save_entity_as_je F m entity_type entity d =
     (let quickbooks_id =
            (if entity_type = ''Bill Payment (Cheque)'' then ''BillPayment - '' @ le_id entity
             else entity_type @ '' - '' @ le_id entity)
      in priv_save_ledger_entry_as_je F m entity quickbooks_id d)"

subsection \<open>\<open>_save_entries\<close> and the handler of \<open>_migrate_entries\<close>\<close>

text \<open>
  The records of one entity kind, dispatched to the transformer of that kind. The loop
  of \<open>_save_entries\<close> has no handler: an exception that leaves a transformer ends it.
  The handler is the one of \<open>_migrate_entries\<close>, around the whole phase.
\<close>

datatype entry =
    JournalEntry journal_entry
  | Payment payment
  | BillPayment bill_payment
  | Purchase purchase
  | Deposit deposit

fun entity_method :: "frappe \<Rightarrow> migrator \<Rightarrow> entry \<Rightarrow> db \<Rightarrow> error + db" where
  "entity_method F m (JournalEntry e) d = save_journal_entry F m e d"
| "entity_method F m (Payment e) d = Inr (save_payment F m e d)"
| "entity_method F m (BillPayment e) d = Inr (save_bill_payment F m e d)"
| "entity_method F m (Purchase e) d = save_purchase F m e d"
| "entity_method F m (Deposit e) d = save_deposit F m e d"

fun save_entries :: "frappe \<Rightarrow> migrator \<Rightarrow> entry list \<Rightarrow> db \<Rightarrow> error option \<times> db" where
  "save_entries F m [] d = (None, d)"
| "save_entries F m (e # entries) d =
     (case entity_method F m e d of
        Inl err \<Rightarrow> (Some err, d)
      | Inr d' \<Rightarrow> save_entries F m entries d')"

text \<open>\<open>_migrate_entries\<close> from the call of \<open>_save_entries\<close> on, the pages already fetched.\<close>

definition migrate_entries :: "frappe \<Rightarrow> migrator \<Rightarrow> entry list \<Rightarrow> db \<Rightarrow> db" where
  "migrate_entries F m entries d =
     (case save_entries F m entries d of
        (Some err, d') \<Rightarrow> log_error err d'
      | (None, d') \<Rightarrow> d')"

section \<open>Properties: auxiliary notions and example data\<close>

text \<open>The amount a row posts, on whichever side it is.\<close>

definition posted_amount :: "account_line \<Rightarrow> rat" where
  "posted_amount row =
     (case debit_in_account_currency row of
        Some x \<Rightarrow> x
      | None \<Rightarrow> (case credit_in_account_currency row of Some y \<Rightarrow> y | None \<Rightarrow> 0))"

text \<open>
  The rule of the rows that are built from a comparison of the currency of their account
  with the currency of the transaction: when the two agree the row carries the exchange
  rate of the transaction and posts the raw amount; when they differ the row carries the
  rate 1 and posts the raw amount times the exchange rate of the transaction. \<open>rnd\<close> is
  the rounding of the amount (\<open>flt(x, 2)\<close> in \<open>_save_payment\<close>, none elsewhere). The
  currency is the one of the account that the row names.
\<close>

definition converted_once :: "(rat \<Rightarrow> rat) \<Rightarrow> db \<Rightarrow> string \<Rightarrow> rat \<Rightarrow> rat \<Rightarrow> account_line \<Rightarrow> bool" where
  "converted_once rnd d txn_currency txn_rate raw row \<longleftrightarrow>
     (if account_currency_of d (account row) = Some txn_currency
      then exchange_rate row = Some txn_rate \<and> posted_amount row = rnd raw
      else exchange_rate row = Some 1 \<and> posted_amount row = rnd (raw * txn_rate))"

text \<open>
  The payment lines that \<open>_save_payment\<close> turns into a row (those whose first linked
  transaction is an invoice), and the amount it applies for such a line: the smaller of
  the line amount and the outstanding amount of the first Sales Invoice that
  \<open>frappe.get_all\<close> returns for the key. That lookup names no company.
\<close>

definition invoice_line :: "payment_line \<Rightarrow> bool" where
  "invoice_line line \<longleftrightarrow>
     (case pl_linked_txn line of [] \<Rightarrow> False | lt # _ \<Rightarrow> lt_txn_type lt = ''Invoice'')"

definition applied_amount :: "db \<Rightarrow> payment_line \<Rightarrow> rat option" where
  "applied_amount d line =
     (case pl_linked_txn line of
        [] \<Rightarrow> None
      | lt # _ \<Rightarrow>
          (case filter (\<lambda>i. si_quickbooks_id i = ''Invoice - '' @ lt_txn_id lt) (tabSales_Invoice d) of
             [] \<Rightarrow> None
           | found # _ \<Rightarrow> Some (min (pl_amount line) (si_outstanding_amount found))))"

text \<open>The number of Journal Entries and of Sales Invoices stored under a key for a company.\<close>

definition je_count :: "db \<Rightarrow> string \<Rightarrow> string \<Rightarrow> nat" where
  "je_count d quickbooks_id co =
     length (filter (\<lambda>j. je_quickbooks_id j = quickbooks_id \<and> je_company j = co) (tabJournal_Entry d))"

definition si_count :: "db \<Rightarrow> string \<Rightarrow> string \<Rightarrow> nat" where
  "si_count d quickbooks_id co =
     length (filter (\<lambda>i. si_quickbooks_id i = quickbooks_id \<and> si_company i = co) (tabSales_Invoice d))"

text \<open>The key under which each transformer stores its record.\<close>

fun entry_key :: "entry \<Rightarrow> string" where
  "entry_key (JournalEntry e) = ''Journal Entry - '' @ qje_id e"
| "entry_key (Payment e) = ''Payment - '' @ pay_id e"
| "entry_key (BillPayment e) = ''BillPayment - '' @ bp_id e"
| "entry_key (Purchase e) = ''Purchase - '' @ pur_id e"
| "entry_key (Deposit e) = ''Deposit - '' @ dep_id e"

definition ledger_key :: "string \<Rightarrow> ledger_entry \<Rightarrow> string" where
  "ledger_key entity_type entity =
     (if entity_type = ''Bill Payment (Cheque)'' then ''BillPayment - '' @ le_id entity
      else entity_type @ '' - '' @ le_id entity)"

text \<open>
  What a call of the builder that created the record under a key has changed: one
  Journal Entry with that key, for that company and with those rows is appended; the
  other tables are as before.
\<close>

definition entry_added :: "string \<Rightarrow> string \<Rightarrow> account_line list \<Rightarrow> db \<Rightarrow> db \<Rightarrow> bool" where
  "entry_added qid co accs d d' \<longleftrightarrow>
     tabAccount d' = tabAccount d \<and> tabCustomer d' = tabCustomer d \<and> tabItem d' = tabItem d \<and>
     tabSales_Invoice d' = tabSales_Invoice d \<and> tabPurchase_Invoice d' = tabPurchase_Invoice d \<and>
     (\<exists>j. je_quickbooks_id j = qid \<and> je_company j = co \<and> je_accounts j = accs \<and>
          tabJournal_Entry d' = tabJournal_Entry d @ [j])"

text \<open>
  Modelled from the spec: the validation that the storage collaborator runs on a
  Journal Entry. \<open>insert()\<close> and \<open>submit()\<close> are frappe's and ERPNext's code, which is not
  part of the source; the builder has no balance check of its own. The specification
  (Journal/Invoice Builder; Error handling; Testable properties) says that imbalance
  surfaces as a validation failure from the storage collaborator on submission, and gives
  the balance as: the sum of debit times exchange rate equals the sum of credit times
  exchange rate, to 2 decimal places. A missing amount counts as 0 and a missing exchange
  rate as 1. The storage may reject at \<open>insert()\<close> or at \<open>submit()\<close>: the assumption is
  only that an entry which passes both is balanced.
\<close>

definition line_debit :: "account_line \<Rightarrow> rat" where
  "line_debit row =
     (case debit_in_account_currency row of None \<Rightarrow> 0 | Some x \<Rightarrow> x) *
     (case exchange_rate row of None \<Rightarrow> 1 | Some r \<Rightarrow> r)"

definition line_credit :: "account_line \<Rightarrow> rat" where
  "line_credit row =
     (case credit_in_account_currency row of None \<Rightarrow> 0 | Some x \<Rightarrow> x) *
     (case exchange_rate row of None \<Rightarrow> 1 | Some r \<Rightarrow> r)"

definition balanced :: "account_line list \<Rightarrow> bool" where
  "balanced rows \<longleftrightarrow>
     \<bar>sum_list (map line_debit rows) - sum_list (map line_credit rows)\<bar> < 1 / 200"

definition rejects_imbalance :: "frappe \<Rightarrow> bool" where
  "rejects_imbalance F \<longleftrightarrow>
     (\<forall>je. je_insert_ok F je \<and> je_submit_ok F je \<longrightarrow> balanced (je_accounts je))"

text \<open>
  Every Journal Entry of the second database is one of the first, or a draft
  (\<open>docstatus\<close> 0), or balanced.
\<close>

definition submitted_balanced :: "db \<Rightarrow> db \<Rightarrow> bool" where
  "submitted_balanced d d' \<longleftrightarrow>
     (\<forall>j \<in> set (tabJournal_Entry d').
        j \<in> set (tabJournal_Entry d) \<or> je_docstatus j = 0 \<or> balanced (je_accounts j))"

subsection \<open>A small company, for concrete runs\<close>

definition demo_accounts :: "account_doc list" where
  "demo_accounts =
     [\<lparr>acc_name = ''Debtors - NX'', acc_quickbooks_id = Some ''1'', acc_company = ''NX'',
       acc_account_type = Some ''Receivable'', acc_account_currency = ''AED'', acc_tax_rate = 0\<rparr>,
      \<lparr>acc_name = ''Bank - NX'', acc_quickbooks_id = Some ''2'', acc_company = ''NX'',
       acc_account_type = Some ''Bank'', acc_account_currency = ''AED'', acc_tax_rate = 0\<rparr>,
      \<lparr>acc_name = ''Debtors USD - NX'', acc_quickbooks_id = Some ''3'', acc_company = ''NX'',
       acc_account_type = Some ''Receivable'', acc_account_currency = ''USD'', acc_tax_rate = 0\<rparr>,
      \<lparr>acc_name = ''Creditors - NX'', acc_quickbooks_id = Some ''4'', acc_company = ''NX'',
       acc_account_type = Some ''Payable'', acc_account_currency = ''AED'', acc_tax_rate = 0\<rparr>,
      \<lparr>acc_name = ''Accounts Payable (A/P) - QB - NX'', acc_quickbooks_id = Some ''5'',
       acc_company = ''NX'', acc_account_type = Some ''Payable'', acc_account_currency = ''AED'',
       acc_tax_rate = 0\<rparr>,
      \<lparr>acc_name = ''Sales - QB - NX'', acc_quickbooks_id = Some ''6'', acc_company = ''NX'',
       acc_account_type = None, acc_account_currency = ''AED'', acc_tax_rate = 0\<rparr>,
      \<lparr>acc_name = ''Cash on hand - QB - NX'', acc_quickbooks_id = Some ''7'', acc_company = ''NX'',
       acc_account_type = None, acc_account_currency = ''AED'', acc_tax_rate = 0\<rparr>,
      \<lparr>acc_name = ''Sales - NX'', acc_quickbooks_id = None, acc_company = ''NX'',
       acc_account_type = None, acc_account_currency = ''AED'', acc_tax_rate = 0\<rparr>,
      \<lparr>acc_name = ''Cash - NX'', acc_quickbooks_id = None, acc_company = ''NX'',
       acc_account_type = Some ''Cash'', acc_account_currency = ''AED'', acc_tax_rate = 0\<rparr>]"

definition demo_db :: db where
  "demo_db =
     \<lparr>tabAccount = demo_accounts,
      tabCustomer = [\<lparr>cust_name = ''Acme'', cust_quickbooks_id = ''21'', cust_company = ''NX''\<rparr>],
      tabItem = [], tabJournal_Entry = [],
      tabSales_Invoice =
        [\<lparr>si_name = ''SINV-1'', si_quickbooks_id = ''Invoice - 9001'', si_company = ''NX'',
          si_customer = ''Acme'', si_debit_to = ''Debtors - NX'', si_outstanding_amount = 50,
          si_conversion_rate = 1, si_docstatus = 1\<rparr>],
      tabPurchase_Invoice =
        [\<lparr>pi_name = ''PINV-1'', pi_quickbooks_id = ''Bill - 45'', pi_company = ''NX'',
          pi_supplier = ''Vend'', pi_credit_to = ''Creditors - NX'', pi_outstanding_amount = 50,
          pi_conversion_rate = Some 1\<rparr>],
      tabError_Log = []\<rparr>"

definition demo_migrator :: migrator where
  "demo_migrator =
     \<lparr>company = ''NX'', company_currency = ''AED'', default_cost_center = Some ''Main - NX'',
      undeposited_funds_account = None,
      general_ledger =
        [(''Payment'', [(''7'', \<lparr>le_id = ''7'', le_date = ''2024-01-05'', le_lines = []\<rparr>)]),
         (''Bill Payment (Cheque)'',
            [(''8'', \<lparr>le_id = ''8'', le_date = ''2024-01-06'', le_lines = []\<rparr>)])]\<rparr>"

text \<open>
  A storage that names entries by their number, rounds amounts that already have two
  decimals to themselves, rejects an unbalanced Journal Entry on insert and accepts every
  submit.
\<close>

definition demo_frappe :: frappe where
  "demo_frappe =
     \<lparr>flt2 = (\<lambda>x. x), je_autoname = (\<lambda>n. ''JV-'' @ replicate n (CHR ''I'')),
      je_insert_ok = (\<lambda>je. balanced (je_accounts je)), je_submit_ok = (\<lambda>_. True)\<rparr>"

definition demo_je_line :: "string \<Rightarrow> string \<Rightarrow> rat \<Rightarrow> entity_ref option \<Rightarrow> journal_entry_line" where
  "demo_je_line ref posting amount entity =
     \<lparr>jl_detail_type = ''JournalEntryLineDetail'', jl_amount = amount, jl_description = None,
      jl_account_ref = ref, jl_posting_type = posting, jl_entity = entity\<rparr>"

definition good_journal_entry :: journal_entry where
  "good_journal_entry =
     \<lparr>qje_id = ''78'',
      qje_lines = [demo_je_line ''2'' ''Debit'' 100 None, demo_je_line ''1'' ''Credit'' 100 None],
      qje_currency = ''AED'', qje_exchange_rate = Some 1, qje_tax_lines = None,
      qje_txn_date = ''2024-01-02''\<rparr>"

text \<open>The same entry, but its first line refers to an account that was never migrated.\<close>

definition bad_journal_entry :: journal_entry where
  "bad_journal_entry =
     \<lparr>qje_id = ''77'',
      qje_lines = [demo_je_line ''99'' ''Debit'' 100 None, demo_je_line ''1'' ''Credit'' 100 None],
      qje_currency = ''AED'', qje_exchange_rate = Some 1, qje_tax_lines = None,
      qje_txn_date = ''2024-01-01''\<rparr>"

definition demo_payment :: payment where
  "demo_payment =
     \<lparr>pay_id = ''7'', pay_deposit_to_account_ref = Some ''2'',
      pay_lines = [\<lparr>pl_amount = 80, pl_linked_txn = [\<lparr>lt_txn_type = ''Invoice'', lt_txn_id = ''9001''\<rparr>]\<rparr>],
      pay_currency = ''AED'', pay_exchange_rate = Some 1, pay_total_amt = 50,
      pay_txn_date = ''2024-01-05''\<rparr>"

definition demo_bill_payment :: bill_payment where
  "demo_bill_payment =
     \<lparr>bp_id = ''8'',
      bp_lines = [\<lparr>pl_amount = 80, pl_linked_txn = [\<lparr>lt_txn_type = ''Bill'', lt_txn_id = ''45''\<rparr>]\<rparr>],
      bp_pay_type = ''Check'', bp_check_payment = Some (Some ''2''), bp_credit_card_payment = None,
      bp_currency = ''AED'', bp_exchange_rate = Some 1, bp_total_amt = 50,
      bp_txn_date = ''2024-01-06''\<rparr>"

definition demo_gl_line :: "string \<Rightarrow> rat \<Rightarrow> rat \<Rightarrow> gl_line" where
  "demo_gl_line name debit credit =
     \<lparr>gl_account = name, gl_credit = credit, gl_debit = debit, gl_customer = [], gl_vendor = [],
      gl_memo = [], gl_currency = ''AED'', gl_debt_home_amt = debit, gl_credit_home_amt = credit\<rparr>"

text \<open>Rows for the builder: a balanced pair, and a single debit.\<close>

definition demo_rows :: "account_line list" where
  "demo_rows =
     [new_line\<lparr>account := Some ''Bank - NX'', debit_in_account_currency := Some 100\<rparr>,
      new_line\<lparr>account := Some ''Debtors - NX'', credit_in_account_currency := Some 100\<rparr>]"

definition demo_rows_unbalanced :: "account_line list" where
  "demo_rows_unbalanced =
     [new_line\<lparr>account := Some ''Bank - NX'', debit_in_account_currency := Some 100\<rparr>]"

definition demo_frappe_si :: "unit frappe_si" where
  "demo_frappe_si =
     \<lparr>si_autoname = (\<lambda>n. ''SINV-'' @ replicate n (CHR ''I'')),
      si_insert_ok = (\<lambda>_. True), si_submit_ok = (\<lambda>_. True),
      si_set_debit_to = (\<lambda>_. ''Debtors - NX''), si_set_outstanding = (\<lambda>_. 35)\<rparr>"

definition demo_invoice :: sales_txn where
  "demo_invoice =
     \<lparr>st_currency = ''AED'', st_exchange_rate = None, st_txn_date = ''2024-01-03'',
      st_due_date = None, st_customer_ref = ''21''\<rparr>"

definition demo_ledger_entry :: "string \<Rightarrow> ledger_entry" where
  "demo_ledger_entry second =
     \<lparr>le_id = ''5'', le_date = ''2024-02-01'',
      le_lines = [demo_gl_line ''Sales - QB - NX'' 0 10, demo_gl_line second 10 0]\<rparr>"

text \<open>
  A storage that accepts every insert and every submit, and one that accepts every
  insert and rejects an unbalanced Journal Entry on submit.
\<close>

definition accept_all_frappe :: frappe where
  "accept_all_frappe = demo_frappe\<lparr>je_insert_ok := (\<lambda>_. True)\<rparr>"

definition submit_checking_frappe :: frappe where
  "submit_checking_frappe =
     demo_frappe\<lparr>je_insert_ok := (\<lambda>_. True), je_submit_ok := (\<lambda>je. balanced (je_accounts je))\<rparr>"

definition demo_purchase :: purchase where
  "demo_purchase =
     \<lparr>pur_id = ''31'', pur_account_ref = ''2'', pur_currency = ''AED'', pur_exchange_rate = Some 1,
      pur_total_amt = 100, pur_private_note = None,
      pur_lines = [\<lparr>pul_detail_type = ''AccountBasedExpenseLineDetail'', pul_amount = 100,
                    pul_description = None, pul_account_ref = ''6'', pul_item_ref = []\<rparr>],
      pur_tax_detail = None, pur_credit = False, pur_txn_date = ''2024-01-07''\<rparr>"

definition demo_deposit :: deposit where
  "demo_deposit =
     \<lparr>dep_id = ''41'', dep_deposit_to_account_ref = ''2'', dep_currency = ''AED'',
      dep_exchange_rate = Some 1, dep_total_amt = 100, dep_private_note = None,
      dep_lines = [\<lparr>dl_amount = 100, dl_linked_txn = False, dl_account_ref = ''6'',
                    dl_entity = None, dl_description = None\<rparr>],
      dep_cash_back = None, dep_txn_date = ''2024-01-08''\<rparr>"

text \<open>
  The payment 7 is stored, and the invoice it settles is no longer there; a second
  company that has an invoice and a bill under the keys of the first, returned first by
  \<open>frappe.get_all\<close>.
\<close>

definition payment_stored_db :: db where
  "payment_stored_db =
     (save_payment demo_frappe demo_migrator demo_payment demo_db)\<lparr>tabSales_Invoice := []\<rparr>"

definition two_company_db :: db where
  "two_company_db =
     demo_db\<lparr>tabSales_Invoice :=
               \<lparr>si_name = ''SINV-OTHER-1'', si_quickbooks_id = ''Invoice - 9001'',
                si_company = ''Other'', si_customer = ''Zed'', si_debit_to = ''Debtors - O'',
                si_outstanding_amount = 10, si_conversion_rate = 1, si_docstatus = 1\<rparr>
               # tabSales_Invoice demo_db,
             tabPurchase_Invoice :=
               \<lparr>pi_name = ''PINV-OTHER-1'', pi_quickbooks_id = ''Bill - 45'', pi_company = ''Other'',
                pi_supplier = ''Yon'', pi_credit_to = ''Creditors - O'', pi_outstanding_amount = 10,
                pi_conversion_rate = Some 1\<rparr>
               # tabPurchase_Invoice demo_db\<rparr>"

text \<open>
  The same company with accounts in USD, two tax accounts, an undeposited funds account
  and the exchange gain or loss account, and transactions in USD at the rate 3.67.
\<close>

definition fx_db :: db where
  "fx_db =
     demo_db\<lparr>tabAccount := demo_accounts @
       [\<lparr>acc_name = ''Bank USD - NX'', acc_quickbooks_id = Some ''10'', acc_company = ''NX'',
         acc_account_type = Some ''Bank'', acc_account_currency = ''USD'', acc_tax_rate = 0\<rparr>,
        \<lparr>acc_name = ''VAT 5 - NX'', acc_quickbooks_id = Some ''12'', acc_company = ''NX'',
         acc_account_type = Some ''Tax'', acc_account_currency = ''AED'', acc_tax_rate = 5\<rparr>,
        \<lparr>acc_name = ''VAT 10 USD - NX'', acc_quickbooks_id = Some ''13'', acc_company = ''NX'',
         acc_account_type = Some ''Tax'', acc_account_currency = ''USD'', acc_tax_rate = 10\<rparr>,
        \<lparr>acc_name = ''Undeposited Funds - NX'', acc_quickbooks_id = Some ''14'', acc_company = ''NX'',
         acc_account_type = None, acc_account_currency = ''AED'', acc_tax_rate = 0\<rparr>,
        \<lparr>acc_name = ''Exchange Gain or Loss - NX'', acc_quickbooks_id = Some ''95'',
         acc_company = ''NX'', acc_account_type = None, acc_account_currency = ''AED'',
         acc_tax_rate = 0\<rparr>],
       tabPurchase_Invoice :=
        [\<lparr>pi_name = ''PINV-2'', pi_quickbooks_id = ''Bill - 46'', pi_company = ''NX'',
          pi_supplier = ''Vend'', pi_credit_to = ''Creditors - NX'', pi_outstanding_amount = 100,
          pi_conversion_rate = Some (7 / 2)\<rparr>]\<rparr>"

definition fx_migrator :: migrator where
  "fx_migrator =
     demo_migrator\<lparr>undeposited_funds_account := Some ''Undeposited Funds - NX'',
       general_ledger :=
         [(''Bill Payment (Cheque)'',
            [(''9'', \<lparr>le_id = ''9'', le_date = ''2024-03-04'', le_lines = []\<rparr>)]),
          (''Payment'',
            [(''53'', \<lparr>le_id = ''53'', le_date = ''2024-03-05'',
                le_lines = [\<lparr>gl_account = ''Exchange Gain or Loss - QB - NX'', gl_credit = 0,
                             gl_debit = 0, gl_customer = [], gl_vendor = [], gl_memo = [],
                             gl_currency = ''AED'', gl_debt_home_amt = 0,
                             gl_credit_home_amt = 17\<rparr>]\<rparr>)])]\<rparr>"

definition fx_journal_entry :: journal_entry where
  "fx_journal_entry =
     \<lparr>qje_id = ''50'',
      qje_lines = [demo_je_line ''3'' ''Debit'' 100 None, demo_je_line ''10'' ''Credit'' 100 None],
      qje_currency = ''USD'', qje_exchange_rate = Some (367 / 100),
      qje_tax_lines = Some [\<lparr>tl_amount = 5, tl_tax_percent = 5\<rparr>],
      qje_txn_date = ''2024-03-01''\<rparr>"

definition fx_purchase :: purchase where
  "fx_purchase =
     \<lparr>pur_id = ''51'', pur_account_ref = ''10'', pur_currency = ''USD'',
      pur_exchange_rate = Some (367 / 100), pur_total_amt = 110, pur_private_note = None,
      pur_lines = [\<lparr>pul_detail_type = ''AccountBasedExpenseLineDetail'', pul_amount = 100,
                    pul_description = None, pul_account_ref = ''6'', pul_item_ref = []\<rparr>],
      pur_tax_detail = Some (Some [\<lparr>tl_amount = 10, tl_tax_percent = 10\<rparr>]),
      pur_credit = False, pur_txn_date = ''2024-03-02''\<rparr>"

definition fx_deposit :: deposit where
  "fx_deposit =
     \<lparr>dep_id = ''52'', dep_deposit_to_account_ref = ''10'', dep_currency = ''USD'',
      dep_exchange_rate = Some (367 / 100), dep_total_amt = 100, dep_private_note = None,
      dep_lines = [\<lparr>dl_amount = 100, dl_linked_txn = True, dl_account_ref = [],
                    dl_entity = None, dl_description = None\<rparr>],
      dep_cash_back = Some \<lparr>cb_account_ref = ''2'', cb_amount = 20\<rparr>,
      dep_txn_date = ''2024-03-03''\<rparr>"

definition fx_payment :: payment where
  "fx_payment =
     \<lparr>pay_id = ''53'', pay_deposit_to_account_ref = Some ''10'',
      pay_lines = [\<lparr>pl_amount = 50, pl_linked_txn = [\<lparr>lt_txn_type = ''Invoice'', lt_txn_id = ''9001''\<rparr>]\<rparr>],
      pay_currency = ''USD'', pay_exchange_rate = Some (367 / 100), pay_total_amt = 50,
      pay_txn_date = ''2024-03-05''\<rparr>"

definition fx_bill_payment :: bill_payment where
  "fx_bill_payment =
     \<lparr>bp_id = ''9'',
      bp_lines = [\<lparr>pl_amount = 100, pl_linked_txn = [\<lparr>lt_txn_type = ''Bill'', lt_txn_id = ''46''\<rparr>]\<rparr>],
      bp_pay_type = ''Check'', bp_check_payment = Some (Some ''10''), bp_credit_card_payment = None,
      bp_currency = ''USD'', bp_exchange_rate = Some (367 / 100), bp_total_amt = 100,
      bp_txn_date = ''2024-03-04''\<rparr>"

text \<open>What the properties below read off a row, and the rows of the entries in a database.\<close>

definition row_view :: "account_line \<Rightarrow> string option \<times> rat option \<times> rat option \<times> rat option" where
  "row_view row =
     (account row, exchange_rate row, debit_in_account_currency row, credit_in_account_currency row)"

definition stored_rows ::
  "db \<Rightarrow> (string \<times> nat \<times> (string option \<times> rat option \<times> rat option \<times> rat option) list) list" where
  "stored_rows d =
     map (\<lambda>j. (je_quickbooks_id j, je_docstatus j, map row_view (je_accounts j))) (tabJournal_Entry d)"

section \<open>The fetcher retries after every 401\<close>

lemma get_request_retries:
  "\<forall>i<k. respond srv (requests_sent s + i) = Status 401 \<Longrightarrow>
   \<forall>i<k. refresh_ok srv (refreshes s + i) \<Longrightarrow>
   respond srv (requests_sent s + k) = Status c \<Longrightarrow> c \<noteq> 401 \<Longrightarrow> k < depth \<Longrightarrow>
   get_request depth srv s =
     (Inr c, \<lparr>requests_sent = requests_sent s + k + 1, refreshes = refreshes s + k\<rparr>)"
proof (induction k arbitrary: depth s)
  case 0
  then obtain n where "depth = Suc n" by (cases depth) auto
  with 0 show ?case by simp
next
  case (Suc k)
  then obtain n where n: "depth = Suc n" "k < n" by (cases depth) auto
  let ?s = "s\<lparr>requests_sent := requests_sent s + 1, refreshes := refreshes s + 1\<rparr>"
  from Suc.prems(1) have r0: "respond srv (requests_sent s) = Status 401"
    by (metis add.right_neutral zero_less_Suc)
  from Suc.prems(2) have f0: "refresh_ok srv (refreshes s)"
    by (metis add.right_neutral zero_less_Suc)
  have a: "\<forall>i<k. respond srv (requests_sent ?s + i) = Status 401"
  proof (intro allI impI)
    fix i assume "i < k"
    then have "Suc i < Suc k" by simp
    with Suc.prems(1) have "respond srv (requests_sent s + Suc i) = Status 401" by blast
    then show "respond srv (requests_sent ?s + i) = Status 401" by simp
  qed
  have b: "\<forall>i<k. refresh_ok srv (refreshes ?s + i)"
  proof (intro allI impI)
    fix i assume "i < k"
    then have "Suc i < Suc k" by simp
    with Suc.prems(2) have "refresh_ok srv (refreshes s + Suc i)" by blast
    then show "refresh_ok srv (refreshes ?s + i)" by simp
  qed
  have c: "respond srv (requests_sent ?s + k) = Status c"
    using Suc.prems(3) by simp
  have "get_request n srv ?s =
     (Inr c, \<lparr>requests_sent = requests_sent ?s + k + 1, refreshes = refreshes ?s + k\<rparr>)"
    by (rule Suc.IH [OF a b c Suc.prems(4) n(2)])
  then show ?case using r0 f0 n by simp
qed

lemma get_request_never_401: "fst (get_request depth srv s) \<noteq> Inr 401"
  by (induction depth srv s rule: get_request.induct) (auto split: outcome.splits simp: Let_def)

text \<open>
  Claim C3, as the code has it. After a 401 the fetcher refreshes the tokens and sends
  the request again, and it does so after every further 401 as well: when the server
  answers 401 to \<open>k\<close> requests in a row and then with another status, \<open>_get\<close> has
  refreshed \<open>k\<close> times, has sent \<open>k + 1\<close> requests and returns that last response, as
  long as \<open>k\<close> nested calls fit on the stack. A single 401 is the case \<open>k = 1\<close>: one
  refresh, one retry. A 401 is never returned to the caller.
\<close>

theorem C3_get_retries_after_every_401:
  assumes "\<forall>i<k. respond srv (requests_sent s + i) = Status 401"
    and "\<forall>i<k. refresh_ok srv (refreshes s + i)"
    and "respond srv (requests_sent s + k) = Status c"
    and "c \<noteq> 401"
    and "k < depth"
  shows "get_request depth srv s =
           (Inr c, \<lparr>requests_sent = requests_sent s + k + 1, refreshes = refreshes s + k\<rparr>) \<and>
         fst (get_request depth srv s) \<noteq> Inr 401"
  using get_request_retries [OF assms] get_request_never_401 [of depth srv s] by simp

theorem C3_witness:
  "get_request 1000 (expired_then_ok 1) fresh_session =
     (Inr 200, \<lparr>requests_sent = 2, refreshes = 1\<rparr>)"
  using C3_get_retries_after_every_401 [of 1 "expired_then_ok 1" fresh_session 200 1000]
  by (simp add: expired_then_ok_def fresh_session_def)

text \<open>
  Two 401 responses in a row: the second one is retried too, after a second refresh, and
  the call returns the third response instead of an error.
\<close>

theorem C3_counterexample:
  "get_request 1000 (expired_then_ok 2) fresh_session =
     (Inr 200, \<lparr>requests_sent = 3, refreshes = 2\<rparr>)"
  by code_simp

section \<open>Party inference cuts at the last colon\<close>











section \<open>A payment without deposit account is skipped\<close>

text \<open>
  Claim C6. A payment record without \<open>DepositToAccountRef\<close> leaves the database as it
  is: no entry, no log record.
\<close>

theorem C6_payment_without_deposit_account:
  assumes "pay_deposit_to_account_ref payment = None"
  shows "save_payment F m payment d = d"
  using assms by (simp add: save_payment_def)

theorem C6_witness:
  "save_payment demo_frappe demo_migrator (demo_payment\<lparr>pay_deposit_to_account_ref := None\<rparr>) demo_db
     = demo_db \<and>
   je_exists (save_payment demo_frappe demo_migrator demo_payment demo_db) ''Payment - 7'' ''NX''"
proof -
  have h: "pay_deposit_to_account_ref (demo_payment\<lparr>pay_deposit_to_account_ref := None\<rparr>) = None"
    by simp
  have "je_exists (save_payment demo_frappe demo_migrator demo_payment demo_db) ''Payment - 7'' ''NX''"
    by code_simp
  with C6_payment_without_deposit_account [OF h] show ?thesis by simp
qed

section \<open>Failures that end before the builder\<close>

lemma bill_payment_accounts_other_pay_type:
  assumes "bp_pay_type bp \<noteq> ''Check''" and "bp_pay_type bp \<noteq> ''CreditCard''"
  shows "\<exists>e. bill_payment_accounts F m bp d = Inl e"
  using assms
  by (auto simp: bill_payment_accounts_def bill_payment_bank_account_id_def split: sum.splits)

lemma ledger_lines_unmapped:
  assumes "l \<in> set ls" and "\<not> zero_line l" and "map_of accounts_map (gl_account l) = None"
  shows "\<exists>e. ledger_lines d m loc ls = Inl e"
  using assms
proof (induction ls arbitrary: loc)
  case Nil
  then show ?case by simp
next
  case (Cons x xs)
  show ?case
  proof (cases "ledger_line_step d m loc x")
    case (Inl e)
    then show ?thesis by simp
  next
    case (Inr loc')
    with Cons.prems have "l \<noteq> x"
      by (auto simp: ledger_line_step_def)
    with Cons.prems have "l \<in> set xs" by simp
    from Cons.IH [OF this Cons.prems(2,3)] Inr show ?thesis by simp
  qed
qed

text \<open>
  Claim C10. A bill payment whose pay type is neither \<open>Check\<close> nor \<open>CreditCard\<close> never
  reaches the builder: an exception is logged (the read of the unassigned
  \<open>bank_account_id\<close>, unless a line failed before), and the Journal Entries are unchanged.
\<close>

theorem C10_other_pay_type_persists_nothing:
  assumes "bp_pay_type bp \<noteq> ''Check''" and "bp_pay_type bp \<noteq> ''CreditCard''"
  shows "(\<exists>e. save_bill_payment F m bp d = log_error e d) \<and>
         tabJournal_Entry (save_bill_payment F m bp d) = tabJournal_Entry d"
proof -
  from bill_payment_accounts_other_pay_type [OF assms]
  obtain e where "bill_payment_accounts F m bp d = Inl e" by blast
  then have "save_bill_payment F m bp d = log_error e d"
    by (simp add: save_bill_payment_def)
  then show ?thesis by (auto simp: log_error_def)
qed

theorem C10_witness:
  "save_bill_payment demo_frappe demo_migrator (demo_bill_payment\<lparr>bp_pay_type := ''Cash''\<rparr>) demo_db
     = log_error UnboundLocalError demo_db \<and>
   je_exists (save_bill_payment demo_frappe demo_migrator demo_bill_payment demo_db)
     ''BillPayment - 8'' ''NX''"
proof -
  let ?bp = "demo_bill_payment\<lparr>bp_pay_type := ''Cash''\<rparr>"
  have h1: "bp_pay_type ?bp \<noteq> ''Check''" and h2: "bp_pay_type ?bp \<noteq> ''CreditCard''"
    by simp_all
  have run: "save_bill_payment demo_frappe demo_migrator ?bp demo_db = log_error UnboundLocalError demo_db"
    by code_simp
  have ok: "je_exists (save_bill_payment demo_frappe demo_migrator demo_bill_payment demo_db)
     ''BillPayment - 8'' ''NX''"
    by code_simp
  from C10_other_pay_type_persists_nothing [OF h1 h2, of demo_frappe demo_migrator demo_db] run ok
  show ?thesis by simp
qed

text \<open>
  Claim C9. When a line of a General Ledger entry is not dropped as zero and its account
  is not a key of the rewrite table, the lookup raises before the builder is called: an
  exception is logged and no Journal Entry is stored, whatever the other lines are.
\<close>

theorem C9_unmapped_account_persists_nothing:
  assumes "l \<in> set (le_lines ledger_entry)" and "\<not> zero_line l"
    and "map_of accounts_map (gl_account l) = None"
  shows "(\<exists>e. priv_save_ledger_entry_as_je F m ledger_entry quickbooks_id d = log_error e d) \<and>
         tabJournal_Entry (priv_save_ledger_entry_as_je F m ledger_entry quickbooks_id d)
           = tabJournal_Entry d"
proof -
  from ledger_lines_unmapped [OF assms]
  obtain e where "ledger_lines d m \<lparr>ll_accounts = [], ll_total_debit = 0, ll_total_credit = 0\<rparr>
      (le_lines ledger_entry) = Inl e"
    by blast
  then have "ledger_accounts m ledger_entry d = Inl e"
    by (simp add: ledger_accounts_def)
  then have "priv_save_ledger_entry_as_je F m ledger_entry quickbooks_id d = log_error e d"
    by (simp add: priv_save_ledger_entry_as_je_def)
  then show ?thesis by (auto simp: log_error_def)
qed

theorem C9_witness:
  "priv_save_ledger_entry_as_je demo_frappe demo_migrator (demo_ledger_entry ''Petty - QB - NX'')
     ''Tax Payment - 5'' demo_db = log_error KeyError demo_db \<and>
   je_exists (priv_save_ledger_entry_as_je demo_frappe demo_migrator
     (demo_ledger_entry ''Cash on hand - QB - NX'') ''Tax Payment - 5'' demo_db)
     ''Tax Payment - 5'' ''NX''"
proof -
  let ?l = "demo_gl_line ''Petty - QB - NX'' 10 0"
  have h1: "?l \<in> set (le_lines (demo_ledger_entry ''Petty - QB - NX''))"
    by (simp add: demo_ledger_entry_def)
  have h2: "\<not> zero_line ?l"
    by (simp add: zero_line_def demo_gl_line_def)
  have h3: "map_of accounts_map (gl_account ?l) = None"
    by (simp add: demo_gl_line_def accounts_map_def)
  have run: "priv_save_ledger_entry_as_je demo_frappe demo_migrator (demo_ledger_entry ''Petty - QB - NX'')
     ''Tax Payment - 5'' demo_db = log_error KeyError demo_db"
    by code_simp
  have ok: "je_exists (priv_save_ledger_entry_as_je demo_frappe demo_migrator
     (demo_ledger_entry ''Cash on hand - QB - NX'') ''Tax Payment - 5'' demo_db)
     ''Tax Payment - 5'' ''NX''"
    by code_simp
  from C9_unmapped_account_persists_nothing [OF h1 h2 h3, of demo_frappe demo_migrator "''Tax Payment - 5''" demo_db]
    run ok
  show ?thesis by simp
qed

section \<open>A failure in \<open>_save_journal_entry\<close> ends the loop\<close>

text \<open>
  Claim C8, on the code. \<open>_save_journal_entry\<close> looks the accounts up outside any
  \<open>try\<close>. A JournalEntry record that names an account without local counterpart raises
  IndexError out of the transformer and out of the loop of \<open>_save_entries\<close>; the handler
  of \<open>_migrate_entries\<close> logs it, and the record that follows is never processed, although
  on its own it is stored.
\<close>

theorem C8_journal_entry_failure_aborts_loop:
  "migrate_entries demo_frappe demo_migrator
     [JournalEntry bad_journal_entry, JournalEntry good_journal_entry] demo_db
     = log_error IndexError demo_db \<and>
   je_exists (migrate_entries demo_frappe demo_migrator [JournalEntry good_journal_entry] demo_db)
     ''Journal Entry - 78'' ''NX'' \<and>
   save_journal_entry demo_frappe demo_migrator bad_journal_entry demo_db = Inl IndexError"
  by code_simp

section \<open>The outstanding amount that caps a settlement\<close>

text \<open>
  Claim C5, on the code. \<open>_save_payment\<close> finds the invoice of a line with the filters
  \<open>quickbooks_id\<close> and \<open>company\<close>, but reads the outstanding amount that caps the line from
  \<open>frappe.get_all("Sales Invoice", filters={"quickbooks_id": ...})[0]\<close>, without the
  company; \<open>_save_bill_payment\<close> does the same with Purchase Invoices. When another
  company has an invoice under the same key and \<open>get_all\<close> returns that one first, the cap
  is the outstanding amount of the other company's invoice. Here the invoice SINV-1 of
  the company has 50 outstanding, the other company's invoice has 10, and the line pays
  80: the row that settles SINV-1 posts 10, not 50. The same for the bill PINV-1.
\<close>

theorem C5_cap_read_from_another_company:
  "stored_rows (save_payment accept_all_frappe demo_migrator (demo_payment\<lparr>pay_total_amt := 80\<rparr>)
      two_company_db)
     = [(''Payment - 7'', 1,
         [(Some ''Debtors - NX'', Some 1, None, Some 10),
          (Some ''Bank - NX'', Some 1, Some 80, None)])] \<and>
   map (\<lambda>j. map reference_name (je_accounts j))
     (tabJournal_Entry (save_payment accept_all_frappe demo_migrator
        (demo_payment\<lparr>pay_total_amt := 80\<rparr>) two_company_db))
     = [[Some ''SINV-1'', None]] \<and>
   map (\<lambda>i. (si_name i, si_outstanding_amount i))
     (filter (\<lambda>i. si_quickbooks_id i = ''Invoice - 9001'' \<and> si_company i = ''NX'')
        (tabSales_Invoice two_company_db)) = [(''SINV-1'', 50)] \<and>
   min (80 :: rat) 50 = 50 \<and>
   stored_rows (save_bill_payment accept_all_frappe demo_migrator demo_bill_payment two_company_db)
     = [(''BillPayment - 8'', 1,
         [(Some ''Creditors - NX'', None, Some 10, None),
          (Some ''Bank - NX'', None, None, Some 50)])] \<and>
   map (\<lambda>j. map reference_name (je_accounts j))
     (tabJournal_Entry (save_bill_payment accept_all_frappe demo_migrator demo_bill_payment
        two_company_db))
     = [[Some ''PINV-1'', None]] \<and>
   map (\<lambda>i. (pi_name i, pi_outstanding_amount i))
     (filter (\<lambda>i. pi_quickbooks_id i = ''Bill - 45'' \<and> pi_company i = ''NX'')
        (tabPurchase_Invoice two_company_db)) = [(''PINV-1'', 50)]"
  by code_simp

section \<open>The exchange rate enters each row once\<close>

lemma je_account_line_converted:
  assumes "je_account_line d m tc r line = Inr row"
  shows "converted_once (\<lambda>x. x) d tc r (jl_amount line) row"
proof (cases "get_account_name_by_id d m (Some (jl_account_ref line))")
  case (Inl e)
  with assms show ?thesis by (simp add: je_account_line_def)
next
  case (Inr a)
  with assms show ?thesis
    by (auto simp: je_account_line_def je_line_rate_amount_def converted_once_def
        posted_amount_def new_line_def Let_def split: if_splits)
qed

lemma get_je_accounts_converted:
  assumes "get_je_accounts d m lines tc r = Inr rows"
  shows "list_all2 (\<lambda>line row. converted_once (\<lambda>x. x) d tc r (jl_amount line) row)
           (filter (\<lambda>l. jl_detail_type l = ''JournalEntryLineDetail'') lines) rows"
  using assms
proof (induction lines arbitrary: rows)
  case Nil
  then show ?case by simp
next
  case (Cons l ls)
  show ?case
  proof (cases "jl_detail_type l = ''JournalEntryLineDetail''")
    case False
    with Cons show ?thesis by simp
  next
    case True
    with Cons.prems obtain row rest where
      row: "je_account_line d m tc r l = Inr row"
      and rest: "get_je_accounts d m ls tc r = Inr rest"
      and rows: "rows = row # rest"
      by (auto split: sum.splits)
    from je_account_line_converted [OF row] Cons.IH [OF rest] True rows
    show ?thesis by simp
  qed
qed

lemma purchase_bank_row_converted:
  "converted_once (\<lambda>x. x) d (pur_currency p) r (pur_total_amt p)
     (purchase_bank_row m p r a (account_currency_of d (Some a)))"
  by (simp add: purchase_bank_row_def converted_once_def posted_amount_def new_line_def Let_def)

lemma purchase_line_row_converted:
  "converted_once (\<lambda>x. x) d (pur_currency p) r (pul_amount l)
     (purchase_line_row m p r l acct (account_currency_of d acct))"
  by (simp add: purchase_line_row_def converted_once_def posted_amount_def new_line_def Let_def)

lemma purchase_first_rows_converted:
  assumes "purchase_first_rows d m p = Inr fr"
  shows "pur_exchange_rate p = Some (fst fr) \<and>
         list_all2 (converted_once (\<lambda>x. x) d (pur_currency p) (fst fr)) [pur_total_amt p] (snd fr)"
  using assms
  by (auto simp: purchase_first_rows_def purchase_bank_row_converted
      split: sum.splits option.splits)

lemma purchase_lines_converted:
  assumes "purchase_lines d m p r prev ls = Inr rows"
  shows "list_all2 (converted_once (\<lambda>x. x) d (pur_currency p) r)
           (map pul_amount (filter (\<lambda>l. pul_amount l \<noteq> 0) ls)) rows"
  using assms
proof (induction ls arbitrary: prev rows)
  case Nil
  then show ?case by simp
next
  case (Cons l ls)
  from Cons.prems obtain acct rest where
    rest: "purchase_lines d m p r (Some acct) ls = Inr rest"
    and rows: "rows = (if pul_amount l \<noteq> 0
                       then [purchase_line_row m p r l acct (account_currency_of d acct)]
                       else []) @ rest"
    by (auto split: sum.splits)
  from Cons.IH [OF rest] rows show ?case
    by (simp add: purchase_line_row_converted)
qed

lemma flip_row_converted:
  assumes "flip_row row = Inr row'"
  shows "converted_once rnd d tc r raw row' = converted_once rnd d tc r raw row"
  using assms
  by (auto simp: flip_row_def converted_once_def posted_amount_def split: option.splits)

lemma flip_rows_converted:
  assumes "flip_rows rows = Inr rows'"
    and "list_all2 (converted_once rnd d tc r) raws (take n rows)"
  shows "list_all2 (converted_once rnd d tc r) raws (take n rows')"
  using assms
proof (induction rows arbitrary: rows' raws n)
  case Nil
  then show ?case by simp
next
  case (Cons x xs)
  from Cons.prems(1) obtain x' xs' where
    x: "flip_row x = Inr x'" and xs: "flip_rows xs = Inr xs'" and r: "rows' = x' # xs'"
    by (auto split: sum.splits)
  show ?case
  proof (cases n)
    case 0
    with Cons.prems show ?thesis by simp
  next
    case (Suc k)
    with Cons.prems(2) obtain raw rest where
      raws: "raws = raw # rest" and c: "converted_once rnd d tc r raw x"
      and t: "list_all2 (converted_once rnd d tc r) rest (take k xs)"
      by (auto simp: list_all2_Cons2)
    from Cons.IH [OF xs t] c flip_row_converted [OF x] raws r Suc
    show ?thesis by simp
  qed
qed

lemma purchase_accounts_converted:
  assumes fr: "purchase_first_rows d m p = Inr fr"
    and accs: "purchase_accounts m p (fst fr) (snd fr) d = Inr accs"
  shows "list_all2 (converted_once (\<lambda>x. x) d (pur_currency p) (fst fr))
           (pur_total_amt p # map pul_amount (filter (\<lambda>l. pul_amount l \<noteq> 0) (pur_lines p)))
           (take (Suc (length (filter (\<lambda>l. pul_amount l \<noteq> 0) (pur_lines p)))) accs)"
proof -
  let ?C = "converted_once (\<lambda>x. x) d (pur_currency p) (fst fr)"
  let ?n = "length (filter (\<lambda>l. pul_amount l \<noteq> 0) (pur_lines p))"
  let ?raws = "map pul_amount (filter (\<lambda>l. pul_amount l \<noteq> 0) (pur_lines p))"
  from purchase_first_rows_converted [OF fr] obtain b where
    b: "snd fr = [b]" and cb: "?C (pur_total_amt p) b"
    by (auto simp: list_all2_Cons1)
  from accs obtain rows taxes where
    rows: "purchase_lines d m p (fst fr) None (pur_lines p) = Inr rows"
    and fin: "(if pur_credit p then flip_rows (snd fr @ rows @ taxes)
               else Inr (snd fr @ rows @ taxes)) = Inr accs"
    by (auto simp: purchase_accounts_def Let_def split: sum.splits)
  from purchase_lines_converted [OF rows] have cr: "list_all2 ?C ?raws rows" .
  then have len: "length rows = ?n"
    by (auto dest: list_all2_lengthD)
  have pre: "list_all2 ?C (pur_total_amt p # ?raws) (take (Suc ?n) (snd fr @ rows @ taxes))"
    using cb cr len by (simp add: b)
  show ?thesis
  proof (cases "pur_credit p")
    case False
    with fin pre show ?thesis by simp
  next
    case True
    with fin have "flip_rows (snd fr @ rows @ taxes) = Inr accs" by simp
    from flip_rows_converted [OF this pre] show ?thesis .
  qed
qed

lemma payment_find_invoice_keeps:
  assumes "payment_find_invoice d m q loc = Inr loc2"
  shows "loc_accounts loc2 = loc_accounts loc \<and> loc_payment_currency loc2 = loc_payment_currency loc"
  using assms
  by (auto simp: payment_find_invoice_def split: if_splits sum.splits)

lemma payment_invoice_row_converted:
  "converted_once (flt2 F) d (pay_currency p) tr amt
     (payment_invoice_row F m p tr r (account_currency_of d (ref_account r)) amt)"
  by (simp add: payment_invoice_row_def converted_once_def posted_amount_def new_line_def Let_def)

lemma payment_deposit_row_converted:
  "converted_once (flt2 F) d (pay_currency p) tr (pay_total_amt p)
     (payment_deposit_row F m p tr a (account_currency_of d (Some a)) (pay_currency p))"
  by (simp add: payment_deposit_row_def converted_once_def posted_amount_def new_line_def Let_def)

lemma payment_line_step_row:
  assumes "payment_line_step F d m p loc line = Inr loc'"
    and rate: "pay_exchange_rate p = Some tr"
  shows "if invoice_line line
         then loc_payment_currency loc' = Some (pay_currency p) \<and>
              (\<exists>row a. loc_accounts loc' = loc_accounts loc @ [row] \<and>
                 applied_amount d line = Some a \<and>
                 converted_once (flt2 F) d (pay_currency p) tr a row)
         else loc' = loc"
proof (cases "pl_linked_txn line")
  case Nil
  with assms(1) show ?thesis by (simp add: payment_line_step_def)
next
  case (Cons lt rest)
  show ?thesis
  proof (cases "lt_txn_type lt = ''Invoice''")
    case False
    with assms(1) Cons show ?thesis
      by (simp add: payment_line_step_def invoice_line_def)
  next
    case True
    let ?q = "''Invoice - '' @ lt_txn_id lt"
    from assms(1) Cons True obtain loc2 where
      f: "payment_find_invoice d m ?q loc = Inr loc2"
      by (cases "payment_find_invoice d m ?q loc") (simp_all add: payment_line_step_def)
    from assms(1) Cons True f obtain found where
      fo: "first (filter (\<lambda>i. si_quickbooks_id i = ?q) (tabSales_Invoice d)) = Inr found"
      by (cases "first (filter (\<lambda>i. si_quickbooks_id i = ?q) (tabSales_Invoice d))")
         (simp_all add: payment_line_step_def)
    from assms(1) Cons True f fo obtain r where r: "loc_ref loc2 = Some r"
      by (cases "loc_ref loc2") (simp_all add: payment_line_step_def Let_def)
    from fo have ap: "applied_amount d line = Some (min (pl_amount line) (si_outstanding_amount found))"
      by (cases "filter (\<lambda>i. si_quickbooks_id i = ?q) (tabSales_Invoice d)")
         (simp_all add: applied_amount_def Cons)
    have cap: "cap_line_amount (pl_amount line) (si_outstanding_amount found)
                 = min (pl_amount line) (si_outstanding_amount found)"
      by (simp add: cap_line_amount_def min_def)
    from assms(1) Cons True f fo r have
      "loc' = loc2\<lparr>loc_payment_currency := Some (pay_currency p),
         loc_amt := loc_amt loc2 +
           flt2 F (min (pl_amount line) (si_outstanding_amount found) * si_conversion_rate found),
         loc_accounts := loc_accounts loc2 @
           [payment_invoice_row F m p tr r (account_currency_of d (ref_account r))
              (min (pl_amount line) (si_outstanding_amount found))]\<rparr>"
      by (simp add: payment_line_step_def Let_def cap rate)
    with payment_find_invoice_keeps [OF f] ap True Cons show ?thesis
      by (simp add: invoice_line_def payment_invoice_row_converted)
  qed
qed

lemma payment_lines_rows:
  assumes "payment_lines F d m p loc ls = Inr loc'"
    and rate: "pay_exchange_rate p = Some tr"
  shows "(\<exists>rows. loc_accounts loc' = loc_accounts loc @ rows \<and>
            list_all2 (\<lambda>line row. \<exists>a. applied_amount d line = Some a \<and>
                 converted_once (flt2 F) d (pay_currency p) tr a row)
              (filter invoice_line ls) rows) \<and>
         (loc_payment_currency loc' = loc_payment_currency loc \<or>
          loc_payment_currency loc' = Some (pay_currency p))"
  using assms(1)
proof (induction ls arbitrary: loc)
  case Nil
  then show ?case by simp
next
  case (Cons l ls)
  from Cons.prems obtain loc1 where
    s: "payment_line_step F d m p loc l = Inr loc1"
    and rest: "payment_lines F d m p loc1 ls = Inr loc'"
    by (auto split: sum.splits)
  from Cons.IH [OF rest] obtain rows where
    rows: "loc_accounts loc' = loc_accounts loc1 @ rows"
    and all: "list_all2 (\<lambda>line row. \<exists>a. applied_amount d line = Some a \<and>
                 converted_once (flt2 F) d (pay_currency p) tr a row)
              (filter invoice_line ls) rows"
    and cur: "loc_payment_currency loc' = loc_payment_currency loc1 \<or>
              loc_payment_currency loc' = Some (pay_currency p)"
    by blast
  show ?case
  proof (cases "invoice_line l")
    case False
    with payment_line_step_row [OF s rate] have "loc1 = loc" by simp
    with rows all cur False show ?thesis by simp
  next
    case True
    with payment_line_step_row [OF s rate] obtain row a where
      c: "loc_payment_currency loc1 = Some (pay_currency p)"
      and r: "loc_accounts loc1 = loc_accounts loc @ [row]"
      and a: "applied_amount d l = Some a"
      and co: "converted_once (flt2 F) d (pay_currency p) tr a row"
      by auto
    have "loc_accounts loc' = loc_accounts loc @ (row # rows)"
      by (simp add: rows r)
    moreover have "list_all2 (\<lambda>line row. \<exists>a. applied_amount d line = Some a \<and>
                 converted_once (flt2 F) d (pay_currency p) tr a row)
              (filter invoice_line (l # ls)) (row # rows)"
      using True a co all by simp
    moreover have "loc_payment_currency loc' = Some (pay_currency p)"
      using cur c by auto
    ultimately show ?thesis by blast
  qed
qed

lemma payment_accounts_converted:
  assumes "payment_accounts F m p dep d = Inr accs"
    and rate: "pay_exchange_rate p = Some tr"
  shows "list_all2 (\<lambda>line row. \<exists>a. applied_amount d line = Some a \<and>
            converted_once (flt2 F) d (pay_currency p) tr a row)
           (filter invoice_line (pay_lines p))
           (take (length (filter invoice_line (pay_lines p))) accs) \<and>
         converted_once (flt2 F) d (pay_currency p) tr (pay_total_amt p)
           (accs ! length (filter invoice_line (pay_lines p)))"
proof -
  from assms obtain loc a pc gains where
    loc: "payment_lines F d m p no_locals (pay_lines p) = Inr loc"
    and pc: "loc_payment_currency loc = Some pc"
    and accs: "accs = loc_accounts loc @
         [payment_deposit_row F m p tr a (account_currency_of d (Some a)) pc] @ gains"
    by (auto simp: payment_accounts_def split: sum.splits option.splits)
  from payment_lines_rows [OF loc rate] obtain rows where
    rows: "loc_accounts loc = rows"
    and all: "list_all2 (\<lambda>line row. \<exists>a. applied_amount d line = Some a \<and>
                 converted_once (flt2 F) d (pay_currency p) tr a row)
              (filter invoice_line (pay_lines p)) rows"
    and cur: "loc_payment_currency loc = None \<or> loc_payment_currency loc = Some (pay_currency p)"
    by (auto simp: no_locals_def)
  from cur pc have pc': "pc = pay_currency p" by simp
  from all have len: "length rows = length (filter invoice_line (pay_lines p))"
    by (auto dest: list_all2_lengthD)
  show ?thesis
    using all len
    by (simp add: accs rows pc' nth_append payment_deposit_row_converted)
qed

lemma deposit_bank_row_converted:
  "converted_once (\<lambda>x. x) d (dep_currency p) r (dep_total_amt p)
     (deposit_bank_row m p r a (account_currency_of d (Some a)))"
  by (simp add: deposit_bank_row_def converted_once_def posted_amount_def new_line_def Let_def)

lemma deposit_first_rows_converted:
  assumes "deposit_first_rows d m p = Inr fr"
  shows "dep_exchange_rate p = Some (fst fr) \<and>
         list_all2 (converted_once (\<lambda>x. x) d (dep_currency p) (fst fr)) [dep_total_amt p] (snd fr)"
  using assms
  by (auto simp: deposit_first_rows_def deposit_bank_row_converted
      split: sum.splits option.splits)

lemma deposit_line_row_converted:
  assumes "deposit_line_row d m p r line = Inr row"
  shows "dl_linked_txn line \<or> converted_once (\<lambda>x. x) d (dep_currency p) r (dl_amount line) row"
proof (cases "dl_linked_txn line")
  case True
  then show ?thesis by simp
next
  case False
  with assms obtain a pp where
    "row = new_line\<lparr>account := Some a,
       exchange_rate := Some (if account_currency_of d (Some a) = Some (dep_currency p) then r else 1),
       credit_in_account_currency :=
         Some (dl_amount line *
               (if account_currency_of d (Some a) \<noteq> Some (dep_currency p) then r else 1)),
       party_type := fst pp, party := snd pp,
       cost_center := default_cost_center m,
       user_remark := Some (case dl_description line of None \<Rightarrow> [] | Some t \<Rightarrow> t)\<rparr>"
    by (auto simp: deposit_line_row_def Let_def split: sum.splits)
  then show ?thesis
    by (simp add: converted_once_def posted_amount_def new_line_def)
qed

lemma deposit_lines_converted:
  assumes "deposit_lines d m p r ls = Inr rows"
  shows "list_all2 (\<lambda>line row. dl_linked_txn line \<or>
            converted_once (\<lambda>x. x) d (dep_currency p) r (dl_amount line) row) ls rows"
  using assms
proof (induction ls arbitrary: rows)
  case Nil
  then show ?case by simp
next
  case (Cons l ls)
  from Cons.prems obtain row rest where
    row: "deposit_line_row d m p r l = Inr row"
    and rest: "deposit_lines d m p r ls = Inr rest"
    and rows: "rows = row # rest"
    by (auto split: sum.splits)
  from deposit_line_row_converted [OF row] Cons.IH [OF rest] rows show ?case by simp
qed

lemma deposit_accounts_converted:
  assumes fr: "deposit_first_rows d m p = Inr fr"
    and accs: "deposit_accounts m p (fst fr) (snd fr) d = Inr accs"
  shows "converted_once (\<lambda>x. x) d (dep_currency p) (fst fr) (dep_total_amt p) (hd accs) \<and>
         list_all2 (\<lambda>line row. dl_linked_txn line \<or>
            converted_once (\<lambda>x. x) d (dep_currency p) (fst fr) (dl_amount line) row)
           (dep_lines p) (take (length (dep_lines p)) (tl accs))"
proof -
  from deposit_first_rows_converted [OF fr] obtain b where
    b: "snd fr = [b]"
    and cb: "converted_once (\<lambda>x. x) d (dep_currency p) (fst fr) (dep_total_amt p) b"
    by (auto simp: list_all2_Cons1)
  from accs obtain rows cash where
    rows: "deposit_lines d m p (fst fr) (dep_lines p) = Inr rows"
    and a: "accs = snd fr @ rows @ cash"
    by (auto simp: deposit_accounts_def split: sum.splits option.splits)
  from deposit_lines_converted [OF rows] have
    all: "list_all2 (\<lambda>line row. dl_linked_txn line \<or>
            converted_once (\<lambda>x. x) d (dep_currency p) (fst fr) (dl_amount line) row)
           (dep_lines p) rows" .
  then have len: "length rows = length (dep_lines p)"
    by (auto dest: list_all2_lengthD)
  show ?thesis
    using cb all len by (simp add: a b)
qed

text \<open>
  Claim C7, as the code has it. The rows that a transformer builds from the comparison
  of the currency of the row's account with the currency of the transaction are: the
  rows of the detail lines of a JournalEntry; the row of the paying account and the rows
  of the detail lines of a Purchase; the rows of the invoice lines and the deposit row of
  a Payment; the row of the account deposited to and the rows of the lines without linked
  transaction of a Deposit. In the list of rows that the transformer hands to the
  builder, each of them obeys \<open>converted_once\<close>: when the currencies differ, the row
  posts the raw amount times the exchange rate of the transaction and carries the rate 1;
  when they agree, the row posts the raw amount and carries the exchange rate of the
  transaction (not 1). The raw amount of a Payment row is the applied amount of the line,
  and Payment rows round with \<open>flt(x, 2)\<close>.
\<close>

theorem C7_rate_enters_once:
  "(get_je_accounts d m lines tc r = Inr rows \<longrightarrow>
      list_all2 (\<lambda>line row. converted_once (\<lambda>x. x) d tc r (jl_amount line) row)
        (filter (\<lambda>l. jl_detail_type l = ''JournalEntryLineDetail'') lines) rows) \<and>
   (purchase_first_rows d m pu = Inr fr \<longrightarrow>
      purchase_accounts m pu (fst fr) (snd fr) d = Inr paccs \<longrightarrow>
      pur_exchange_rate pu = Some (fst fr) \<and>
      list_all2 (converted_once (\<lambda>x. x) d (pur_currency pu) (fst fr))
        (pur_total_amt pu # map pul_amount (filter (\<lambda>l. pul_amount l \<noteq> 0) (pur_lines pu)))
        (take (Suc (length (filter (\<lambda>l. pul_amount l \<noteq> 0) (pur_lines pu)))) paccs)) \<and>
   (payment_accounts F m pay dep d = Inr accs \<longrightarrow> pay_exchange_rate pay = Some pr \<longrightarrow>
      list_all2 (\<lambda>line row. \<exists>a. applied_amount d line = Some a \<and>
           converted_once (flt2 F) d (pay_currency pay) pr a row)
        (filter invoice_line (pay_lines pay))
        (take (length (filter invoice_line (pay_lines pay))) accs) \<and>
      converted_once (flt2 F) d (pay_currency pay) pr (pay_total_amt pay)
        (accs ! length (filter invoice_line (pay_lines pay)))) \<and>
   (deposit_first_rows d m de = Inr dfr \<longrightarrow>
      deposit_accounts m de (fst dfr) (snd dfr) d = Inr daccs \<longrightarrow>
      dep_exchange_rate de = Some (fst dfr) \<and>
      converted_once (\<lambda>x. x) d (dep_currency de) (fst dfr) (dep_total_amt de) (hd daccs) \<and>
      list_all2 (\<lambda>line row. dl_linked_txn line \<or>
           converted_once (\<lambda>x. x) d (dep_currency de) (fst dfr) (dl_amount line) row)
        (dep_lines de) (take (length (dep_lines de)) (tl daccs)))"
  using get_je_accounts_converted [of d m lines tc r rows]
    purchase_first_rows_converted [of d m pu fr]
    purchase_accounts_converted [of d m pu fr paccs]
    payment_accounts_converted [of F m pay dep d accs pr]
    deposit_first_rows_converted [of d m de dfr]
    deposit_accounts_converted [of d m de dfr daccs]
  by blast

text \<open>
  Five transactions in USD at the rate 3.67, stored by a storage that accepts everything.
  The rows of the JournalEntry on the two USD accounts carry the rate 3.67, not 1; its
  tax row, on an account in AED, posts the tax amount 5 as it is and carries no rate. The
  tax row of the Purchase, on an account in USD, posts 10 times 3.67 and carries no rate.
  The row of the BillPayment on the payable account in AED posts 100 times 3.5, the
  conversion rate of the invoice, and neither of its rows carries a rate. The rows of the
  Deposit for the linked line, on the undeposited funds account in AED, and for the cash
  back post 100 and 20 as they are. The exchange gain or loss row of the Payment posts
  the home amounts of the General Ledger line on both sides and carries no rate.
\<close>

theorem C7_counterexample:
  "map_sum id stored_rows
     (entity_method accept_all_frappe fx_migrator (JournalEntry fx_journal_entry) fx_db)
     = Inr [(''Journal Entry - 50'', 1,
             [(Some ''Debtors USD - NX'', Some (367 / 100), Some 100, None),
              (Some ''Bank USD - NX'', Some (367 / 100), None, Some 100),
              (Some ''VAT 5 - NX'', None, Some 5, None)])] \<and>
   map_sum id stored_rows
     (entity_method accept_all_frappe fx_migrator (Purchase fx_purchase) fx_db)
     = Inr [(''Purchase - 51'', 1,
             [(Some ''Bank USD - NX'', Some (367 / 100), None, Some 110),
              (Some ''Sales - QB - NX'', Some 1, Some 367, None),
              (Some ''VAT 10 USD - NX'', None, Some (367 / 10), None)])] \<and>
   map_sum id stored_rows
     (entity_method accept_all_frappe fx_migrator (BillPayment fx_bill_payment) fx_db)
     = Inr [(''BillPayment - 9'', 1,
             [(Some ''Creditors - NX'', None, Some 350, None),
              (Some ''Bank USD - NX'', None, None, Some 100)])] \<and>
   map_sum id stored_rows
     (entity_method accept_all_frappe fx_migrator (Deposit fx_deposit) fx_db)
     = Inr [(''Deposit - 52'', 1,
             [(Some ''Bank USD - NX'', Some (367 / 100), Some 100, None),
              (Some ''Undeposited Funds - NX'', None, None, Some 100),
              (Some ''Bank - NX'', None, Some 20, None)])] \<and>
   map_sum id stored_rows
     (entity_method accept_all_frappe fx_migrator (Payment fx_payment) fx_db)
     = Inr [(''Payment - 53'', 1,
             [(Some ''Debtors - NX'', Some 1, None, Some (367 / 2)),
              (Some ''Bank USD - NX'', Some (367 / 100), Some 50, None),
              (Some ''Exchange Gain or Loss - NX'', None, Some 0, Some 17)])] \<and>
   map (\<lambda>n. account_currency_of fx_db (Some n))
     [''Debtors USD - NX'', ''Bank USD - NX'', ''VAT 5 - NX'', ''VAT 10 USD - NX'',
      ''Creditors - NX'', ''Undeposited Funds - NX'', ''Bank - NX'', ''Exchange Gain or Loss - NX'']
     = [Some ''USD'', Some ''USD'', Some ''AED'', Some ''USD'', Some ''AED'', Some ''AED'',
        Some ''AED'', Some ''AED'']"
  by code_simp

lemma demo_currencies:
  "account_currency_of demo_db (Some ''Debtors USD - NX'') = Some ''USD''"
  "account_currency_of demo_db (Some ''Debtors - NX'') = Some ''AED''"
  "account_currency_of demo_db (Some ''Bank - NX'') = Some ''AED''"
  "account_currency_of demo_db (Some ''Sales - QB - NX'') = Some ''AED''"
  by (simp_all add: account_currency_of_def demo_db_def demo_accounts_def)

lemma map_eq_two:
  assumes "map f xs = [a, b]"
  obtains x y where "xs = [x, y]" and "f x = a" and "f y = b"
  using assms by (auto simp: map_eq_Cons_conv)

theorem C7_witness:
  "map_sum id (map (\<lambda>row. (account row, exchange_rate row, posted_amount row)))
     (get_je_accounts demo_db demo_migrator
        [demo_je_line ''3'' ''Debit'' 100 None, demo_je_line ''1'' ''Credit'' 100 None]
        ''USD'' (367 / 100))
     = Inr [(Some ''Debtors USD - NX'', Some (367 / 100), 100),
            (Some ''Debtors - NX'', Some 1, 367)] \<and>
   map_sum id (map (\<lambda>row. (account row, exchange_rate row, posted_amount row)))
     (payment_accounts demo_frappe demo_migrator
        (demo_payment\<lparr>pay_currency := ''USD'', pay_exchange_rate := Some (367 / 100)\<rparr>) ''2'' demo_db)
     = Inr [(Some ''Debtors - NX'', Some 1, 367 / 2), (Some ''Bank - NX'', Some 1, 367 / 2)] \<and>
   map_sum id (\<lambda>fr. map_sum id (map (\<lambda>row. (account row, exchange_rate row, posted_amount row)))
        (purchase_accounts demo_migrator (demo_purchase\<lparr>pur_currency := ''USD'',
           pur_exchange_rate := Some (367 / 100)\<rparr>) (fst fr) (snd fr) demo_db))
     (purchase_first_rows demo_db demo_migrator
        (demo_purchase\<lparr>pur_currency := ''USD'', pur_exchange_rate := Some (367 / 100)\<rparr>))
     = Inr (Inr [(Some ''Bank - NX'', Some 1, 367), (Some ''Sales - QB - NX'', Some 1, 367)]) \<and>
   map_sum id (\<lambda>fr. map_sum id (map (\<lambda>row. (account row, exchange_rate row, posted_amount row)))
        (deposit_accounts demo_migrator (demo_deposit\<lparr>dep_currency := ''USD'',
           dep_exchange_rate := Some (367 / 100)\<rparr>) (fst fr) (snd fr) demo_db))
     (deposit_first_rows demo_db demo_migrator
        (demo_deposit\<lparr>dep_currency := ''USD'', dep_exchange_rate := Some (367 / 100)\<rparr>))
     = Inr (Inr [(Some ''Bank - NX'', Some 1, 367), (Some ''Sales - QB - NX'', Some 1, 367)])"
proof -
  let ?L = "[demo_je_line ''3'' ''Debit'' 100 None, demo_je_line ''1'' ''Credit'' 100 None]"
  let ?pay = "demo_payment\<lparr>pay_currency := ''USD'', pay_exchange_rate := Some (367 / 100)\<rparr>"
  let ?pu = "demo_purchase\<lparr>pur_currency := ''USD'', pur_exchange_rate := Some (367 / 100)\<rparr>"
  let ?de = "demo_deposit\<lparr>dep_currency := ''USD'', dep_exchange_rate := Some (367 / 100)\<rparr>"
  note T = C7_rate_enters_once [where d = demo_db and m = demo_migrator and F = demo_frappe]
  have 1: "map_sum id (map (\<lambda>row. (account row, exchange_rate row, posted_amount row)))
     (get_je_accounts demo_db demo_migrator ?L ''USD'' (367 / 100))
     = Inr [(Some ''Debtors USD - NX'', Some (367 / 100), 100),
            (Some ''Debtors - NX'', Some 1, 367)]"
  proof -
    have "map_sum id (map account) (get_je_accounts demo_db demo_migrator ?L ''USD'' (367 / 100))
        = Inr [Some ''Debtors USD - NX'', Some ''Debtors - NX'']"
      by code_simp
    then obtain rows where x: "get_je_accounts demo_db demo_migrator ?L ''USD'' (367 / 100) = Inr rows"
      and ac: "map account rows = [Some ''Debtors USD - NX'', Some ''Debtors - NX'']"
      by (cases "get_je_accounts demo_db demo_migrator ?L ''USD'' (367 / 100)") auto
    from ac obtain r1 r2 where rows: "rows = [r1, r2]"
      and a1: "account r1 = Some ''Debtors USD - NX''" and a2: "account r2 = Some ''Debtors - NX''"
      by (rule map_eq_two)
    from T [THEN conjunct1, rule_format, OF x]
    have "converted_once (\<lambda>x. x) demo_db ''USD'' (367 / 100) 100 r1 \<and>
          converted_once (\<lambda>x. x) demo_db ''USD'' (367 / 100) 100 r2"
      by (simp add: rows demo_je_line_def)
    then have "exchange_rate r1 = Some (367 / 100) \<and> posted_amount r1 = 100 \<and>
               exchange_rate r2 = Some 1 \<and> posted_amount r2 = 367"
      by (simp add: converted_once_def a1 a2 demo_currencies)
    with x rows a1 a2 show ?thesis by simp
  qed
  have 2: "map_sum id (map (\<lambda>row. (account row, exchange_rate row, posted_amount row)))
     (payment_accounts demo_frappe demo_migrator ?pay ''2'' demo_db)
     = Inr [(Some ''Debtors - NX'', Some 1, 367 / 2), (Some ''Bank - NX'', Some 1, 367 / 2)]"
  proof -
    have "map_sum id (map account) (payment_accounts demo_frappe demo_migrator ?pay ''2'' demo_db)
        = Inr [Some ''Debtors - NX'', Some ''Bank - NX'']"
      by code_simp
    then obtain accs where x: "payment_accounts demo_frappe demo_migrator ?pay ''2'' demo_db = Inr accs"
      and ac: "map account accs = [Some ''Debtors - NX'', Some ''Bank - NX'']"
      by (cases "payment_accounts demo_frappe demo_migrator ?pay ''2'' demo_db") auto
    from ac obtain r1 r2 where rows: "accs = [r1, r2]"
      and a1: "account r1 = Some ''Debtors - NX''" and a2: "account r2 = Some ''Bank - NX''"
      by (rule map_eq_two)
    have ap: "applied_amount demo_db
        \<lparr>pl_amount = 80, pl_linked_txn = [\<lparr>lt_txn_type = ''Invoice'', lt_txn_id = ''9001''\<rparr>]\<rparr>
        = Some 50"
      by (simp add: applied_amount_def demo_db_def)
    have rate: "pay_exchange_rate ?pay = Some (367 / 100)"
      by simp
    from T [THEN conjunct2, THEN conjunct2, THEN conjunct1, rule_format, OF x rate]
    have "converted_once (flt2 demo_frappe) demo_db ''USD'' (367 / 100) 50 r1 \<and>
          converted_once (flt2 demo_frappe) demo_db ''USD'' (367 / 100) 50 r2"
      using ap by (simp add: rows demo_payment_def invoice_line_def)
    then have "exchange_rate r1 = Some 1 \<and> posted_amount r1 = 367 / 2 \<and>
               exchange_rate r2 = Some 1 \<and> posted_amount r2 = 367 / 2"
      by (simp add: converted_once_def a1 a2 demo_currencies demo_frappe_def)
    with x rows a1 a2 show ?thesis by simp
  qed
  have 3: "map_sum id (\<lambda>fr. map_sum id (map (\<lambda>row. (account row, exchange_rate row, posted_amount row)))
        (purchase_accounts demo_migrator ?pu (fst fr) (snd fr) demo_db))
     (purchase_first_rows demo_db demo_migrator ?pu)
     = Inr (Inr [(Some ''Bank - NX'', Some 1, 367), (Some ''Sales - QB - NX'', Some 1, 367)])"
  proof -
    have "map_sum id (\<lambda>fr. map_sum id (map account)
        (purchase_accounts demo_migrator ?pu (fst fr) (snd fr) demo_db))
        (purchase_first_rows demo_db demo_migrator ?pu)
        = Inr (Inr [Some ''Bank - NX'', Some ''Sales - QB - NX''])"
      by code_simp
    then obtain fr accs where f: "purchase_first_rows demo_db demo_migrator ?pu = Inr fr"
      and x: "purchase_accounts demo_migrator ?pu (fst fr) (snd fr) demo_db = Inr accs"
      and ac: "map account accs = [Some ''Bank - NX'', Some ''Sales - QB - NX'']"
      by (cases "purchase_first_rows demo_db demo_migrator ?pu";
          cases "purchase_accounts demo_migrator ?pu
                   (fst (projr (purchase_first_rows demo_db demo_migrator ?pu)))
                   (snd (projr (purchase_first_rows demo_db demo_migrator ?pu))) demo_db")
         auto
    from ac obtain r1 r2 where rows: "accs = [r1, r2]"
      and a1: "account r1 = Some ''Bank - NX''" and a2: "account r2 = Some ''Sales - QB - NX''"
      by (rule map_eq_two)
    from T [THEN conjunct2, THEN conjunct1, rule_format, OF f x]
    have "fst fr = 367 / 100 \<and>
          converted_once (\<lambda>x. x) demo_db ''USD'' (fst fr) 100 r1 \<and>
          converted_once (\<lambda>x. x) demo_db ''USD'' (fst fr) 100 r2"
      by (simp add: rows demo_purchase_def)
    then have "exchange_rate r1 = Some 1 \<and> posted_amount r1 = 367 \<and>
               exchange_rate r2 = Some 1 \<and> posted_amount r2 = 367"
      by (simp add: converted_once_def a1 a2 demo_currencies)
    with f x rows a1 a2 show ?thesis by simp
  qed
  have 4: "map_sum id (\<lambda>fr. map_sum id (map (\<lambda>row. (account row, exchange_rate row, posted_amount row)))
        (deposit_accounts demo_migrator ?de (fst fr) (snd fr) demo_db))
     (deposit_first_rows demo_db demo_migrator ?de)
     = Inr (Inr [(Some ''Bank - NX'', Some 1, 367), (Some ''Sales - QB - NX'', Some 1, 367)])"
  proof -
    have "map_sum id (\<lambda>fr. map_sum id (map account)
        (deposit_accounts demo_migrator ?de (fst fr) (snd fr) demo_db))
        (deposit_first_rows demo_db demo_migrator ?de)
        = Inr (Inr [Some ''Bank - NX'', Some ''Sales - QB - NX''])"
      by code_simp
    then obtain fr accs where f: "deposit_first_rows demo_db demo_migrator ?de = Inr fr"
      and x: "deposit_accounts demo_migrator ?de (fst fr) (snd fr) demo_db = Inr accs"
      and ac: "map account accs = [Some ''Bank - NX'', Some ''Sales - QB - NX'']"
      by (cases "deposit_first_rows demo_db demo_migrator ?de";
          cases "deposit_accounts demo_migrator ?de
                   (fst (projr (deposit_first_rows demo_db demo_migrator ?de)))
                   (snd (projr (deposit_first_rows demo_db demo_migrator ?de))) demo_db")
         auto
    from ac obtain r1 r2 where rows: "accs = [r1, r2]"
      and a1: "account r1 = Some ''Bank - NX''" and a2: "account r2 = Some ''Sales - QB - NX''"
      by (rule map_eq_two)
    from T [THEN conjunct2, THEN conjunct2, THEN conjunct2, rule_format, OF f x]
    have "fst fr = 367 / 100 \<and>
          converted_once (\<lambda>x. x) demo_db ''USD'' (fst fr) 100 r1 \<and>
          converted_once (\<lambda>x. x) demo_db ''USD'' (fst fr) 100 r2"
      by (simp add: rows demo_deposit_def)
    then have "exchange_rate r1 = Some 1 \<and> posted_amount r1 = 367 \<and>
               exchange_rate r2 = Some 1 \<and> posted_amount r2 = 367"
      by (simp add: converted_once_def a1 a2 demo_currencies)
    with f x rows a1 a2 show ?thesis by simp
  qed
  from 1 2 3 4 show ?thesis by simp
qed

section \<open>Re-runs: what an existing key prevents\<close>

lemma je_exists_count: "je_exists d q c \<longleftrightarrow> 0 < je_count d q c"
  by (auto simp: je_exists_def je_count_def list_ex_iff filter_empty_conv)

lemma si_exists_count: "si_exists d q c \<longleftrightarrow> 0 < si_count d q c"
  by (auto simp: si_exists_def si_count_def list_ex_iff filter_empty_conv)

lemma je_exists_filter:
  "je_exists d q c \<longleftrightarrow>
   filter (\<lambda>j. je_quickbooks_id j = q \<and> je_company j = c) (tabJournal_Entry d) \<noteq> []"
  by (auto simp: je_exists_def list_ex_iff filter_empty_conv)

lemma priv_save_journal_entry_exists:
  "je_exists d qid (company m) \<Longrightarrow> priv_save_journal_entry F m qid accs date d = d"
  by (simp add: priv_save_journal_entry_def)

lemma priv_save_journal_entry_created:
  assumes "\<not> je_exists d qid (company m)"
    and "je_insert_ok F (je_doc_of F m d qid accs date)"
  shows "je_count (priv_save_journal_entry F m qid accs date d) qid (company m) = 1"
  using assms
  by (auto simp: priv_save_journal_entry_def Let_def je_exists_count je_count_def je_doc_of_def
      log_error_def)

lemma priv_save_journal_entry_rejected:
  assumes "\<not> je_exists d qid (company m)"
    and "\<not> je_insert_ok F (je_doc_of F m d qid accs date)"
  shows "priv_save_journal_entry F m qid accs date d = log_error ValidationError d"
  using assms by (simp add: priv_save_journal_entry_def Let_def)

lemma priv_save_journal_entry_rejected_twice:
  assumes "\<not> je_exists d qid (company m)"
    and "\<not> je_insert_ok F (je_doc_of F m d qid accs date)"
  shows "tabJournal_Entry (priv_save_journal_entry F m qid accs date
           (priv_save_journal_entry F m qid accs date d)) = tabJournal_Entry d"
proof -
  let ?d1 = "log_error ValidationError d"
  have 1: "\<not> je_exists ?d1 qid (company m)"
    using assms(1) by (simp add: je_exists_def log_error_def)
  have 2: "je_doc_of F m ?d1 qid accs date = je_doc_of F m d qid accs date"
    by (simp add: je_doc_of_def log_error_def)
  show ?thesis
    using assms 1 2
    by (simp add: priv_save_journal_entry_rejected log_error_def)
qed

lemma save_sales_invoice_exists:
  "si_exists d qid (company m) \<Longrightarrow> save_sales_invoice G m ch txn qid ret pos d = Inr d"
  by (simp add: save_sales_invoice_def)

lemma save_sales_invoice_created:
  assumes "save_sales_invoice G m ch txn qid ret pos d = Inr d1"
    and "\<not> si_exists d qid (company m)"
    and "si_exists d1 qid (company m)"
  shows "si_count d1 qid (company m) = 1"
  using assms
  by (auto simp: save_sales_invoice_def Let_def si_exists_count si_count_def si_doc_of_def
      log_error_def split: sum.splits if_splits)

lemma je_exists_log: "je_exists (log_error e d) q c = je_exists d q c"
  by (simp add: je_exists_def log_error_def)

lemma builder_created:
  assumes "\<not> je_exists d qid (company m)"
    and "je_exists (priv_save_journal_entry F m qid accs date d) qid (company m)"
  shows "entry_added qid (company m) accs d (priv_save_journal_entry F m qid accs date d)"
proof (cases "je_insert_ok F (je_doc_of F m d qid accs date)")
  case False
  with assms(1) have "priv_save_journal_entry F m qid accs date d = log_error ValidationError d"
    by (simp add: priv_save_journal_entry_def Let_def)
  with assms show ?thesis by (simp add: je_exists_log)
next
  case True
  with assms(1) show ?thesis
    by (simp add: priv_save_journal_entry_def Let_def entry_added_def log_error_def
        je_doc_of_def)
qed

lemma entry_added_count:
  assumes "\<not> je_exists d qid co" and "entry_added qid co accs d d'"
  shows "je_count d' qid co = 1"
proof -
  from assms(1) have "filter (\<lambda>j. je_quickbooks_id j = qid \<and> je_company j = co)
      (tabJournal_Entry d) = []"
    by (simp add: je_exists_filter)
  with assms(2) show ?thesis
    by (auto simp: entry_added_def je_count_def)
qed

text \<open>The lookups of the transformers read the accounts and the items only.\<close>

lemma get_account_name_by_id_cong:
  "tabAccount d' = tabAccount d \<Longrightarrow> get_account_name_by_id d' m q = get_account_name_by_id d m q"
  by (simp add: get_account_name_by_id_def)

lemma account_currency_of_cong:
  "tabAccount d' = tabAccount d \<Longrightarrow> account_currency_of d' n = account_currency_of d n"
  by (simp add: account_currency_of_def)

lemma account_of_type_cong:
  "tabAccount d' = tabAccount d \<Longrightarrow> account_of_type d' ts n = account_of_type d ts n"
  by (simp add: account_of_type_def)

lemma tax_account_cong:
  "tabAccount d' = tabAccount d \<Longrightarrow> tax_account d' m r = tax_account d m r"
  by (simp add: tax_account_def)

lemma je_account_line_cong:
  assumes t: "tabAccount d' = tabAccount d"
  shows "je_account_line d' m tc r l = je_account_line d m tc r l"
  unfolding je_account_line_def je_line_party_def
  by (simp only: get_account_name_by_id_cong [OF t] account_currency_of_cong [OF t]
      account_of_type_cong [OF t])

lemma get_je_accounts_cong:
  assumes t: "tabAccount d' = tabAccount d"
  shows "get_je_accounts d' m ls tc r = get_je_accounts d m ls tc r"
proof (induction ls)
  case Nil
  show ?case by simp
next
  case (Cons l ls)
  show ?case
    by (simp only: get_je_accounts.simps je_account_line_cong [OF t] Cons.IH)
qed

lemma je_tax_accounts_cong:
  assumes t: "tabAccount d' = tabAccount d"
  shows "je_tax_accounts d' m ls = je_tax_accounts d m ls"
proof (induction ls)
  case Nil
  show ?case by simp
next
  case (Cons l ls)
  show ?case
    by (simp only: je_tax_accounts.simps tax_account_cong [OF t] Cons.IH)
qed

lemma purchase_first_rows_cong:
  assumes t: "tabAccount d' = tabAccount d"
  shows "purchase_first_rows d' m p = purchase_first_rows d m p"
  unfolding purchase_first_rows_def
  by (simp only: get_account_name_by_id_cong [OF t] account_currency_of_cong [OF t])

lemma purchase_line_account_cong:
  assumes t: "tabAccount d' = tabAccount d" and i: "tabItem d' = tabItem d"
  shows "purchase_line_account d' m prev l = purchase_line_account d m prev l"
  unfolding purchase_line_account_def
  by (simp only: get_account_name_by_id_cong [OF t] i)

lemma purchase_lines_cong:
  assumes t: "tabAccount d' = tabAccount d" and i: "tabItem d' = tabItem d"
  shows "purchase_lines d' m p r prev ls = purchase_lines d m p r prev ls"
proof (induction ls arbitrary: prev)
  case Nil
  show ?case by simp
next
  case (Cons l ls)
  show ?case
    by (simp only: purchase_lines.simps purchase_line_account_cong [OF t i]
        account_currency_of_cong [OF t] Cons.IH)
qed

lemma purchase_tax_rows_cong:
  assumes t: "tabAccount d' = tabAccount d"
  shows "purchase_tax_rows d' m r ls = purchase_tax_rows d m r ls"
proof (induction ls)
  case Nil
  show ?case by simp
next
  case (Cons l ls)
  show ?case
    by (simp only: purchase_tax_rows.simps tax_account_cong [OF t] Cons.IH)
qed

lemma purchase_accounts_cong:
  assumes t: "tabAccount d' = tabAccount d" and i: "tabItem d' = tabItem d"
  shows "purchase_accounts m p r a0 d' = purchase_accounts m p r a0 d"
proof -
  have x: "purchase_tax_rows d' m r = purchase_tax_rows d m r"
    by (rule ext) (rule purchase_tax_rows_cong [OF t])
  show ?thesis
    unfolding purchase_accounts_def
    by (simp only: purchase_lines_cong [OF t i] x)
qed

lemma deposit_first_rows_cong:
  assumes t: "tabAccount d' = tabAccount d"
  shows "deposit_first_rows d' m p = deposit_first_rows d m p"
  unfolding deposit_first_rows_def
  by (simp only: get_account_name_by_id_cong [OF t] account_currency_of_cong [OF t])

lemma deposit_line_party_cong:
  assumes t: "tabAccount d' = tabAccount d"
  shows "deposit_line_party d' a e = deposit_line_party d a e"
  unfolding deposit_line_party_def
  by (simp only: account_of_type_cong [OF t])

lemma deposit_line_row_cong:
  assumes t: "tabAccount d' = tabAccount d"
  shows "deposit_line_row d' m p r l = deposit_line_row d m p r l"
  unfolding deposit_line_row_def
  by (simp only: get_account_name_by_id_cong [OF t] account_currency_of_cong [OF t]
      deposit_line_party_cong [OF t])

lemma deposit_lines_cong:
  assumes t: "tabAccount d' = tabAccount d"
  shows "deposit_lines d' m p r ls = deposit_lines d m p r ls"
proof (induction ls)
  case Nil
  show ?case by simp
next
  case (Cons l ls)
  show ?case
    by (simp only: deposit_lines.simps deposit_line_row_cong [OF t] Cons.IH)
qed

lemma deposit_accounts_cong:
  assumes t: "tabAccount d' = tabAccount d"
  shows "deposit_accounts m p r a0 d' = deposit_accounts m p r a0 d"
  unfolding deposit_accounts_def
  by (simp only: deposit_lines_cong [OF t] get_account_name_by_id_cong [OF t])

lemma exchange_gain_rows_cong:
  assumes t: "tabAccount d' = tabAccount d"
  shows "exchange_gain_rows rnd d' m ls = exchange_gain_rows rnd d m ls"
proof (induction ls)
  case Nil
  show ?case by simp
next
  case (Cons l ls)
  show ?case
    by (simp only: exchange_gain_rows.simps get_account_name_by_id_cong [OF t] Cons.IH)
qed

lemma ledger_line_step_cong:
  assumes t: "tabAccount d' = tabAccount d"
  shows "ledger_line_step d' m loc l = ledger_line_step d m loc l"
  unfolding ledger_line_step_def ledger_line_party_def
  by (simp only: account_of_type_cong [OF t] account_currency_of_cong [OF t])

lemma ledger_lines_cong:
  assumes t: "tabAccount d' = tabAccount d"
  shows "ledger_lines d' m loc ls = ledger_lines d m loc ls"
proof (induction ls arbitrary: loc)
  case Nil
  show ?case by simp
next
  case (Cons l ls)
  show ?case
    by (simp only: ledger_lines.simps ledger_line_step_cong [OF t] Cons.IH)
qed

lemma ledger_set_rate_cong:
  assumes t: "tabAccount d' = tabAccount d"
  shows "ledger_set_rate d' m x row = ledger_set_rate d m x row"
  unfolding ledger_set_rate_def
  by (simp only: account_currency_of_cong [OF t])

lemma ledger_set_rates_cong:
  assumes t: "tabAccount d' = tabAccount d"
  shows "ledger_set_rates d' m x rows = ledger_set_rates d m x rows"
proof (induction rows)
  case Nil
  show ?case by simp
next
  case (Cons r rows)
  show ?case
    by (simp only: ledger_set_rates.simps ledger_set_rate_cong [OF t] Cons.IH)
qed

lemma ledger_accounts_cong:
  assumes t: "tabAccount d' = tabAccount d"
  shows "ledger_accounts m le d' = ledger_accounts m le d"
  unfolding ledger_accounts_def
  by (simp only: ledger_lines_cong [OF t] ledger_set_rates_cong [OF t])

text \<open>
  The Payment transformer looks Journal Entries up under keys that begin with
  \<open>Invoice - \<close>: the entry it stores itself, under \<open>Payment - \<close>, is none of them.
\<close>

lemma je_lookup_after_payment:
  assumes "entry_added (''Payment - '' @ pid) co accs d d'"
  shows "filter (\<lambda>j. je_quickbooks_id j = ''Invoice - '' @ x \<and> je_company j = c) (tabJournal_Entry d')
       = filter (\<lambda>j. je_quickbooks_id j = ''Invoice - '' @ x \<and> je_company j = c) (tabJournal_Entry d)"
proof -
  from assms obtain j where j: "je_quickbooks_id j = ''Payment - '' @ pid"
    and tab: "tabJournal_Entry d' = tabJournal_Entry d @ [j]"
    by (auto simp: entry_added_def)
  have "je_quickbooks_id j \<noteq> ''Invoice - '' @ x"
    by (simp add: j)
  then show ?thesis by (simp add: tab)
qed

lemma je_exists_after_payment:
  assumes "entry_added (''Payment - '' @ pid) co accs d d'"
  shows "je_exists d' (''Invoice - '' @ x) c = je_exists d (''Invoice - '' @ x) c"
  by (simp only: je_exists_filter je_lookup_after_payment [OF assms])

lemma si_exists_cong:
  "tabSales_Invoice d' = tabSales_Invoice d \<Longrightarrow> si_exists d' q c = si_exists d q c"
  by (simp add: si_exists_def)

lemma payment_find_invoice_cong:
  assumes a: "entry_added (''Payment - '' @ pid) co accs d d'"
  shows "payment_find_invoice d' m (''Invoice - '' @ x) loc
       = payment_find_invoice d m (''Invoice - '' @ x) loc"
proof -
  have s: "tabSales_Invoice d' = tabSales_Invoice d"
    using a by (simp add: entry_added_def)
  show ?thesis
    unfolding payment_find_invoice_def
    by (simp only: je_exists_after_payment [OF a] je_lookup_after_payment [OF a]
        si_exists_cong [OF s] s)
qed

lemma payment_line_step_cong:
  assumes a: "entry_added (''Payment - '' @ pid) co accs d d'"
  shows "payment_line_step F d' m p loc l = payment_line_step F d m p loc l"
proof -
  have t: "tabAccount d' = tabAccount d" and s: "tabSales_Invoice d' = tabSales_Invoice d"
    using a by (simp_all add: entry_added_def)
  show ?thesis
    unfolding payment_line_step_def Let_def
    by (simp only: payment_find_invoice_cong [OF a] s account_currency_of_cong [OF t])
qed

lemma payment_lines_cong:
  assumes a: "entry_added (''Payment - '' @ pid) co accs d d'"
  shows "payment_lines F d' m p loc ls = payment_lines F d m p loc ls"
proof (induction ls arbitrary: loc)
  case Nil
  show ?case by simp
next
  case (Cons l ls)
  show ?case
    by (simp only: payment_lines.simps payment_line_step_cong [OF a] Cons.IH)
qed

lemma payment_accounts_cong:
  assumes a: "entry_added (''Payment - '' @ pid) co accs d d'"
  shows "payment_accounts F m p dep d' = payment_accounts F m p dep d"
proof -
  have t: "tabAccount d' = tabAccount d"
    using a by (simp add: entry_added_def)
  show ?thesis
    unfolding payment_accounts_def
    by (simp only: payment_lines_cong [OF a] get_account_name_by_id_cong [OF t]
        account_currency_of_cong [OF t] exchange_gain_rows_cong [OF t])
qed

lemma save_payment_twice:
  assumes "\<not> je_exists d (''Payment - '' @ pay_id p) (company m)"
    and "je_exists (save_payment F m p d) (''Payment - '' @ pay_id p) (company m)"
  shows "je_count (save_payment F m p d) (''Payment - '' @ pay_id p) (company m) = 1 \<and>
         save_payment F m p (save_payment F m p d) = save_payment F m p d"
proof -
  let ?q = "''Payment - '' @ pay_id p"
  from assms obtain dep where dep: "pay_deposit_to_account_ref p = Some dep"
    by (cases "pay_deposit_to_account_ref p") (auto simp: save_payment_def)
  from assms dep obtain accs where accs: "payment_accounts F m p dep d = Inr accs"
    by (cases "payment_accounts F m p dep d")
       (auto simp: save_payment_def je_exists_log)
  let ?d1 = "priv_save_journal_entry F m ?q accs (pay_txn_date p) d"
  have d1: "save_payment F m p d = ?d1"
    using dep accs by (simp add: save_payment_def)
  with assms have ex: "je_exists ?d1 ?q (company m)" by simp
  note ea = builder_created [OF assms(1) ex]
  have "payment_accounts F m p dep ?d1 = Inr accs"
    by (simp only: payment_accounts_cong [OF ea] accs)
  then have "save_payment F m p ?d1 = ?d1"
    using dep ex by (simp add: save_payment_def priv_save_journal_entry_exists)
  with d1 entry_added_count [OF assms(1) ea] show ?thesis by simp
qed

lemma save_purchase_twice:
  assumes r: "save_purchase F m p d = Inr d1"
    and nex: "\<not> je_exists d (''Purchase - '' @ pur_id p) (company m)"
    and ex: "je_exists d1 (''Purchase - '' @ pur_id p) (company m)"
  shows "je_count d1 (''Purchase - '' @ pur_id p) (company m) = 1 \<and>
         save_purchase F m p d1 = Inr d1"
proof -
  let ?q = "''Purchase - '' @ pur_id p"
  from r obtain fr where fr: "purchase_first_rows d m p = Inr fr"
    by (cases "purchase_first_rows d m p") (simp_all add: save_purchase_def)
  from r fr nex ex obtain accs where
    accs: "purchase_accounts m p (fst fr) (snd fr) d = Inr accs"
    by (cases "purchase_accounts m p (fst fr) (snd fr) d")
       (auto simp: save_purchase_def je_exists_log)
  from r fr accs have d1: "d1 = priv_save_journal_entry F m ?q accs (pur_txn_date p) d"
    by (simp add: save_purchase_def)
  note ea = builder_created [OF nex ex [unfolded d1]]
  have t: "tabAccount d1 = tabAccount d" and i: "tabItem d1 = tabItem d"
    using ea by (simp_all add: entry_added_def d1)
  have "save_purchase F m p d1 = Inr (priv_save_journal_entry F m ?q accs (pur_txn_date p) d1)"
    unfolding save_purchase_def Let_def
    by (simp add: purchase_first_rows_cong [OF t] fr purchase_accounts_cong [OF t i] accs)
  moreover have "je_count d1 ?q (company m) = 1"
    by (subst d1) (rule entry_added_count [OF nex ea])
  ultimately show ?thesis
    using ex by (simp add: priv_save_journal_entry_exists)
qed

lemma save_deposit_twice:
  assumes r: "save_deposit F m p d = Inr d1"
    and nex: "\<not> je_exists d (''Deposit - '' @ dep_id p) (company m)"
    and ex: "je_exists d1 (''Deposit - '' @ dep_id p) (company m)"
  shows "je_count d1 (''Deposit - '' @ dep_id p) (company m) = 1 \<and>
         save_deposit F m p d1 = Inr d1"
proof -
  let ?q = "''Deposit - '' @ dep_id p"
  from r obtain fr where fr: "deposit_first_rows d m p = Inr fr"
    by (cases "deposit_first_rows d m p") (simp_all add: save_deposit_def)
  from r fr nex ex obtain accs where
    accs: "deposit_accounts m p (fst fr) (snd fr) d = Inr accs"
    by (cases "deposit_accounts m p (fst fr) (snd fr) d")
       (auto simp: save_deposit_def je_exists_log)
  from r fr accs have d1: "d1 = priv_save_journal_entry F m ?q accs (dep_txn_date p) d"
    by (simp add: save_deposit_def)
  note ea = builder_created [OF nex ex [unfolded d1]]
  have t: "tabAccount d1 = tabAccount d"
    using ea by (simp add: entry_added_def d1)
  have "save_deposit F m p d1 = Inr (priv_save_journal_entry F m ?q accs (dep_txn_date p) d1)"
    unfolding save_deposit_def Let_def
    by (simp add: deposit_first_rows_cong [OF t] fr deposit_accounts_cong [OF t] accs)
  moreover have "je_count d1 ?q (company m) = 1"
    by (subst d1) (rule entry_added_count [OF nex ea])
  ultimately show ?thesis
    using ex by (simp add: priv_save_journal_entry_exists)
qed

lemma save_journal_entry_rows:
  assumes "qje_exchange_rate e = Some tr"
  shows "save_journal_entry F m e d =
     (case get_je_accounts d m (qje_lines e) (qje_currency e) tr of
        Inl err \<Rightarrow> Inl err
      | Inr a \<Rightarrow>
          (case (case qje_tax_lines e of None \<Rightarrow> Inr [] | Some ls \<Rightarrow> je_tax_accounts d m ls) of
             Inl err \<Rightarrow> Inl err
           | Inr b \<Rightarrow>
               Inr (priv_save_journal_entry F m (''Journal Entry - '' @ qje_id e) (a @ b)
                      (qje_txn_date e) d)))"
  by (simp only: save_journal_entry_def Let_def assms option.case)

lemma save_journal_entry_twice:
  assumes "save_journal_entry F m e d = Inr d1"
    and "\<not> je_exists d (''Journal Entry - '' @ qje_id e) (company m)"
    and "je_exists d1 (''Journal Entry - '' @ qje_id e) (company m)"
  shows "je_count d1 (''Journal Entry - '' @ qje_id e) (company m) = 1 \<and>
         save_journal_entry F m e d1 = Inr d1"
proof -
  let ?q = "''Journal Entry - '' @ qje_id e"
  from assms(1) obtain tr where tr: "qje_exchange_rate e = Some tr"
    by (cases "qje_exchange_rate e") (simp_all add: save_journal_entry_def)
  note rows = save_journal_entry_rows [OF tr]
  from assms(1) obtain a b where
    a: "get_je_accounts d m (qje_lines e) (qje_currency e) tr = Inr a"
    and b: "(case qje_tax_lines e of None \<Rightarrow> Inr [] | Some ls \<Rightarrow> je_tax_accounts d m ls) = Inr b"
    and d1: "d1 = priv_save_journal_entry F m ?q (a @ b) (qje_txn_date e) d"
    unfolding rows by (auto split: sum.splits)
  note ea = builder_created [OF assms(2) assms(3) [unfolded d1]]
  have t: "tabAccount d1 = tabAccount d"
    using ea by (simp add: entry_added_def d1)
  have x: "je_tax_accounts d1 m = je_tax_accounts d m"
    by (rule ext) (rule je_tax_accounts_cong [OF t])
  have "save_journal_entry F m e d1 =
      Inr (priv_save_journal_entry F m ?q (a @ b) (qje_txn_date e) d1)"
    unfolding rows
    by (simp only: get_je_accounts_cong [OF t] x a b sum.case)
  moreover have "je_count d1 ?q (company m) = 1"
    by (subst d1) (rule entry_added_count [OF assms(2) ea])
  ultimately show ?thesis
    using assms(3) by (simp add: priv_save_journal_entry_exists)
qed

lemma save_entity_as_je_key:
  "save_entity_as_je F m kind le d = priv_save_ledger_entry_as_je F m le (ledger_key kind le) d"
  by (simp add: save_entity_as_je_def ledger_key_def Let_def)

lemma save_entity_as_je_twice:
  assumes nex: "\<not> je_exists d (ledger_key kind le) (company m)"
    and ex: "je_exists (save_entity_as_je F m kind le d) (ledger_key kind le) (company m)"
  shows "je_count (save_entity_as_je F m kind le d) (ledger_key kind le) (company m) = 1 \<and>
         save_entity_as_je F m kind le (save_entity_as_je F m kind le d)
           = save_entity_as_je F m kind le d"
proof -
  let ?q = "ledger_key kind le"
  from nex ex obtain accs where accs: "ledger_accounts m le d = Inr accs"
    by (cases "ledger_accounts m le d")
       (auto simp: save_entity_as_je_key priv_save_ledger_entry_as_je_def je_exists_log)
  from nex ex accs have ne: "accs \<noteq> []"
    by (auto simp: save_entity_as_je_key priv_save_ledger_entry_as_je_def)
  let ?d1 = "priv_save_journal_entry F m ?q accs (le_date le) d"
  have d1: "save_entity_as_je F m kind le d = ?d1"
    using accs ne by (simp add: save_entity_as_je_key priv_save_ledger_entry_as_je_def)
  with ex have ex1: "je_exists ?d1 ?q (company m)" by simp
  note ea = builder_created [OF nex ex1]
  have t: "tabAccount ?d1 = tabAccount d"
    using ea by (simp add: entry_added_def)
  have "ledger_accounts m le ?d1 = Inr accs"
    by (simp only: ledger_accounts_cong [OF t] accs)
  then have "save_entity_as_je F m kind le ?d1 = ?d1"
    using ne ex1
    by (simp add: save_entity_as_je_key priv_save_ledger_entry_as_je_def
        priv_save_journal_entry_exists)
  with d1 entry_added_count [OF nex ea] show ?thesis by simp
qed

text \<open>
  The BillPayment transformer looks Journal Entries up under the key of any linked
  transaction that is not a bill, which can be its own. A second call may therefore
  read the entry that the first call stored; it still fails nowhere the first call did
  not, because that entry has a supplier row whenever the record has a line.
\<close>

lemma bill_payment_other_step_again:
  assumes s: "bill_payment_other_step d m loc line q = Inr loc2"
    and rel: "loc_ref loc \<noteq> None \<Longrightarrow> loc_ref loc' \<noteq> None"
    and tab: "tabJournal_Entry d1 = tabJournal_Entry d @ [j]"
    and jq: "je_quickbooks_id j = key" and jc: "je_company j = company m"
    and nex: "\<not> je_exists d key (company m)"
    and sup: "\<exists>a\<in>set (je_accounts j). party_type a = Some ''Supplier''"
  shows "\<exists>loc2'. bill_payment_other_step d1 m loc' line q = Inr loc2' \<and> loc_ref loc2' \<noteq> None"
proof -
  let ?P = "\<lambda>x. je_quickbooks_id x = q \<and> je_company x = company m"
  let ?S = "\<lambda>a. party_type a = Some ''Supplier''"
  show ?thesis
  proof (cases "je_exists d q (company m)")
    case True
    then obtain J rest where J: "filter ?P (tabJournal_Entry d) = J # rest"
      by (cases "filter ?P (tabJournal_Entry d)") (auto simp: je_exists_filter)
    have f0: "first (filter ?P (tabJournal_Entry d)) = Inr J"
      by (simp add: J)
    have f1: "first (filter ?P (tabJournal_Entry d1)) = Inr J"
      by (simp add: tab J)
    have e1: "je_exists d1 q (company m)"
      by (simp add: je_exists_filter tab J)
    from s True f0 obtain a where a: "first (filter ?S (je_accounts J)) = Inr a"
      by (cases "first (filter ?S (je_accounts J))")
         (simp_all add: bill_payment_other_step_def)
    show ?thesis
      by (simp add: bill_payment_other_step_def e1 f1 a)
  next
    case False
    with s obtain r where r: "loc_ref loc = Some r"
      by (cases "loc_ref loc") (simp_all add: bill_payment_other_step_def)
    from False have emp: "filter ?P (tabJournal_Entry d) = []"
      by (simp add: je_exists_filter)
    show ?thesis
    proof (cases "q = key")
      case True
      from emp True have emp': "filter (\<lambda>x. je_quickbooks_id x = key \<and> je_company x = company m)
          (tabJournal_Entry d) = []"
        by simp
      have f1: "first (filter ?P (tabJournal_Entry d1)) = Inr j"
        by (simp add: tab emp' True jq jc)
      have e1: "je_exists d1 q (company m)"
        by (simp add: je_exists_filter tab True jq jc)
      from sup obtain a where a: "first (filter ?S (je_accounts j)) = Inr a"
        by (cases "filter ?S (je_accounts j)") (auto simp: filter_empty_conv)
      show ?thesis
        by (simp add: bill_payment_other_step_def e1 f1 a)
    next
      case neq: False
      have e1: "\<not> je_exists d1 q (company m)"
        using neq by (simp add: je_exists_filter tab emp jq)
      from rel r obtain r' where r': "loc_ref loc' = Some r'"
        by (cases "loc_ref loc'") auto
      show ?thesis
        by (simp add: bill_payment_other_step_def e1 r')
    qed
  qed
qed

lemma pi_exists_cong:
  "tabPurchase_Invoice d' = tabPurchase_Invoice d \<Longrightarrow> pi_exists d' q c = pi_exists d q c"
  by (simp add: pi_exists_def)

lemma bill_payment_bill_step_again:
  assumes s: "bill_payment_bill_step F d m bp loc line q = Inr loc2"
    and rel: "loc_ref loc \<noteq> None \<Longrightarrow> loc_ref loc' \<noteq> None"
    and p: "tabPurchase_Invoice d1 = tabPurchase_Invoice d"
  shows "\<exists>loc2'. bill_payment_bill_step F d1 m bp loc' line q = Inr loc2' \<and> loc_ref loc2' \<noteq> None"
proof -
  let ?P = "\<lambda>i. pi_quickbooks_id i = q \<and> pi_company i = company m"
  let ?Q = "\<lambda>i. pi_quickbooks_id i = q"
  from s obtain found where fo: "first (filter ?Q (tabPurchase_Invoice d)) = Inr found"
    by (cases "first (filter ?Q (tabPurchase_Invoice d))")
       (auto simp: bill_payment_bill_step_def split: sum.splits if_splits option.splits)
  show ?thesis
  proof (cases "pi_exists d q (company m)")
    case True
    with s obtain inv where inv: "first (filter ?P (tabPurchase_Invoice d)) = Inr inv"
      by (cases "first (filter ?P (tabPurchase_Invoice d))")
         (simp_all add: bill_payment_bill_step_def)
    show ?thesis
      by (simp add: bill_payment_bill_step_def pi_exists_cong [OF p] p True inv fo Let_def)
  next
    case False
    with s obtain r where r: "loc_ref loc = Some r"
      by (cases "loc_ref loc") (simp_all add: bill_payment_bill_step_def)
    from rel r obtain r' where r': "loc_ref loc' = Some r'"
      by (cases "loc_ref loc'") auto
    show ?thesis
      by (simp add: bill_payment_bill_step_def pi_exists_cong [OF p] p False r' fo Let_def)
  qed
qed

lemma bill_payment_line_step_again:
  assumes s: "bill_payment_line_step F d m bp loc line = Inr loc2"
    and rel: "loc_ref loc \<noteq> None \<Longrightarrow> loc_ref loc' \<noteq> None"
    and p: "tabPurchase_Invoice d1 = tabPurchase_Invoice d"
    and tab: "tabJournal_Entry d1 = tabJournal_Entry d @ [j]"
    and jq: "je_quickbooks_id j = key" and jc: "je_company j = company m"
    and nex: "\<not> je_exists d key (company m)"
    and sup: "\<exists>a\<in>set (je_accounts j). party_type a = Some ''Supplier''"
  shows "\<exists>loc2'. bill_payment_line_step F d1 m bp loc' line = Inr loc2' \<and> loc_ref loc2' \<noteq> None"
proof (cases "first (pl_linked_txn line)")
  case (Inl e)
  with s show ?thesis by (simp add: bill_payment_line_step_def)
next
  case (Inr lt)
  show ?thesis
  proof (cases "lt_txn_type lt = ''Bill''")
    case True
    with s Inr have "bill_payment_bill_step F d m bp loc line (''Bill - '' @ lt_txn_id lt) = Inr loc2"
      by (simp add: bill_payment_line_step_def)
    from bill_payment_bill_step_again [OF this rel p] Inr True show ?thesis
      by (simp add: bill_payment_line_step_def)
  next
    case False
    with s Inr have "bill_payment_other_step d m loc line
        (lt_txn_type lt @ '' - '' @ lt_txn_id lt) = Inr loc2"
      by (simp add: bill_payment_line_step_def)
    from bill_payment_other_step_again [OF this rel tab jq jc nex sup] Inr False show ?thesis
      by (simp add: bill_payment_line_step_def)
  qed
qed

lemma bill_payment_lines_again:
  assumes s: "bill_payment_lines F d m bp loc ls = Inr locf"
    and rel: "loc_ref loc \<noteq> None \<Longrightarrow> loc_ref loc' \<noteq> None"
    and p: "tabPurchase_Invoice d1 = tabPurchase_Invoice d"
    and tab: "tabJournal_Entry d1 = tabJournal_Entry d @ [j]"
    and jq: "je_quickbooks_id j = key" and jc: "je_company j = company m"
    and nex: "\<not> je_exists d key (company m)"
    and sup: "\<exists>a\<in>set (je_accounts j). party_type a = Some ''Supplier''"
  shows "\<exists>locf'. bill_payment_lines F d1 m bp loc' ls = Inr locf'"
  using s rel
proof (induction ls arbitrary: loc loc')
  case Nil
  show ?case by simp
next
  case (Cons l ls)
  from Cons.prems(1) obtain loc2 where
    st: "bill_payment_line_step F d m bp loc l = Inr loc2"
    and rest: "bill_payment_lines F d m bp loc2 ls = Inr locf"
    by (auto split: sum.splits)
  from bill_payment_line_step_again [OF st Cons.prems(2) p tab jq jc nex sup]
  obtain loc2' where st': "bill_payment_line_step F d1 m bp loc' l = Inr loc2'"
    and some: "loc_ref loc2' \<noteq> None"
    by blast
  from Cons.IH [OF rest, of loc2'] some obtain locf' where
    "bill_payment_lines F d1 m bp loc2' ls = Inr locf'"
    by blast
  with st' show ?case by simp
qed

lemma bill_payment_line_step_appends:
  assumes "bill_payment_line_step F d m bp loc line = Inr loc2"
  shows "\<exists>row. loc_accounts loc2 = loc_accounts loc @ [row] \<and> party_type row = Some ''Supplier''"
proof (cases "first (pl_linked_txn line)")
  case (Inl e)
  with assms show ?thesis by (simp add: bill_payment_line_step_def)
next
  case (Inr lt)
  show ?thesis
  proof (cases "lt_txn_type lt = ''Bill''")
    case True
    with assms Inr have "bill_payment_bill_step F d m bp loc line (''Bill - '' @ lt_txn_id lt) = Inr loc2"
      by (simp add: bill_payment_line_step_def)
    then show ?thesis
      by (auto simp: bill_payment_bill_step_def bill_payment_bill_row_def new_line_def Let_def
          split: sum.splits if_splits option.splits)
  next
    case False
    with assms Inr have "bill_payment_other_step d m loc line
        (lt_txn_type lt @ '' - '' @ lt_txn_id lt) = Inr loc2"
      by (simp add: bill_payment_line_step_def)
    then show ?thesis
      by (auto simp: bill_payment_other_step_def new_line_def
          split: sum.splits if_splits option.splits)
  qed
qed

lemma bill_payment_lines_grow:
  assumes "bill_payment_lines F d m bp loc ls = Inr locf"
  shows "set (loc_accounts loc) \<subseteq> set (loc_accounts locf)"
  using assms
proof (induction ls arbitrary: loc)
  case Nil
  then show ?case by simp
next
  case (Cons l ls)
  from Cons.prems obtain loc2 where
    st: "bill_payment_line_step F d m bp loc l = Inr loc2"
    and rest: "bill_payment_lines F d m bp loc2 ls = Inr locf"
    by (auto split: sum.splits)
  from bill_payment_line_step_appends [OF st] Cons.IH [OF rest] show ?case by auto
qed

lemma bill_payment_lines_supplier:
  assumes "bill_payment_lines F d m bp loc ls = Inr locf" and "ls \<noteq> []"
  shows "\<exists>a\<in>set (loc_accounts locf). party_type a = Some ''Supplier''"
proof -
  from assms obtain l rest where ls: "ls = l # rest" by (cases ls) auto
  with assms(1) obtain loc2 where
    st: "bill_payment_line_step F d m bp loc l = Inr loc2"
    and r: "bill_payment_lines F d m bp loc2 rest = Inr locf"
    by (auto split: sum.splits)
  from bill_payment_line_step_appends [OF st] bill_payment_lines_grow [OF r] show ?thesis
    by auto
qed

lemma bill_payment_accounts_again:
  assumes a: "bill_payment_accounts F m bp d = Inr accs"
    and ea: "entry_added key (company m) accs d d1"
    and nex: "\<not> je_exists d key (company m)"
  shows "\<exists>accs'. bill_payment_accounts F m bp d1 = Inr accs'"
proof -
  from ea obtain j where
    t: "tabAccount d1 = tabAccount d" and p: "tabPurchase_Invoice d1 = tabPurchase_Invoice d"
    and tab: "tabJournal_Entry d1 = tabJournal_Entry d @ [j]"
    and jq: "je_quickbooks_id j = key" and jc: "je_company j = company m"
    and ja: "je_accounts j = accs"
    by (auto simp: entry_added_def)
  from a obtain locf where
    lines: "bill_payment_lines F d m bp no_locals (bp_lines bp) = Inr locf"
    by (cases "bill_payment_lines F d m bp no_locals (bp_lines bp)")
       (simp_all add: bill_payment_accounts_def)
  from a lines obtain bid where bid: "bill_payment_bank_account_id bp = Inr bid"
    by (cases "bill_payment_bank_account_id bp") (simp_all add: bill_payment_accounts_def)
  from a lines bid obtain bank where bank: "get_account_name_by_id d m bid = Inr bank"
    by (cases "get_account_name_by_id d m bid") (simp_all add: bill_payment_accounts_def)
  let ?rate = "\<lambda>dd. if account_currency_of dd (Some bank) \<noteq> Some (bp_currency bp)
                     then (case bp_exchange_rate bp of None \<Rightarrow> Inl KeyError | Some x \<Rightarrow> Inr x)
                     else Inr 1"
  from a lines bid bank obtain rate where rate: "?rate d = Inr rate"
    by (cases "?rate d") (simp_all add: bill_payment_accounts_def)
  from a lines bid bank rate obtain gl where
    gl: "gl_lines_of m ''Bill Payment (Cheque)'' (bp_id bp) = Inr gl"
    by (cases "gl_lines_of m ''Bill Payment (Cheque)'' (bp_id bp)")
       (simp_all add: bill_payment_accounts_def Let_def)
  from a lines bid bank rate gl obtain rows where
    rows: "exchange_gain_rows (\<lambda>x. x) d m gl = Inr rows"
    by (cases "exchange_gain_rows (\<lambda>x. x) d m gl")
       (simp_all add: bill_payment_accounts_def Let_def)
  from a lines bid bank rate gl rows have accs: "set (loc_accounts locf) \<subseteq> set accs"
    by (auto simp: bill_payment_accounts_def Let_def)
  have rate': "?rate d1 = Inr rate"
    using rate by (simp only: account_currency_of_cong [OF t])
  have "\<exists>locf'. bill_payment_lines F d1 m bp no_locals (bp_lines bp) = Inr locf'"
  proof (cases "bp_lines bp = []")
    case True
    then show ?thesis by simp
  next
    case False
    from bill_payment_lines_supplier [OF lines False] accs ja
    have sup: "\<exists>a\<in>set (je_accounts j). party_type a = Some ''Supplier''"
      by auto
    show ?thesis
      by (rule bill_payment_lines_again [OF lines _ p tab jq jc nex sup]) simp
  qed
  then obtain locf' where
    lines': "bill_payment_lines F d1 m bp no_locals (bp_lines bp) = Inr locf'"
    by blast
  show ?thesis
    by (simp add: bill_payment_accounts_def Let_def lines' bid
        get_account_name_by_id_cong [OF t] bank rate' gl exchange_gain_rows_cong [OF t] rows)
qed

lemma save_bill_payment_twice:
  assumes nex: "\<not> je_exists d (''BillPayment - '' @ bp_id bp) (company m)"
    and ex: "je_exists (save_bill_payment F m bp d) (''BillPayment - '' @ bp_id bp) (company m)"
  shows "je_count (save_bill_payment F m bp d) (''BillPayment - '' @ bp_id bp) (company m) = 1 \<and>
         save_bill_payment F m bp (save_bill_payment F m bp d) = save_bill_payment F m bp d"
proof -
  let ?q = "''BillPayment - '' @ bp_id bp"
  from nex ex obtain accs where accs: "bill_payment_accounts F m bp d = Inr accs"
    by (cases "bill_payment_accounts F m bp d")
       (auto simp: save_bill_payment_def je_exists_log)
  let ?d1 = "priv_save_journal_entry F m ?q accs (bp_txn_date bp) d"
  have d1: "save_bill_payment F m bp d = ?d1"
    using accs by (simp add: save_bill_payment_def)
  with ex have ex1: "je_exists ?d1 ?q (company m)" by simp
  note ea = builder_created [OF nex ex1]
  from bill_payment_accounts_again [OF accs ea nex] obtain accs' where
    "bill_payment_accounts F m bp ?d1 = Inr accs'"
    by blast
  then have "save_bill_payment F m bp ?d1 = ?d1"
    using ex1 by (simp add: save_bill_payment_def priv_save_journal_entry_exists)
  with d1 entry_added_count [OF nex ea] show ?thesis by simp
qed

lemma entity_method_exists:
  assumes "je_exists d (entry_key e) (company m)"
  shows "(\<exists>err. entity_method F m e d = Inl err) \<or> entity_method F m e d = Inr d \<or>
         (\<exists>err. entity_method F m e d = Inr (log_error err d))"
proof (cases e)
  case (JournalEntry x)
  with assms show ?thesis
    by (auto simp: save_journal_entry_def Let_def priv_save_journal_entry_exists
        split: sum.splits option.splits)
next
  case (Payment x)
  with assms show ?thesis
    by (auto simp: save_payment_def Let_def priv_save_journal_entry_exists
        split: sum.splits option.splits)
next
  case (BillPayment x)
  with assms show ?thesis
    by (auto simp: save_bill_payment_def Let_def priv_save_journal_entry_exists
        split: sum.splits)
next
  case (Purchase x)
  with assms show ?thesis
    by (auto simp: save_purchase_def Let_def priv_save_journal_entry_exists
        split: sum.splits)
next
  case (Deposit x)
  with assms show ?thesis
    by (auto simp: save_deposit_def Let_def priv_save_journal_entry_exists
        split: sum.splits)
qed

lemma entity_method_twice:
  assumes nex: "\<not> je_exists d (entry_key e) (company m)"
    and r: "entity_method F m e d = Inr d2"
    and ex: "je_exists d2 (entry_key e) (company m)"
  shows "je_count d2 (entry_key e) (company m) = 1 \<and> entity_method F m e d2 = Inr d2"
proof (cases e)
  case (JournalEntry x)
  with save_journal_entry_twice [of F m x d d2] nex r ex show ?thesis by simp
next
  case (Payment x)
  with save_payment_twice [of d x m F] nex r ex show ?thesis by auto
next
  case (BillPayment x)
  with save_bill_payment_twice [of d x m F] nex r ex show ?thesis by auto
next
  case (Purchase x)
  with save_purchase_twice [of F m x d d2] nex r ex show ?thesis by simp
next
  case (Deposit x)
  with save_deposit_twice [of F m x d d2] nex r ex show ?thesis by simp
qed

lemma save_entity_as_je_exists:
  assumes "je_exists d (ledger_key kind le) (company m)"
  shows "save_entity_as_je F m kind le d = d \<or>
         (\<exists>err. save_entity_as_je F m kind le d = log_error err d)"
  using assms
  by (auto simp: save_entity_as_je_key priv_save_ledger_entry_as_je_def
      priv_save_journal_entry_exists split: sum.splits)

text \<open>
  Claim C2, as the code has it. The key is checked first by \<open>_save_sales_invoice\<close> and by
  the builder, which return the database as it is when a record with the key exists for
  the company; and after a call that created the record, exactly one record carries the
  key and a further call with any record changes nothing. The transformers that end in
  the builder build their rows before the builder checks the key. With the key stored,
  a call of such a transformer creates no record, and its result is one of three: the
  database unchanged; the database with the failure of the row building logged; an
  exception that leaves the transformer (\<open>_save_journal_entry\<close>, and \<open>_save_purchase\<close> and
  \<open>_save_deposit\<close> before \<open>accounts\<close> is assigned). When a first call of a transformer has
  stored the record, exactly one record carries the key and a second call with the same
  record returns the database unchanged. The same holds for the General Ledger path.
\<close>

theorem C2_existing_key_creates_no_record:
  "(je_exists d qid (company m) \<longrightarrow> priv_save_journal_entry F m qid accs date d = d) \<and>
   (\<not> je_exists d qid (company m) \<longrightarrow> je_insert_ok F (je_doc_of F m d qid accs date) \<longrightarrow>
      je_count (priv_save_journal_entry F m qid accs date d) qid (company m) = 1 \<and>
      priv_save_journal_entry F m qid accs' date' (priv_save_journal_entry F m qid accs date d)
        = priv_save_journal_entry F m qid accs date d) \<and>
   (\<not> je_exists d qid (company m) \<longrightarrow> \<not> je_insert_ok F (je_doc_of F m d qid accs date) \<longrightarrow>
      tabJournal_Entry (priv_save_journal_entry F m qid accs date
         (priv_save_journal_entry F m qid accs date d)) = tabJournal_Entry d) \<and>
   (si_exists d qid (company m) \<longrightarrow> save_sales_invoice G m ch txn qid ret pos d = Inr d) \<and>
   (save_sales_invoice G m ch txn qid ret pos d = Inr d1 \<longrightarrow> \<not> si_exists d qid (company m) \<longrightarrow>
      si_exists d1 qid (company m) \<longrightarrow>
      si_count d1 qid (company m) = 1 \<and>
      save_sales_invoice G m ch' txn' qid ret' pos' d1 = Inr d1) \<and>
   (je_exists d (entry_key e) (company m) \<longrightarrow>
      (\<exists>err. entity_method F m e d = Inl err) \<or> entity_method F m e d = Inr d \<or>
      (\<exists>err. entity_method F m e d = Inr (log_error err d))) \<and>
   (\<not> je_exists d (entry_key e) (company m) \<longrightarrow> entity_method F m e d = Inr d2 \<longrightarrow>
      je_exists d2 (entry_key e) (company m) \<longrightarrow>
      je_count d2 (entry_key e) (company m) = 1 \<and> entity_method F m e d2 = Inr d2) \<and>
   (je_exists d (ledger_key kind le) (company m) \<longrightarrow>
      save_entity_as_je F m kind le d = d \<or>
      (\<exists>err. save_entity_as_je F m kind le d = log_error err d)) \<and>
   (\<not> je_exists d (ledger_key kind le) (company m) \<longrightarrow>
      je_exists (save_entity_as_je F m kind le d) (ledger_key kind le) (company m) \<longrightarrow>
      je_count (save_entity_as_je F m kind le d) (ledger_key kind le) (company m) = 1 \<and>
      save_entity_as_je F m kind le (save_entity_as_je F m kind le d)
        = save_entity_as_je F m kind le d)"
proof (intro conjI impI)
  assume "je_exists d qid (company m)"
  then show "priv_save_journal_entry F m qid accs date d = d"
    by (rule priv_save_journal_entry_exists)
next
  assume a: "\<not> je_exists d qid (company m)" "je_insert_ok F (je_doc_of F m d qid accs date)"
  then show c: "je_count (priv_save_journal_entry F m qid accs date d) qid (company m) = 1"
    by (rule priv_save_journal_entry_created)
  then have "je_exists (priv_save_journal_entry F m qid accs date d) qid (company m)"
    by (simp add: je_exists_count)
  then show "priv_save_journal_entry F m qid accs' date' (priv_save_journal_entry F m qid accs date d)
        = priv_save_journal_entry F m qid accs date d"
    by (rule priv_save_journal_entry_exists)
next
  assume "\<not> je_exists d qid (company m)" "\<not> je_insert_ok F (je_doc_of F m d qid accs date)"
  then show "tabJournal_Entry (priv_save_journal_entry F m qid accs date
         (priv_save_journal_entry F m qid accs date d)) = tabJournal_Entry d"
    by (rule priv_save_journal_entry_rejected_twice)
next
  assume "si_exists d qid (company m)"
  then show "save_sales_invoice G m ch txn qid ret pos d = Inr d"
    by (rule save_sales_invoice_exists)
next
  assume "save_sales_invoice G m ch txn qid ret pos d = Inr d1" "\<not> si_exists d qid (company m)"
    "si_exists d1 qid (company m)"
  then show "si_count d1 qid (company m) = 1"
    by (rule save_sales_invoice_created)
next
  assume "si_exists d1 qid (company m)"
  then show "save_sales_invoice G m ch' txn' qid ret' pos' d1 = Inr d1"
    by (rule save_sales_invoice_exists)
next
  assume "je_exists d (entry_key e) (company m)"
  then show "(\<exists>err. entity_method F m e d = Inl err) \<or> entity_method F m e d = Inr d \<or>
      (\<exists>err. entity_method F m e d = Inr (log_error err d))"
    by (rule entity_method_exists)
next
  assume a: "\<not> je_exists d (entry_key e) (company m)" "entity_method F m e d = Inr d2"
    "je_exists d2 (entry_key e) (company m)"
  from entity_method_twice [OF a] show "je_count d2 (entry_key e) (company m) = 1"
    and "entity_method F m e d2 = Inr d2"
    by simp_all
next
  assume "je_exists d (ledger_key kind le) (company m)"
  then show "save_entity_as_je F m kind le d = d \<or>
      (\<exists>err. save_entity_as_je F m kind le d = log_error err d)"
    by (rule save_entity_as_je_exists)
next
  assume a: "\<not> je_exists d (ledger_key kind le) (company m)"
    "je_exists (save_entity_as_je F m kind le d) (ledger_key kind le) (company m)"
  from save_entity_as_je_twice [OF a]
  show "je_count (save_entity_as_je F m kind le d) (ledger_key kind le) (company m) = 1"
    and "save_entity_as_je F m kind le (save_entity_as_je F m kind le d)
        = save_entity_as_je F m kind le d"
    by simp_all
qed

text \<open>
  The payment 7 is stored under its key, and the invoice that its line names is not (or
  no longer) a Sales Invoice. A further call of \<open>_save_payment\<close> with the record fails in
  the lookup of the invoice, before the builder is reached, and logs the IndexError: the
  key exists and the database changes. A JournalEntry record whose key is stored and
  whose first line names an account without local counterpart raises instead.
\<close>

theorem C2_counterexample:
  "je_exists payment_stored_db ''Payment - 7'' ''NX'' \<and>
   save_payment demo_frappe demo_migrator demo_payment payment_stored_db
     = log_error IndexError payment_stored_db \<and>
   tabError_Log payment_stored_db = [] \<and>
   tabError_Log (save_payment demo_frappe demo_migrator demo_payment payment_stored_db)
     = [IndexError] \<and>
   je_exists (priv_save_journal_entry demo_frappe demo_migrator ''Journal Entry - 77'' demo_rows
      ''2024-01-01'' demo_db) ''Journal Entry - 77'' ''NX'' \<and>
   save_journal_entry demo_frappe demo_migrator bad_journal_entry
     (priv_save_journal_entry demo_frappe demo_migrator ''Journal Entry - 77'' demo_rows
        ''2024-01-01'' demo_db) = Inl IndexError"
  by code_simp

theorem C2_witness:
  "je_count (priv_save_journal_entry demo_frappe demo_migrator ''Journal Entry - 78'' demo_rows
      ''2024-01-02'' demo_db) ''Journal Entry - 78'' ''NX'' = 1 \<and>
   priv_save_journal_entry demo_frappe demo_migrator ''Journal Entry - 78'' demo_rows_unbalanced
     ''2024-01-09''
     (priv_save_journal_entry demo_frappe demo_migrator ''Journal Entry - 78'' demo_rows
        ''2024-01-02'' demo_db)
     = priv_save_journal_entry demo_frappe demo_migrator ''Journal Entry - 78'' demo_rows
        ''2024-01-02'' demo_db \<and>
   tabJournal_Entry
     (priv_save_journal_entry demo_frappe demo_migrator ''Journal Entry - 79'' demo_rows_unbalanced
        ''2024-01-02''
        (priv_save_journal_entry demo_frappe demo_migrator ''Journal Entry - 79''
           demo_rows_unbalanced ''2024-01-02'' demo_db)) = [] \<and>
   (case save_sales_invoice demo_frappe_si demo_migrator (\<lambda>_ _ _ _. Inr ()) demo_invoice
           ''Invoice - 9002'' False False demo_db of
      Inl e \<Rightarrow> False
    | Inr d1 \<Rightarrow>
        si_count d1 ''Invoice - 9002'' ''NX'' = 1 \<and>
        save_sales_invoice demo_frappe_si demo_migrator (\<lambda>_ _ _ _. Inr ()) demo_invoice
          ''Invoice - 9002'' False False d1 = Inr d1) \<and>
   je_exists (save_payment demo_frappe demo_migrator demo_payment demo_db) ''Payment - 7'' ''NX'' \<and>
   entity_method demo_frappe demo_migrator (Payment demo_payment)
     (save_payment demo_frappe demo_migrator demo_payment demo_db)
     = Inr (save_payment demo_frappe demo_migrator demo_payment demo_db) \<and>
   list_all
     (\<lambda>e. case entity_method demo_frappe demo_migrator e demo_db of
             Inl err \<Rightarrow> False
           | Inr d2 \<Rightarrow>
               je_count d2 (entry_key e) ''NX'' = 1 \<and>
               entity_method demo_frappe demo_migrator e d2 = Inr d2)
     [JournalEntry good_journal_entry, Payment demo_payment, BillPayment demo_bill_payment,
      Purchase demo_purchase, Deposit demo_deposit] \<and>
   je_count (save_entity_as_je demo_frappe demo_migrator ''Tax Payment''
      (demo_ledger_entry ''Cash on hand - QB - NX'') demo_db) ''Tax Payment - 5'' ''NX'' = 1 \<and>
   save_entity_as_je demo_frappe demo_migrator ''Tax Payment''
     (demo_ledger_entry ''Cash on hand - QB - NX'')
     (save_entity_as_je demo_frappe demo_migrator ''Tax Payment''
        (demo_ledger_entry ''Cash on hand - QB - NX'') demo_db)
     = save_entity_as_je demo_frappe demo_migrator ''Tax Payment''
        (demo_ledger_entry ''Cash on hand - QB - NX'') demo_db"
proof -
  have co: "company demo_migrator = ''NX''"
    by (simp add: demo_migrator_def)
  have e: "tabJournal_Entry demo_db = []"
    by (simp add: demo_db_def)
  have nex: "\<And>q. \<not> je_exists demo_db q (company demo_migrator)"
    by (simp add: je_exists_def e)
  have ok: "je_insert_ok demo_frappe
      (je_doc_of demo_frappe demo_migrator demo_db ''Journal Entry - 78'' demo_rows ''2024-01-02'')"
    by (simp add: demo_frappe_def je_doc_of_def balanced_def demo_rows_def line_debit_def
        line_credit_def new_line_def)
  have no: "\<not> je_insert_ok demo_frappe
      (je_doc_of demo_frappe demo_migrator demo_db ''Journal Entry - 79'' demo_rows_unbalanced
         ''2024-01-02'')"
    by (simp add: demo_frappe_def je_doc_of_def balanced_def demo_rows_unbalanced_def
        line_debit_def line_credit_def new_line_def)
  have n3: "\<not> si_exists demo_db ''Invoice - 9002'' (company demo_migrator)"
    by (simp add: si_exists_def demo_db_def)
  obtain d1 where s: "save_sales_invoice demo_frappe_si demo_migrator (\<lambda>_ _ _ _. Inr ()) demo_invoice
      ''Invoice - 9002'' False False demo_db = Inr d1"
    and x: "si_exists d1 ''Invoice - 9002'' (company demo_migrator)"
    by (simp add: save_sales_invoice_def si_exists_def si_doc_of_def demo_db_def demo_migrator_def
        demo_frappe_si_def demo_invoice_def Let_def)
  note T = C2_existing_key_creates_no_record [where F = demo_frappe and m = demo_migrator
      and G = demo_frappe_si]
  from T [where d = demo_db and qid = "''Journal Entry - 78''" and accs = demo_rows
      and date = "''2024-01-02''" and accs' = demo_rows_unbalanced and date' = "''2024-01-09''",
      THEN conjunct2, THEN conjunct1, rule_format, OF nex ok]
  have 1: "je_count (priv_save_journal_entry demo_frappe demo_migrator ''Journal Entry - 78'' demo_rows
      ''2024-01-02'' demo_db) ''Journal Entry - 78'' ''NX'' = 1 \<and>
   priv_save_journal_entry demo_frappe demo_migrator ''Journal Entry - 78'' demo_rows_unbalanced
     ''2024-01-09''
     (priv_save_journal_entry demo_frappe demo_migrator ''Journal Entry - 78'' demo_rows
        ''2024-01-02'' demo_db)
     = priv_save_journal_entry demo_frappe demo_migrator ''Journal Entry - 78'' demo_rows
        ''2024-01-02'' demo_db"
    by (simp add: co)
  from T [where d = demo_db and qid = "''Journal Entry - 79''" and accs = demo_rows_unbalanced
      and date = "''2024-01-02''", THEN conjunct2, THEN conjunct2, THEN conjunct1,
      rule_format, OF nex no]
  have 2: "tabJournal_Entry
     (priv_save_journal_entry demo_frappe demo_migrator ''Journal Entry - 79'' demo_rows_unbalanced
        ''2024-01-02''
        (priv_save_journal_entry demo_frappe demo_migrator ''Journal Entry - 79''
           demo_rows_unbalanced ''2024-01-02'' demo_db)) = []"
    by (simp add: e)
  from T [where d = demo_db and qid = "''Invoice - 9002''" and ch = "\<lambda>_ _ _ _. Inr ()"
      and txn = demo_invoice and ret = False and pos = False and ?d1.0 = d1
      and ch' = "\<lambda>_ _ _ _. Inr ()" and txn' = demo_invoice and ret' = False and pos' = False,
      THEN conjunct2, THEN conjunct2, THEN conjunct2, THEN conjunct2, THEN conjunct1,
      rule_format, OF s n3 x]
  have 3: "si_count d1 ''Invoice - 9002'' ''NX'' = 1 \<and>
        save_sales_invoice demo_frappe_si demo_migrator (\<lambda>_ _ _ _. Inr ()) demo_invoice
          ''Invoice - 9002'' False False d1 = Inr d1"
    by (simp add: co)
  let ?st = "save_payment demo_frappe demo_migrator demo_payment demo_db"
  have x4: "je_exists ?st ''Payment - 7'' ''NX''"
    by code_simp
  then have h4: "je_exists ?st (entry_key (Payment demo_payment)) (company demo_migrator)"
    by (simp add: co demo_payment_def)
  have l4: "tabError_Log (save_payment demo_frappe demo_migrator demo_payment ?st) = []"
    by code_simp
  from T [where d = ?st and e = "Payment demo_payment", THEN conjunct2, THEN conjunct2,
      THEN conjunct2, THEN conjunct2, THEN conjunct2, THEN conjunct1, rule_format, OF h4] l4
  have 4: "entity_method demo_frappe demo_migrator (Payment demo_payment) ?st = Inr ?st"
    by (auto simp: log_error_def)
  have 5: "case entity_method demo_frappe demo_migrator e demo_db of
             Inl err \<Rightarrow> False
           | Inr d2 \<Rightarrow>
               je_count d2 (entry_key e) ''NX'' = 1 \<and>
               entity_method demo_frappe demo_migrator e d2 = Inr d2"
    if stored: "case entity_method demo_frappe demo_migrator e demo_db of
                  Inl err \<Rightarrow> False | Inr d2 \<Rightarrow> je_exists d2 (entry_key e) ''NX''"
    for e
  proof -
    from stored obtain d2 where r: "entity_method demo_frappe demo_migrator e demo_db = Inr d2"
      and x2: "je_exists d2 (entry_key e) (company demo_migrator)"
      by (cases "entity_method demo_frappe demo_migrator e demo_db") (auto simp: co)
    from T [where d = demo_db and e = e and ?d2.0 = d2, THEN conjunct2, THEN conjunct2,
      THEN conjunct2, THEN conjunct2, THEN conjunct2, THEN conjunct2, THEN conjunct1,
      rule_format, OF nex r x2]
    show ?thesis by (simp add: r co)
  qed
  have s1: "case entity_method demo_frappe demo_migrator (JournalEntry good_journal_entry) demo_db of
              Inl err \<Rightarrow> False
            | Inr d2 \<Rightarrow> je_exists d2 (entry_key (JournalEntry good_journal_entry)) ''NX''"
    by code_simp
  have s2: "case entity_method demo_frappe demo_migrator (Payment demo_payment) demo_db of
              Inl err \<Rightarrow> False
            | Inr d2 \<Rightarrow> je_exists d2 (entry_key (Payment demo_payment)) ''NX''"
    by code_simp
  have s3: "case entity_method demo_frappe demo_migrator (BillPayment demo_bill_payment) demo_db of
              Inl err \<Rightarrow> False
            | Inr d2 \<Rightarrow> je_exists d2 (entry_key (BillPayment demo_bill_payment)) ''NX''"
    by code_simp
  have s4: "case entity_method demo_frappe demo_migrator (Purchase demo_purchase) demo_db of
              Inl err \<Rightarrow> False
            | Inr d2 \<Rightarrow> je_exists d2 (entry_key (Purchase demo_purchase)) ''NX''"
    by code_simp
  have s5: "case entity_method demo_frappe demo_migrator (Deposit demo_deposit) demo_db of
              Inl err \<Rightarrow> False
            | Inr d2 \<Rightarrow> je_exists d2 (entry_key (Deposit demo_deposit)) ''NX''"
    by code_simp
  have 6: "list_all
     (\<lambda>e. case entity_method demo_frappe demo_migrator e demo_db of
             Inl err \<Rightarrow> False
           | Inr d2 \<Rightarrow>
               je_count d2 (entry_key e) ''NX'' = 1 \<and>
               entity_method demo_frappe demo_migrator e d2 = Inr d2)
     [JournalEntry good_journal_entry, Payment demo_payment, BillPayment demo_bill_payment,
      Purchase demo_purchase, Deposit demo_deposit]"
    using 5 [OF s1] 5 [OF s2] 5 [OF s3] 5 [OF s4] 5 [OF s5]
    by simp
  let ?le = "demo_ledger_entry ''Cash on hand - QB - NX''"
  have k: "ledger_key ''Tax Payment'' ?le = ''Tax Payment - 5''"
    by (simp add: ledger_key_def demo_ledger_entry_def)
  have x7: "je_exists (save_entity_as_je demo_frappe demo_migrator ''Tax Payment'' ?le demo_db)
      (ledger_key ''Tax Payment'' ?le) (company demo_migrator)"
    unfolding k co by code_simp
  from T [where d = demo_db and kind = "''Tax Payment''" and le = ?le, THEN conjunct2,
      THEN conjunct2, THEN conjunct2, THEN conjunct2, THEN conjunct2, THEN conjunct2,
      THEN conjunct2, THEN conjunct2, rule_format, OF nex x7]
  have 7: "je_count (save_entity_as_je demo_frappe demo_migrator ''Tax Payment'' ?le demo_db)
      ''Tax Payment - 5'' ''NX'' = 1 \<and>
   save_entity_as_je demo_frappe demo_migrator ''Tax Payment'' ?le
     (save_entity_as_je demo_frappe demo_migrator ''Tax Payment'' ?le demo_db)
     = save_entity_as_je demo_frappe demo_migrator ''Tax Payment'' ?le demo_db"
    by (simp only: k co)
  from 1 2 3 s x4 4 6 7 show ?thesis by simp
qed

section \<open>Stored entries and the balance check of the storage\<close>

lemma submitted_balanced_refl: "submitted_balanced d d"
  by (simp add: submitted_balanced_def)

lemma submitted_balanced_trans:
  "submitted_balanced d d1 \<Longrightarrow> submitted_balanced d1 d2 \<Longrightarrow> submitted_balanced d d2"
  by (auto simp: submitted_balanced_def)

lemma submitted_balanced_log: "submitted_balanced d d' \<Longrightarrow> submitted_balanced d (log_error e d')"
  by (simp add: submitted_balanced_def log_error_def)

lemma builder_submitted_balanced:
  assumes "rejects_imbalance F"
  shows "submitted_balanced d (priv_save_journal_entry F m qid accs date d)"
proof -
  let ?je = "je_doc_of F m d qid accs date"
  have b: "je_insert_ok F ?je \<Longrightarrow> je_submit_ok F ?je \<Longrightarrow> balanced accs"
    using assms by (auto simp: rejects_imbalance_def je_doc_of_def)
  have z: "je_docstatus ?je = 0"
    by (simp add: je_doc_of_def)
  show ?thesis
    using b z
    by (auto simp: priv_save_journal_entry_def Let_def submitted_balanced_def log_error_def)
       (simp add: je_doc_of_def)
qed

lemma builder_rejected_on_insert:
  assumes "\<not> je_insert_ok F (je_doc_of F m d qid accs date)"
  shows "tabJournal_Entry (priv_save_journal_entry F m qid accs date d) = tabJournal_Entry d"
  using assms by (simp add: priv_save_journal_entry_def Let_def log_error_def)

lemma builder_keeps_draft:
  assumes "\<not> je_exists d qid (company m)"
    and "je_insert_ok F (je_doc_of F m d qid accs date)"
    and "\<not> je_submit_ok F (je_doc_of F m d qid accs date)"
  shows "tabJournal_Entry (priv_save_journal_entry F m qid accs date d) =
           tabJournal_Entry d @ [je_doc_of F m d qid accs date]"
  using assms by (simp add: priv_save_journal_entry_def Let_def log_error_def)

lemma entity_method_submitted_balanced:
  assumes "rejects_imbalance F" and "entity_method F m e d = Inr d'"
  shows "submitted_balanced d d'"
proof (cases e)
  case (JournalEntry x)
  with assms(2) show ?thesis
    by (auto simp: save_journal_entry_def Let_def builder_submitted_balanced [OF assms(1)]
        split: sum.splits option.splits)
next
  case (Payment x)
  with assms(2) show ?thesis
    by (auto simp: save_payment_def Let_def builder_submitted_balanced [OF assms(1)]
        submitted_balanced_log submitted_balanced_refl split: sum.splits option.splits)
next
  case (BillPayment x)
  with assms(2) show ?thesis
    by (auto simp: save_bill_payment_def Let_def builder_submitted_balanced [OF assms(1)]
        submitted_balanced_log submitted_balanced_refl split: sum.splits)
next
  case (Purchase x)
  with assms(2) show ?thesis
    by (auto simp: save_purchase_def Let_def builder_submitted_balanced [OF assms(1)]
        submitted_balanced_log submitted_balanced_refl split: sum.splits)
next
  case (Deposit x)
  with assms(2) show ?thesis
    by (auto simp: save_deposit_def Let_def builder_submitted_balanced [OF assms(1)]
        submitted_balanced_log submitted_balanced_refl split: sum.splits)
qed

lemma save_entries_submitted_balanced:
  assumes "rejects_imbalance F"
  shows "submitted_balanced d (snd (save_entries F m es d))"
proof (induction es arbitrary: d)
  case Nil
  show ?case by (simp add: submitted_balanced_refl)
next
  case (Cons e es)
  show ?case
  proof (cases "entity_method F m e d")
    case (Inl err)
    then show ?thesis by (simp add: submitted_balanced_refl)
  next
    case (Inr d')
    from entity_method_submitted_balanced [OF assms Inr] Cons.IH [of d'] Inr
    show ?thesis by (auto intro: submitted_balanced_trans)
  qed
qed

lemma migrate_entries_submitted_balanced:
  assumes "rejects_imbalance F"
  shows "submitted_balanced d (migrate_entries F m es d)"
  using save_entries_submitted_balanced [OF assms, of d m es]
  by (cases "save_entries F m es d")
     (auto simp: migrate_entries_def submitted_balanced_log split: option.splits)

lemma save_entity_as_je_submitted_balanced:
  assumes "rejects_imbalance F"
  shows "submitted_balanced d (save_entity_as_je F m kind le d)"
  by (auto simp: save_entity_as_je_def priv_save_ledger_entry_as_je_def Let_def
      builder_submitted_balanced [OF assms] submitted_balanced_log submitted_balanced_refl
      split: sum.splits)

text \<open>
  Claim C1, as the code has it. The builder checks no balance and undoes nothing: it
  stores what the storage collaborator accepts. With a storage that lets only balanced
  entries pass both \<open>insert()\<close> and \<open>submit()\<close>, every Journal Entry that the builder, a
  whole run of \<open>_save_entries\<close> under the handler of \<open>_migrate_entries\<close>, or the General
  Ledger path leaves submitted (\<open>docstatus\<close> 1) is balanced. An entry that \<open>insert()\<close>
  rejects is not stored. An entry that \<open>insert()\<close> accepts and \<open>submit()\<close> rejects stays
  stored as a draft.
\<close>

theorem C1_submitted_entries_are_balanced:
  "(rejects_imbalance F \<longrightarrow>
      submitted_balanced d (priv_save_journal_entry F m qid accs date d) \<and>
      submitted_balanced d (migrate_entries F m es d) \<and>
      submitted_balanced d (save_entity_as_je F m kind le d)) \<and>
   (\<not> je_insert_ok F (je_doc_of F m d qid accs date) \<longrightarrow>
      tabJournal_Entry (priv_save_journal_entry F m qid accs date d) = tabJournal_Entry d) \<and>
   (\<not> je_exists d qid (company m) \<longrightarrow> je_insert_ok F (je_doc_of F m d qid accs date) \<longrightarrow>
      \<not> je_submit_ok F (je_doc_of F m d qid accs date) \<longrightarrow>
      tabJournal_Entry (priv_save_journal_entry F m qid accs date d) =
        tabJournal_Entry d @ [je_doc_of F m d qid accs date])"
  using builder_submitted_balanced [of F d m qid accs date]
    migrate_entries_submitted_balanced [of F d m es]
    save_entity_as_je_submitted_balanced [of F d m kind le]
    builder_rejected_on_insert [of F m d qid accs date]
    builder_keeps_draft [of d qid m F accs date]
  by blast

text \<open>
  A storage that validates on submit only, and a list of rows with a single debit of
  100: the entry is inserted, the submit is refused, and the unbalanced draft stays under
  the key; a later call with balanced rows finds the key and leaves the draft as it is.
\<close>

theorem C1_counterexample:
  "stored_rows (priv_save_journal_entry submit_checking_frappe demo_migrator ''Journal Entry - 79''
      demo_rows_unbalanced ''2024-01-02'' demo_db)
     = [(''Journal Entry - 79'', 0, [(Some ''Bank - NX'', None, Some 100, None)])] \<and>
   balanced demo_rows_unbalanced = False \<and>
   stored_rows (priv_save_journal_entry submit_checking_frappe demo_migrator ''Journal Entry - 79''
      demo_rows ''2024-01-02''
      (priv_save_journal_entry submit_checking_frappe demo_migrator ''Journal Entry - 79''
         demo_rows_unbalanced ''2024-01-02'' demo_db))
     = [(''Journal Entry - 79'', 0, [(Some ''Bank - NX'', None, Some 100, None)])]"
  by code_simp

theorem C1_witness:
  "map (\<lambda>j. (je_docstatus j, balanced (je_accounts j)))
     (tabJournal_Entry (priv_save_journal_entry submit_checking_frappe demo_migrator
        ''Journal Entry - 78'' demo_rows ''2024-01-02'' demo_db)) = [(1, True)] \<and>
   tabJournal_Entry (priv_save_journal_entry demo_frappe demo_migrator ''Journal Entry - 79''
        demo_rows_unbalanced ''2024-01-02'' demo_db) = [] \<and>
   tabJournal_Entry (priv_save_journal_entry submit_checking_frappe demo_migrator
        ''Journal Entry - 79'' demo_rows_unbalanced ''2024-01-02'' demo_db)
     = [je_doc_of submit_checking_frappe demo_migrator demo_db ''Journal Entry - 79''
          demo_rows_unbalanced ''2024-01-02'']"
proof -
  let ?S = submit_checking_frappe
  have h: "rejects_imbalance ?S"
    by (simp add: rejects_imbalance_def submit_checking_frappe_def demo_frappe_def)
  have e: "tabJournal_Entry demo_db = []"
    by (simp add: demo_db_def)
  have n: "\<not> je_exists demo_db ''Journal Entry - 79'' (company demo_migrator)"
    by (simp add: je_exists_def e)
  have unbal: "\<not> balanced demo_rows_unbalanced"
    by (simp add: balanced_def demo_rows_unbalanced_def line_debit_def line_credit_def new_line_def)
  have no: "\<not> je_insert_ok demo_frappe
      (je_doc_of demo_frappe demo_migrator demo_db ''Journal Entry - 79'' demo_rows_unbalanced
         ''2024-01-02'')"
    using unbal by (simp add: demo_frappe_def je_doc_of_def)
  have ins: "je_insert_ok ?S
      (je_doc_of ?S demo_migrator demo_db ''Journal Entry - 79'' demo_rows_unbalanced ''2024-01-02'')"
    by (simp add: submit_checking_frappe_def)
  have sub: "\<not> je_submit_ok ?S
      (je_doc_of ?S demo_migrator demo_db ''Journal Entry - 79'' demo_rows_unbalanced ''2024-01-02'')"
    using unbal by (simp add: submit_checking_frappe_def je_doc_of_def)
  have run: "map je_docstatus (tabJournal_Entry (priv_save_journal_entry ?S demo_migrator
      ''Journal Entry - 78'' demo_rows ''2024-01-02'' demo_db)) = [1]"
    by code_simp
  from C1_submitted_entries_are_balanced [where F = ?S and m = demo_migrator
      and d = demo_db and qid = "''Journal Entry - 78''" and accs = demo_rows
      and date = "''2024-01-02''", THEN conjunct1, rule_format, OF h, THEN conjunct1] e
  have "list_all (\<lambda>j. je_docstatus j = 0 \<or> balanced (je_accounts j))
     (tabJournal_Entry (priv_save_journal_entry ?S demo_migrator ''Journal Entry - 78''
        demo_rows ''2024-01-02'' demo_db))"
    by (simp add: submitted_balanced_def list_all_iff)
  with run have 1: "map (\<lambda>j. (je_docstatus j, balanced (je_accounts j)))
     (tabJournal_Entry (priv_save_journal_entry ?S demo_migrator
        ''Journal Entry - 78'' demo_rows ''2024-01-02'' demo_db)) = [(1, True)]"
    by (cases "tabJournal_Entry (priv_save_journal_entry ?S demo_migrator
        ''Journal Entry - 78'' demo_rows ''2024-01-02'' demo_db)") auto
  from C1_submitted_entries_are_balanced [where F = demo_frappe and m = demo_migrator
      and d = demo_db and qid = "''Journal Entry - 79''" and accs = demo_rows_unbalanced
      and date = "''2024-01-02''",
      THEN conjunct2, THEN conjunct1, rule_format, OF no] e
  have 2: "tabJournal_Entry (priv_save_journal_entry demo_frappe demo_migrator ''Journal Entry - 79''
        demo_rows_unbalanced ''2024-01-02'' demo_db) = []"
    by simp
  from C1_submitted_entries_are_balanced [where F = ?S and m = demo_migrator
      and d = demo_db and qid = "''Journal Entry - 79''" and accs = demo_rows_unbalanced
      and date = "''2024-01-02''",
      THEN conjunct2, THEN conjunct2, rule_format, OF n ins sub] e
  have 3: "tabJournal_Entry (priv_save_journal_entry ?S demo_migrator
        ''Journal Entry - 79'' demo_rows_unbalanced ''2024-01-02'' demo_db)
     = [je_doc_of ?S demo_migrator demo_db ''Journal Entry - 79'' demo_rows_unbalanced ''2024-01-02'']"
    by simp
  from 1 2 3 show ?thesis by simp
qed

end
